(* ===== verification/Prelude.thy ===== *)
theory Prelude
  imports Complex_Main "HOL-Library.Sublist" "HOL-Library.AList"
begin

text \<open>
  The Python runtime the handlers of \<open>src/app\<close> rely on, modelled once and shared by
  every component: the JSON values a request body parses to and a response is built
  from, the exceptions the handlers raise and catch, \<open>str()\<close> of an exception,
  \<open>dict.get\<close> and subscripting, decimal printing of integers, and the
  \<open>round(x, 2)\<close> of the financial forecast. Python floats are modelled as exact
  rationals (\<open>rat\<close>): the rounding error of binary floating point is not modelled.
  The collection \<open>py_defs\<close> gathers the definitions a concrete evaluation unfolds.
\<close>

named_theorems py_defs "definitions of the Python runtime model, unfolded by concrete evaluation"

section \<open>Values and exceptions\<close>

text \<open>A parsed JSON document, as \<open>json.loads\<close> returns it: an object is a list of
  key/value pairs in document order (a later duplicate key wins, as in a Python dict).\<close>

datatype json =
    JNull
  | JBool bool
  | JInt int
  | JFloat rat
  | JStr string
  | JList "json list"
  | JObj "(string \<times> json) list"

text \<open>The exceptions that reach the \<open>except Exception\<close> clauses of the handlers.
  \<open>HTTPException\<close> is FastAPI's (a subclass of \<open>Exception\<close>, so a bare
  \<open>except Exception\<close> catches it too); \<open>ServiceError\<close> is any exception raised by a
  vendor SDK (OpenAI, Razorpay, Stripe) with the text \<open>str(e)\<close> gives.\<close>

datatype exc =
    HTTPException int string
  | TypeError string
  | ValueError string
  | KeyError string
  | AttributeError string
  | SignatureVerificationError string
  | ServiceError string

type_synonym 'a result = "exc + 'a"

section \<open>Decimal printing\<close>

definition digit_char :: "nat \<Rightarrow> char" where
  [py_defs]: "digit_char d = char_of (48 + d)"

fun show_nat :: "nat \<Rightarrow> string" where
  "show_nat n = (if n < 10 then [digit_char n] else show_nat (n div 10) @ [digit_char (n mod 10)])"

declare show_nat.simps [simp del]

definition show_int :: "int \<Rightarrow> string" where
  [py_defs]: "show_int i = (if i < 0 then CHR ''-'' # show_nat (nat (- i)) else show_nat (nat i))"

definition quote_char :: char where
  [py_defs]: "quote_char = CHR 0x27"

text \<open>\<open>type(v).__name__\<close> of a JSON value.\<close>

fun type_name :: "json \<Rightarrow> string" where
  "type_name JNull = ''NoneType''"
| "type_name (JBool _) = ''bool''"
| "type_name (JInt _) = ''int''"
| "type_name (JFloat _) = ''float''"
| "type_name (JStr _) = ''str''"
| "type_name (JList _) = ''list''"
| "type_name (JObj _) = ''dict''"

text \<open>\<open>str(e)\<close>. Starlette's \<open>HTTPException.__str__\<close> is
  \<open>f"{self.status_code}: {self.detail}"\<close>; \<open>str(KeyError(k))\<close> is \<open>repr(k)\<close>.\<close>

fun exc_str :: "exc \<Rightarrow> string" where
  "exc_str (HTTPException s d) = show_int s @ '': '' @ d"
| "exc_str (TypeError m) = m"
| "exc_str (ValueError m) = m"
| "exc_str (KeyError k) = quote_char # k @ [quote_char]"
| "exc_str (AttributeError m) = m"
| "exc_str (SignatureVerificationError m) = m"
| "exc_str (ServiceError m) = m"

section \<open>Exceptions as values\<close>

definition sbind :: "'a result \<Rightarrow> ('a \<Rightarrow> 'b result) \<Rightarrow> 'b result" where
  "sbind r f = (case r of Inl e \<Rightarrow> Inl e | Inr v \<Rightarrow> f v)"

text \<open>The handlers' shared \<open>except Exception as e: raise HTTPException(500,
  detail=pre + str(e))\<close>; \<open>pre\<close> is empty in every handler but the business plan's.\<close>

definition catch_all :: "string \<Rightarrow> 'a result \<Rightarrow> 'a result" where
  "catch_all pre r = (case r of Inl e \<Rightarrow> Inl (HTTPException 500 (pre @ exc_str e)) | Inr v \<Rightarrow> Inr v)"

section \<open>Dictionaries\<close>

definition no_attr :: "json \<Rightarrow> string \<Rightarrow> exc" where
  [py_defs]: "no_attr v a = AttributeError (quote_char # type_name v @ quote_char # '' object has no attribute ''
                                         @ quote_char # a @ [quote_char])"

text \<open>\<open>d.get(k, default)\<close>: a JSON body that is not an object has no \<open>get\<close>.\<close>

definition obj_get :: "(string \<times> json) list \<Rightarrow> string \<Rightarrow> json \<Rightarrow> json" where
  "obj_get kvs k dflt = (case map_of (rev kvs) k of Some v \<Rightarrow> v | None \<Rightarrow> dflt)"

fun py_get :: "json \<Rightarrow> string \<Rightarrow> json \<Rightarrow> json result" where
  "py_get (JObj kvs) k dflt = Inr (obj_get kvs k dflt)"
| "py_get v k dflt = Inl (no_attr v ''get'')"

text \<open>\<open>d[k]\<close> on a dict: \<open>KeyError\<close> for a missing key.\<close>

fun py_getitem :: "json \<Rightarrow> string \<Rightarrow> json result" where
  "py_getitem (JObj kvs) k = (case map_of (rev kvs) k of Some v \<Rightarrow> Inr v | None \<Rightarrow> Inl (KeyError k))"
| "py_getitem v k = Inl (TypeError (quote_char # type_name v @ quote_char # '' object is not subscriptable''))"

section \<open>round(x, 2)\<close>

text \<open>CPython rounds a float to \<open>n\<close> decimals correctly, halves to even. On the exact
  value \<open>y = 100 x\<close>: the nearer integer, the even one on a tie.\<close>

definition round_half_even :: "rat \<Rightarrow> int" where
  [py_defs]: "round_half_even y =
     (let f = \<lfloor>y\<rfloor>; d = y - of_int f in
      if d < 1/2 then f else if 1/2 < d then f + 1 else if even f then f else f + 1)"

definition py_round2 :: "rat \<Rightarrow> rat" where
  [py_defs]: "py_round2 x = of_int (round_half_even (x * 100)) / 100"

section \<open>Shared lemmas\<close>

lemma sbind_Inl [simp]: "sbind (Inl e) f = Inl e"
  and sbind_Inr [simp]: "sbind (Inr v) f = f v"
  by (simp_all add: sbind_def)

lemma catch_all_Inl [simp]: "catch_all pre (Inl e) = Inl (HTTPException 500 (pre @ exc_str e))"
  and catch_all_Inr [simp]: "catch_all pre (Inr v) = Inr v"
  by (simp_all add: catch_all_def)

lemma catch_all_status: "catch_all pre r = Inl e \<Longrightarrow> \<exists>d. e = HTTPException 500 d"
  by (cases r) auto

lemma of_char_digit_char [simp]: "d < 10 \<Longrightarrow> of_char (digit_char d) = 48 + d"
  by (simp add: digit_char_def)

lemma show_nat_nonempty [simp]: "show_nat n \<noteq> []"
  by (subst show_nat.simps) simp

lemma round_half_even_dist: "\<bar>y - of_int (round_half_even y)\<bar> \<le> 1/2"
proof -
  have lo: "of_int \<lfloor>y\<rfloor> \<le> y" and hi: "y < of_int \<lfloor>y\<rfloor> + 1"
    using floor_correct [of y] by simp_all
  show ?thesis
    unfolding round_half_even_def Let_def abs_le_iff using lo hi by (auto; linarith)
qed

lemma round_half_even_mono:
  assumes "x \<le> y" shows "round_half_even x \<le> round_half_even y"
proof (rule ccontr)
  assume "\<not> round_half_even x \<le> round_half_even y"
  then have "round_half_even y + 1 \<le> round_half_even x" by simp
  then have le: "of_int (round_half_even y) + 1 \<le> (of_int (round_half_even x) :: rat)"
    by (metis of_int_1 of_int_add of_int_le_iff)
  have dx: "\<bar>x - of_int (round_half_even x)\<bar> \<le> 1/2" and dy: "\<bar>y - of_int (round_half_even y)\<bar> \<le> 1/2"
    by (rule round_half_even_dist)+
  from dx dy le assms have "x = y" unfolding abs_le_iff by linarith
  with \<open>\<not> round_half_even x \<le> round_half_even y\<close> show False by simp
qed

lemma py_round2_mono [intro]: "x \<le> y \<Longrightarrow> py_round2 x \<le> py_round2 y"
  by (simp add: py_round2_def divide_right_mono round_half_even_mono)

lemma round_half_even_of_int [simp]: "round_half_even (of_int k) = k"
  by (simp add: round_half_even_def)

lemma upto_nat: "[1..k] = [1..int (nat k)]"
  by (cases "k < 0") (simp_all add: upto.simps)

text \<open>The first element of an integer range whose image satisfies \<open>P\<close>, as
  \<open>next(...)\<close> over a generator finds it.\<close>

lemma find_map_upto_Some:
  "find P (map f [a..b]) = Some x \<longleftrightarrow>
     (\<exists>m. a \<le> m \<and> m \<le> b \<and> P (f m) \<and> x = f m \<and> (\<forall>j. a \<le> j \<and> j < m \<longrightarrow> \<not> P (f j)))"
proof (induction a b rule: upto.induct)
  case (1 a b)
  show ?case
  proof (cases "a \<le> b")
    case False
    then show ?thesis by (simp add: upto.simps)
  next
    case True
    then have ab: "[a..b] = a # [a + 1..b]" by (simp add: upto.simps)
    show ?thesis
    proof (cases "P (f a)")
      case Pa: True
      show ?thesis
      proof
        assume "find P (map f [a..b]) = Some x"
        with ab Pa have "x = f a" by simp
        with Pa True show "\<exists>m. a \<le> m \<and> m \<le> b \<and> P (f m) \<and> x = f m \<and> (\<forall>j. a \<le> j \<and> j < m \<longrightarrow> \<not> P (f j))"
          by auto
      next
        assume "\<exists>m. a \<le> m \<and> m \<le> b \<and> P (f m) \<and> x = f m \<and> (\<forall>j. a \<le> j \<and> j < m \<longrightarrow> \<not> P (f j))"
        then obtain m where m: "a \<le> m" "x = f m" "\<forall>j. a \<le> j \<and> j < m \<longrightarrow> \<not> P (f j)"
          by blast
        with Pa have "m = a" by force
        with m ab Pa show "find P (map f [a..b]) = Some x" by simp
      qed
    next
      case Pa: False
      have "find P (map f [a..b]) = find P (map f [a + 1..b])" using ab Pa by simp
      also have "\<dots> = Some x \<longleftrightarrow> (\<exists>m. a + 1 \<le> m \<and> m \<le> b \<and> P (f m) \<and> x = f m \<and>
                   (\<forall>j. a + 1 \<le> j \<and> j < m \<longrightarrow> \<not> P (f j)))"
        using "1" True by simp
      also have "\<dots> \<longleftrightarrow> (\<exists>m. a \<le> m \<and> m \<le> b \<and> P (f m) \<and> x = f m \<and>
                   (\<forall>j. a \<le> j \<and> j < m \<longrightarrow> \<not> P (f j)))"
      proof
        assume "\<exists>m. a + 1 \<le> m \<and> m \<le> b \<and> P (f m) \<and> x = f m \<and> (\<forall>j. a + 1 \<le> j \<and> j < m \<longrightarrow> \<not> P (f j))"
        then obtain m where m: "a + 1 \<le> m" "m \<le> b" "P (f m)" "x = f m"
            "\<forall>j. a + 1 \<le> j \<and> j < m \<longrightarrow> \<not> P (f j)" by blast
        have "\<forall>j. a \<le> j \<and> j < m \<longrightarrow> \<not> P (f j)"
        proof (intro allI impI)
          fix j assume "a \<le> j \<and> j < m"
          then consider "j = a" | "a + 1 \<le> j \<and> j < m" by linarith
          then show "\<not> P (f j)" using Pa m(5) by cases auto
        qed
        moreover have "a \<le> m" using m(1) by simp
        ultimately show "\<exists>m. a \<le> m \<and> m \<le> b \<and> P (f m) \<and> x = f m \<and> (\<forall>j. a \<le> j \<and> j < m \<longrightarrow> \<not> P (f j))"
          using m(2-4) by blast
      next
        assume "\<exists>m. a \<le> m \<and> m \<le> b \<and> P (f m) \<and> x = f m \<and> (\<forall>j. a \<le> j \<and> j < m \<longrightarrow> \<not> P (f j))"
        then obtain m where m: "a \<le> m" "m \<le> b" "P (f m)" "x = f m"
            "\<forall>j. a \<le> j \<and> j < m \<longrightarrow> \<not> P (f j)" by blast
        with Pa have "m \<noteq> a" by auto
        with m(1) have "a + 1 \<le> m" by simp
        moreover have "\<forall>j. a + 1 \<le> j \<and> j < m \<longrightarrow> \<not> P (f j)" using m(5) by simp
        ultimately show "\<exists>m. a + 1 \<le> m \<and> m \<le> b \<and> P (f m) \<and> x = f m \<and> (\<forall>j. a + 1 \<le> j \<and> j < m \<longrightarrow> \<not> P (f j))"
          using m(2-4) by blast
      qed
      finally show ?thesis .
    qed
  qed
qed

lemma find_map_upto_None:
  "find P (map f [a..b]) = None \<longleftrightarrow> (\<forall>m. a \<le> m \<and> m \<le> b \<longrightarrow> \<not> P (f m))"
  by (auto simp: find_None_iff)

end
