(* ===== verification/Forecast.thy ===== *)
theory Forecast
  imports Prelude
begin

text \<open>
  The projection loop of \<open>generate_financial_forecast\<close>
  (\<open>src/app/ai_tools/financial_forecast.py\<close>): the request record, the monthly
  revenue and cost formulas, one loop iteration as a step on the loop's three variables
  (\<open>projections\<close>, \<open>cumulative_revenue\<close>, \<open>cumulative_costs\<close>), the loop as a
  left fold over \<open>range(1, forecast_months + 1)\<close>, the break-even search and the summary.
  The lemmas give the loop's closed form (every row as a function of its month), the
  number of rows, the break-even month as the first month whose rounded cumulative profit
  exceeds the investment, and the monotonicity the spec states for revenue and costs.
\<close>

section \<open>Data\<close>

record forecast_request =
  fr_business_name :: string
  fr_industry :: string
  initial_investment :: rat
  monthly_revenue_month1 :: rat
  monthly_costs :: rat
  growth_rate :: rat
  forecast_months :: int

text \<open>One entry of \<open>projections\<close>: the dict appended in each iteration.\<close>

record projection =
  p_month :: int
  p_revenue :: rat
  p_costs :: rat
  p_profit :: rat
  p_cumulative_revenue :: rat
  p_cumulative_profit :: rat

record forecast_state =
  projections :: "projection list"
  cumulative_revenue :: rat
  cumulative_costs :: rat

section \<open>The loop\<close>

definition month_revenue :: "forecast_request \<Rightarrow> int \<Rightarrow> rat" where
  "month_revenue r month = monthly_revenue_month1 r * (1 + growth_rate r / 100) ^ nat (month - 1)"

definition month_costs :: "forecast_request \<Rightarrow> int \<Rightarrow> rat" where
  "month_costs r month = monthly_costs r * (102 / 100) ^ nat (month - 1)"

definition forecast_step :: "forecast_request \<Rightarrow> forecast_state \<Rightarrow> int \<Rightarrow> forecast_state" where
  "forecast_step r st month =
     (let revenue = month_revenue r month;
          costs = month_costs r month;
          profit = revenue - costs;
          cr = cumulative_revenue st + revenue;
          cc = cumulative_costs st + costs
      in \<lparr>projections = projections st @
            [\<lparr>p_month = month, p_revenue = py_round2 revenue, p_costs = py_round2 costs,
              p_profit = py_round2 profit, p_cumulative_revenue = py_round2 cr,
              p_cumulative_profit = py_round2 (cr - cc)\<rparr>],
          cumulative_revenue = cr, cumulative_costs = cc\<rparr>)"

definition forecast_init :: forecast_state where
  "forecast_init = \<lparr>projections = [], cumulative_revenue = 0, cumulative_costs = 0\<rparr>"

definition run_forecast :: "forecast_request \<Rightarrow> forecast_state" where
  "run_forecast r = foldl (forecast_step r) forecast_init [1..forecast_months r]"

text \<open>\<open>next((p["month"] for p in projections if p["cumulative_profit"] >
  initial_investment), None)\<close>.\<close>

definition break_even_month :: "projection list \<Rightarrow> rat \<Rightarrow> int option" where
  "break_even_month ps investment =
     map_option p_month (find (\<lambda>p. investment < p_cumulative_profit p) ps)"

record forecast_summary =
  break_even :: "int option"
  total_revenue_forecast :: rat
  total_profit_forecast :: rat

definition summarize :: "forecast_request \<Rightarrow> forecast_state \<Rightarrow> forecast_summary" where
  "summarize r st =
     \<lparr>break_even = break_even_month (projections st) (initial_investment r),
      total_revenue_forecast = py_round2 (cumulative_revenue st),
      total_profit_forecast = py_round2 (cumulative_revenue st - cumulative_costs st)\<rparr>"

section \<open>Closed form\<close>

text \<open>The reference: month \<open>m\<close>'s row computed directly from the formulas, the
  cumulative sums written as sums over the months \<open>1..m\<close>.\<close>

definition cum_revenue :: "forecast_request \<Rightarrow> int \<Rightarrow> rat" where
  "cum_revenue r m = sum_list (map (month_revenue r) [1..m])"

definition cum_costs :: "forecast_request \<Rightarrow> int \<Rightarrow> rat" where
  "cum_costs r m = sum_list (map (month_costs r) [1..m])"

definition forecast_row :: "forecast_request \<Rightarrow> int \<Rightarrow> projection" where
  "forecast_row r m =
     \<lparr>p_month = m, p_revenue = py_round2 (month_revenue r m), p_costs = py_round2 (month_costs r m),
      p_profit = py_round2 (month_revenue r m - month_costs r m),
      p_cumulative_revenue = py_round2 (cum_revenue r m),
      p_cumulative_profit = py_round2 (cum_revenue r m - cum_costs r m)\<rparr>"

section \<open>Sample inputs\<close>

text \<open>The example of the spec (section 8) and three small requests used by the witnesses.\<close>

definition spec_example :: forecast_request where
  "spec_example = \<lparr>fr_business_name = ''Acme'', fr_industry = ''SaaS'', initial_investment = 100000,
     monthly_revenue_month1 = 20000, monthly_costs = 15000, growth_rate = 5, forecast_months = 12\<rparr>"

definition breaks_even_example :: forecast_request where
  "breaks_even_example = \<lparr>fr_business_name = ''Cafe'', fr_industry = ''Food'', initial_investment = 1000,
     monthly_revenue_month1 = 2000, monthly_costs = 1000, growth_rate = 0, forecast_months = 3\<rparr>"

definition never_breaks_even_example :: forecast_request where
  "never_breaks_even_example = \<lparr>fr_business_name = ''Shop'', fr_industry = ''Retail'', initial_investment = 1000,
     monthly_revenue_month1 = 1000, monthly_costs = 1000, growth_rate = 0, forecast_months = 2\<rparr>"

definition tiny_revenue_example :: forecast_request where
  "tiny_revenue_example = \<lparr>fr_business_name = ''Lab'', fr_industry = ''Research'', initial_investment = 0,
     monthly_revenue_month1 = 1 / 1000, monthly_costs = 0, growth_rate = 1, forecast_months = 2\<rparr>"

section \<open>The loop against its closed form\<close>

lemma upto_snoc: "[1..1 + int n] = [1..int n] @ [1 + int n]"
  by (simp add: upto_rec2)

lemma cum_snoc:
  "cum_revenue r (1 + int n) = cum_revenue r (int n) + month_revenue r (1 + int n)"
  "cum_costs r (1 + int n) = cum_costs r (int n) + month_costs r (1 + int n)"
  by (simp_all add: cum_revenue_def cum_costs_def upto_snoc)

lemma run_forecast_upto:
  "foldl (forecast_step r) forecast_init [1..int n] =
     \<lparr>projections = map (forecast_row r) [1..int n],
      cumulative_revenue = cum_revenue r (int n), cumulative_costs = cum_costs r (int n)\<rparr>"
proof (induction n)
  case 0
  then show ?case by (simp add: forecast_init_def cum_revenue_def cum_costs_def)
next
  case (Suc n)
  with Suc.IH show ?case
    by (simp add: upto_snoc forecast_step_def forecast_row_def cum_snoc Let_def)
qed

lemma run_forecast_state:
  "run_forecast r = \<lparr>projections = map (forecast_row r) [1..forecast_months r],
      cumulative_revenue = cum_revenue r (forecast_months r),
      cumulative_costs = cum_costs r (forecast_months r)\<rparr>"
proof -
  have "run_forecast r = foldl (forecast_step r) forecast_init [1..int (nat (forecast_months r))]"
    by (subst upto_nat) (simp add: run_forecast_def)
  also have "\<dots> = \<lparr>projections = map (forecast_row r) [1..int (nat (forecast_months r))],
      cumulative_revenue = cum_revenue r (int (nat (forecast_months r))),
      cumulative_costs = cum_costs r (int (nat (forecast_months r)))\<rparr>"
    by (rule run_forecast_upto)
  also have "\<dots> = \<lparr>projections = map (forecast_row r) [1..forecast_months r],
      cumulative_revenue = cum_revenue r (forecast_months r),
      cumulative_costs = cum_costs r (forecast_months r)\<rparr>"
    unfolding cum_revenue_def cum_costs_def by (simp only: upto_nat [symmetric])
  finally show ?thesis .
qed

lemma projections_run_forecast:
  "projections (run_forecast r) = map (forecast_row r) [1..forecast_months r]"
  by (simp add: run_forecast_state)

lemma nth_run_forecast:
  "i < length (projections (run_forecast r)) \<Longrightarrow>
     projections (run_forecast r) ! i = forecast_row r (1 + int i)"
  by (simp add: projections_run_forecast)

lemma revenue_mono:
  assumes "0 \<le> growth_rate r" "0 \<le> monthly_revenue_month1 r" "m \<le> m'"
  shows "month_revenue r m \<le> month_revenue r m'"
proof -
  have "nat (m - 1) \<le> nat (m' - 1)" using assms(3) by simp
  moreover have "1 \<le> 1 + growth_rate r / 100" using assms(1) by simp
  ultimately have "(1 + growth_rate r / 100) ^ nat (m - 1) \<le> (1 + growth_rate r / 100) ^ nat (m' - 1)"
    by (rule power_increasing)
  with assms(2) show ?thesis by (simp add: month_revenue_def mult_left_mono)
qed

lemma last_upto: "1 \<le> k \<Longrightarrow> last [1..k] = k"
  by (metis last_snoc upto_rec2)

section \<open>Properties\<close>

text \<open>C1. The break-even month reported in the summary is the first month, within the
  horizon, whose rounded cumulative profit exceeds the initial investment.\<close>

theorem break_even_first:
  "break_even_month (projections (run_forecast r)) (initial_investment r) = Some m \<longleftrightarrow>
     1 \<le> m \<and> m \<le> forecast_months r \<and>
     initial_investment r < p_cumulative_profit (forecast_row r m) \<and>
     (\<forall>j. 1 \<le> j \<and> j < m \<longrightarrow> \<not> initial_investment r < p_cumulative_profit (forecast_row r j))"
  unfolding break_even_month_def projections_run_forecast
  by (auto simp: find_map_upto_Some forecast_row_def)

theorem break_even_first_witness:
  "break_even_month (projections (run_forecast breaks_even_example))
     (initial_investment breaks_even_example) = Some 2"
proof -
  have one: "\<not> initial_investment breaks_even_example < p_cumulative_profit (forecast_row breaks_even_example 1)"
    by code_simp
  have two: "initial_investment breaks_even_example < p_cumulative_profit (forecast_row breaks_even_example 2)"
    by code_simp
  have "\<forall>j. 1 \<le> j \<and> j < 2 \<longrightarrow>
      \<not> initial_investment breaks_even_example < p_cumulative_profit (forecast_row breaks_even_example j)"
  proof (intro allI impI)
    fix j :: int
    assume "1 \<le> j \<and> j < 2"
    then have "j = 1" by auto
    with one show "\<not> initial_investment breaks_even_example < p_cumulative_profit (forecast_row breaks_even_example j)"
      by simp
  qed
  with two show ?thesis
    using break_even_first [of breaks_even_example 2] by (simp add: breaks_even_example_def)
qed

text \<open>C2. No break-even month is reported exactly when no month of the horizon has a
  rounded cumulative profit above the investment.\<close>

theorem break_even_none:
  "break_even_month (projections (run_forecast r)) (initial_investment r) = None \<longleftrightarrow>
     (\<forall>m. 1 \<le> m \<and> m \<le> forecast_months r \<longrightarrow>
        \<not> initial_investment r < p_cumulative_profit (forecast_row r m))"
  unfolding break_even_month_def projections_run_forecast
  by (simp add: find_map_upto_None)

theorem break_even_none_witness:
  "break_even_month (projections (run_forecast never_breaks_even_example))
     (initial_investment never_breaks_even_example) = None"
proof -
  have "\<not> initial_investment never_breaks_even_example < p_cumulative_profit (forecast_row never_breaks_even_example 1)"
    and "\<not> initial_investment never_breaks_even_example < p_cumulative_profit (forecast_row never_breaks_even_example 2)"
    by code_simp+
  moreover have "\<forall>m::int. 1 \<le> m \<and> m \<le> 2 \<longrightarrow> m = 1 \<or> m = 2" by auto
  ultimately show ?thesis
    using break_even_none [of never_breaks_even_example] by (auto simp: never_breaks_even_example_def)
qed

text \<open>C3. The loop produces one row per month of \<open>range(1, forecast_months + 1)\<close>:
  \<open>forecast_months\<close> rows, none when the horizon is zero or negative (the code does not
  reject a negative horizon).\<close>

theorem forecast_length:
  "length (projections (run_forecast r)) = nat (forecast_months r)"
  by (simp add: projections_run_forecast)

text \<open>C4. The accumulators of the loop equal the sums of the monthly formulas: the
  summary's totals are the rounded sums of revenue and of profit over the horizon.\<close>

theorem summary_totals:
  "total_revenue_forecast (summarize r (run_forecast r)) =
     py_round2 (sum_list (map (month_revenue r) [1..forecast_months r])) \<and>
   total_profit_forecast (summarize r (run_forecast r)) =
     py_round2 (sum_list (map (month_revenue r) [1..forecast_months r]) -
                sum_list (map (month_costs r) [1..forecast_months r]))"
  by (simp add: summarize_def run_forecast_state cum_revenue_def cum_costs_def)

text \<open>C5. With zero growth every month's rounded revenue is the rounded first-month
  revenue.\<close>

theorem zero_growth:
  assumes "growth_rate r = 0" and "p \<in> set (projections (run_forecast r))"
  shows "p_revenue p = py_round2 (monthly_revenue_month1 r)"
  using assms by (auto simp: projections_run_forecast forecast_row_def month_revenue_def)

theorem zero_growth_witness:
  "growth_rate breaks_even_example = 0 \<and>
   forecast_row breaks_even_example 3 \<in> set (projections (run_forecast breaks_even_example)) \<and>
   p_revenue (forecast_row breaks_even_example 3) = 2000"
proof -
  have g: "growth_rate breaks_even_example = 0" by (simp add: breaks_even_example_def)
  have p: "forecast_row breaks_even_example 3 \<in> set (projections (run_forecast breaks_even_example))"
    by (simp add: projections_run_forecast breaks_even_example_def)
  have "py_round2 (monthly_revenue_month1 breaks_even_example) = 2000" by code_simp
  with g p zero_growth [OF g p] show ?thesis by simp
qed

text \<open>C6. With non-negative growth and revenue, the rounded revenue column of the table
  never decreases.\<close>

theorem rounded_revenue_mono:
  assumes "0 \<le> growth_rate r" "0 \<le> monthly_revenue_month1 r"
    and "i \<le> j" "j < length (projections (run_forecast r))"
  shows "p_revenue (projections (run_forecast r) ! i) \<le> p_revenue (projections (run_forecast r) ! j)"
  using assms by (simp add: nth_run_forecast forecast_row_def py_round2_mono revenue_mono)

theorem rounded_revenue_mono_witness:
  "p_revenue (projections (run_forecast spec_example) ! 0) \<le> p_revenue (projections (run_forecast spec_example) ! 5)"
  by (rule rounded_revenue_mono) (simp_all add: spec_example_def projections_run_forecast)

text \<open>C7. The summary's total profit is the cumulative profit of the table's last row.\<close>

theorem summary_last:
  assumes "1 \<le> forecast_months r"
  shows "total_profit_forecast (summarize r (run_forecast r)) =
           p_cumulative_profit (last (projections (run_forecast r)))"
proof -
  have "[1..forecast_months r] \<noteq> []" using assms by simp
  then show ?thesis using last_upto [OF assms]
    by (simp add: summarize_def run_forecast_state last_map forecast_row_def)
qed

theorem summary_last_witness:
  "total_profit_forecast (summarize spec_example (run_forecast spec_example)) =
     p_cumulative_profit (last (projections (run_forecast spec_example)))"
  by (rule summary_last) (simp add: spec_example_def)

text \<open>The spec's example: investment 100000, revenue 20000, costs 15000, growth 5\%,
  12 months; the first two rows are 20000/15000/5000 and 21000/15300/5700.\<close>

theorem forecast_spec_example:
  "length (projections (run_forecast spec_example)) = 12 \<and>
   projections (run_forecast spec_example) ! 0 =
     \<lparr>p_month = 1, p_revenue = 20000, p_costs = 15000, p_profit = 5000,
      p_cumulative_revenue = 20000, p_cumulative_profit = 5000\<rparr> \<and>
   projections (run_forecast spec_example) ! 1 =
     \<lparr>p_month = 2, p_revenue = 21000, p_costs = 15300, p_profit = 5700,
      p_cumulative_revenue = 41000, p_cumulative_profit = 10700\<rparr>"
proof -
  have len: "length (projections (run_forecast spec_example)) = 12"
    by (simp add: projections_run_forecast spec_example_def)
  have "forecast_row spec_example 1 = \<lparr>p_month = 1, p_revenue = 20000, p_costs = 15000, p_profit = 5000,
      p_cumulative_revenue = 20000, p_cumulative_profit = 5000\<rparr>"
    and "forecast_row spec_example 2 = \<lparr>p_month = 2, p_revenue = 21000, p_costs = 15300, p_profit = 5700,
      p_cumulative_revenue = 41000, p_cumulative_profit = 10700\<rparr>"
    by code_simp+
  with len show ?thesis by (simp add: nth_run_forecast)
qed

end
