(* ===== verification/PyStr.thy ===== *)
theory PyStr
  imports Prelude
begin

text \<open>
  The Python \<open>str\<close> operations the handlers call, on strings of Latin-1 code points
  (one \<open>char\<close> per code point below 256): \<open>str.isspace\<close>, \<open>str.lower\<close>, the
  substring test \<open>needle in hay\<close>, \<open>str.split()\<close> with no separator,
  \<open>sep.join(ws)\<close>, \<open>str.strip()\<close>, \<open>repr\<close>, and the triple-quoted f-string layout of
  the prompt templates. The lemmas show \<open>in\<close> equal to the library's \<open>sublist\<close>,
  \<open>split\<close> to return non-empty whitespace-free words whose concatenation is the input
  without its whitespace, and \<open>split\<close> to invert \<open>' '.join\<close> on such words.
\<close>

section \<open>Characters\<close>

text \<open>\<open>str.isspace\<close> below U+0100: tab to carriage return, the separators U+001C to
  U+001F, space, NEL (U+0085) and no-break space (U+00A0).\<close>

definition is_space :: "char \<Rightarrow> bool" where
  [py_defs]: "is_space c = (let n = of_char c :: nat in
     (9 \<le> n \<and> n \<le> 13) \<or> (28 \<le> n \<and> n \<le> 32) \<or> n = 133 \<or> n = 160)"

text \<open>\<open>str.lower\<close> below U+0100: A-Z and the Latin-1 capitals U+00C0 to U+00DE but
  the multiplication sign U+00D7 move up by 32; nothing else changes.\<close>

definition lower_char :: "char \<Rightarrow> char" where
  [py_defs]: "lower_char c = (let n = of_char c :: nat in
     if (65 \<le> n \<and> n \<le> 90) \<or> (192 \<le> n \<and> n \<le> 222 \<and> n \<noteq> 215) then char_of (n + 32) else c)"

definition py_lower :: "string \<Rightarrow> string" where
  "py_lower s = map lower_char s"

definition is_digit :: "char \<Rightarrow> bool" where
  [py_defs]: "is_digit c = (let n = of_char c :: nat in 48 \<le> n \<and> n \<le> 57)"

text \<open>\<open>f"{x}"\<close> for an \<open>Optional[str]\<close> field: \<open>None\<close> prints as \<open>None\<close>.\<close>

definition py_fmt_opt :: "string option \<Rightarrow> string" where
  [py_defs]: "py_fmt_opt x = (case x of None \<Rightarrow> ''None'' | Some s \<Rightarrow> s)"

text \<open>\<open>x or 'default'\<close> for an \<open>Optional[str]\<close>: \<open>None\<close> and the empty
  string are false.\<close>

definition py_or_str :: "string option \<Rightarrow> string \<Rightarrow> string" where
  [py_defs]: "py_or_str x dflt = (case x of None \<Rightarrow> dflt | Some s \<Rightarrow> if s = [] then dflt else s)"

section \<open>Substrings\<close>

text \<open>\<open>needle in hay\<close>: some suffix of \<open>hay\<close> starts with \<open>needle\<close>.\<close>

fun py_in :: "string \<Rightarrow> string \<Rightarrow> bool" where
  "py_in n [] = (n = [])"
| "py_in n (c # cs) = (prefix n (c # cs) \<or> py_in n cs)"

section \<open>split, join, strip\<close>

text \<open>\<open>str.split()\<close>: skip whitespace, take the maximal run of non-whitespace as a
  word, repeat until the string is used up.\<close>

function py_split :: "string \<Rightarrow> string list" where
  "py_split s =
     (let s' = dropWhile is_space s in
      if s' = [] then []
      else takeWhile (\<lambda>c. \<not> is_space c) s' # py_split (dropWhile (\<lambda>c. \<not> is_space c) s'))"
  by pat_completeness auto
termination
proof (relation "measure length")
  fix s s' :: string
  assume s': "s' = dropWhile is_space s" and ne: "s' \<noteq> []"
  then have hd: "\<not> is_space (hd s')" by (metis hd_dropWhile)
  from ne hd have "length (dropWhile (\<lambda>c. \<not> is_space c) s') < length s'"
    by (cases s') (auto simp: le_imp_less_Suc length_dropWhile_le)
  also have "length s' \<le> length s" using s' by (simp add: length_dropWhile_le)
  finally show "(dropWhile (\<lambda>c. \<not> is_space c) s', s) \<in> measure length" by simp
qed simp

declare py_split.simps [simp del]

fun py_join :: "string \<Rightarrow> string list \<Rightarrow> string" where
  "py_join sep [] = []"
| "py_join sep [w] = w"
| "py_join sep (w # ws) = w @ sep @ py_join sep ws"

text \<open>\<open>s.split(sep)\<close> for a one-character separator: every occurrence splits, empty
  pieces are kept.\<close>

fun py_split_char :: "char \<Rightarrow> string \<Rightarrow> string list" where
  "py_split_char c [] = [[]]"
| "py_split_char c (x # xs) =
     (if x = c then [] # py_split_char c xs else (let r = py_split_char c xs in (x # hd r) # tl r))"

definition py_strip :: "string \<Rightarrow> string" where
  "py_strip s = rev (dropWhile is_space (rev (dropWhile is_space s)))"

section \<open>repr\<close>

text \<open>\<open>repr(s)\<close>: single quotes unless the string holds a single quote and no double
  quote; backslash, the quote in use, tab, newline and carriage return escaped; other
  control characters, DEL, U+0080 to U+00A0 and the soft hyphen U+00AD as \<open>\xhh\<close>.\<close>

definition hex_digit :: "nat \<Rightarrow> char" where
  [py_defs]: "hex_digit d = (if d < 10 then char_of (48 + d) else char_of (87 + d))"

definition repr_char :: "char \<Rightarrow> char \<Rightarrow> string" where
  [py_defs]: "repr_char q c = (let n = of_char c :: nat in
     if c = q \<or> n = 92 then [CHR 0x5C, c]
     else if n = 9 then [CHR 0x5C, CHR ''t'']
     else if n = 10 then [CHR 0x5C, CHR ''n'']
     else if n = 13 then [CHR 0x5C, CHR ''r'']
     else if n < 32 \<or> (127 \<le> n \<and> n \<le> 160) \<or> n = 173
       then [CHR 0x5C, CHR ''x'', hex_digit (n div 16), hex_digit (n mod 16)]
     else [c])"

definition py_repr :: "string \<Rightarrow> string" where
  [py_defs]: "py_repr s =
     (let q = (if quote_char \<in> set s \<and> CHR 0x22 \<notin> set s then CHR 0x22 else quote_char)
      in q # concat (map (repr_char q) s) @ [q])"

section \<open>Triple-quoted templates\<close>

text \<open>A prompt written as \<open>f"""\<close>, a newline, lines indented by eight spaces and a
  closing line of eight spaces before \<open>"""\<close>: each line is a newline followed by the
  indented text (blank lines keep their eight spaces).\<close>

definition indent8 :: "string \<Rightarrow> string" where
  [py_defs]: "indent8 l = replicate 8 (CHR '' '') @ l"

definition py_block :: "string list \<Rightarrow> string" where
  [py_defs]: "py_block ls = concat (map (\<lambda>l. CHR 0x0A # indent8 l) ls) @ CHR 0x0A # indent8 []"

text \<open>The same layout for a template indented by twelve spaces (inside a dict literal).\<close>

definition py_block12 :: "string list \<Rightarrow> string" where
  [py_defs]: "py_block12 ls = concat (map (\<lambda>l. CHR 0x0A # replicate 12 (CHR '' '') @ l) ls)
                               @ CHR 0x0A # replicate 12 (CHR '' '')"

section \<open>Lemmas\<close>

lemma py_in_sublist: "py_in n h \<longleftrightarrow> sublist n h"
  by (induction h) (auto simp: sublist_Cons_right)

lemma py_block_newline: "\<exists>t. py_block ls = CHR 0x0A # t"
  by (cases ls) (simp_all add: py_block_def)

lemma sublist_py_join: "x \<in> set xs \<Longrightarrow> sublist x (py_join sep xs)"
  by (induction sep xs rule: py_join.induct) (auto intro: sublist_order.order.trans [OF _ sublist_append_leftI])

lemma sublist_py_block:
  assumes "l \<in> set ls" shows "sublist l (py_block ls)"
proof -
  obtain xs ys where ls: "ls = xs @ l # ys" using assms by (meson split_list)
  let ?f = "\<lambda>l. CHR 0x0A # indent8 l"
  have "py_block ls = (concat (map ?f xs) @ [CHR 0x0A] @ replicate 8 (CHR '' '')) @ l @
                      (concat (map ?f ys) @ CHR 0x0A # indent8 [])"
    by (simp add: py_block_def indent8_def ls)
  then show ?thesis by (metis sublist_appendI)
qed

lemma sublist_py_block_line:
  "l \<in> set ls \<Longrightarrow> sublist x l \<Longrightarrow> sublist x (py_block ls)"
  by (blast intro: sublist_order.order.trans sublist_py_block)

lemma sublist_block_field: "p @ x \<in> set ls \<Longrightarrow> sublist x (py_block ls)"
  by (erule sublist_py_block_line) (rule sublist_append_leftI)

lemma py_split_unfold:
  "py_split s =
     (if dropWhile is_space s = [] then []
      else takeWhile (\<lambda>c. \<not> is_space c) (dropWhile is_space s) #
           py_split (dropWhile (\<lambda>c. \<not> is_space c) (dropWhile is_space s)))"
  by (subst py_split.simps) (simp add: Let_def)

lemma py_split_space_cons: "is_space c \<Longrightarrow> py_split (c # s) = py_split s"
  by (simp add: py_split_unfold [of "c # s"] py_split_unfold [of s])

lemma py_split_Nil [simp]: "py_split [] = []"
  by (simp add: py_split_unfold)

lemma py_split_word:
  assumes "w \<noteq> []" "\<forall>c \<in> set w. \<not> is_space c" "s = [] \<or> is_space (hd s)"
  shows "py_split (w @ s) = w # py_split s"
proof -
  obtain c w' where w: "w = c # w'" using assms(1) by (cases w) auto
  have tw: "takeWhile (\<lambda>c. \<not> is_space c) (w @ s) = w"
    using assms(2,3) by (cases s) (auto simp: takeWhile_append2)
  have dw: "dropWhile (\<lambda>c. \<not> is_space c) (w @ s) = s"
    using assms(2,3) by (cases s) (auto simp: dropWhile_append2)
  have nc: "\<not> is_space c" using assms(2) w by simp
  have "dropWhile is_space (w @ s) = w @ s" using nc w by simp
  with tw dw show ?thesis by (simp only: py_split_unfold [of "w @ s"]) (simp add: w)
qed

lemma py_split_words:
  "w \<in> set (py_split s) \<Longrightarrow> w \<noteq> [] \<and> (\<forall>c \<in> set w. \<not> is_space c)"
proof (induction s rule: py_split.induct)
  case (1 s)
  let ?d = "dropWhile is_space s"
  show ?case
  proof (cases "?d = []")
    case True
    then have "py_split s = []" by (simp add: py_split_unfold [of s])
    with "1.prems" show ?thesis by simp
  next
    case False
    then have eq: "py_split s = takeWhile (\<lambda>c. \<not> is_space c) ?d #
                                py_split (dropWhile (\<lambda>c. \<not> is_space c) ?d)"
      by (simp only: py_split_unfold [of s] if_False)
    have ne: "takeWhile (\<lambda>c. \<not> is_space c) ?d \<noteq> []"
      using False by (metis (no_types, lifting) hd_dropWhile takeWhile_eq_Nil_iff)
    from "1.prems" eq consider
        "w = takeWhile (\<lambda>c. \<not> is_space c) ?d"
      | "w \<in> set (py_split (dropWhile (\<lambda>c. \<not> is_space c) ?d))"
      by auto
    then show ?thesis
    proof cases
      case 1
      with ne show ?thesis by (auto dest: set_takeWhileD)
    next
      case 2
      with "1.IH" False show ?thesis by (simp add: Let_def)
    qed
  qed
qed

lemma py_split_char_Nil [simp]: "py_split_char c s \<noteq> []"
  by (induction s) (simp_all add: Let_def)

lemma py_split_char_join: "py_join [c] (py_split_char c s) = s"
proof (induction s)
  case Nil
  then show ?case by simp
next
  case (Cons x xs)
  obtain w ws where r: "py_split_char c xs = w # ws" by (cases "py_split_char c xs") simp_all
  show ?case
  proof (cases "x = c")
    case True
    with Cons.IH r show ?thesis by (cases ws) simp_all
  next
    case False
    with Cons.IH r show ?thesis by (cases ws) simp_all
  qed
qed

lemma py_split_join:
  "\<forall>w \<in> set ws. w \<noteq> [] \<and> (\<forall>c \<in> set w. \<not> is_space c) \<Longrightarrow> py_split (py_join '' '' ws) = ws"
proof (induction "'' ''" ws rule: py_join.induct)
  case 1
  then show ?case by simp
next
  case (2 w)
  then show ?case using py_split_word [of w "[]"] by simp
next
  case (3 w v vs)
  have sp: "is_space (CHR '' '')" by (simp add: is_space_def)
  have "py_split (w @ CHR '' '' # py_join '' '' (v # vs)) = w # py_split (CHR '' '' # py_join '' '' (v # vs))"
    using "3.prems" sp by (intro py_split_word) auto
  also have "\<dots> = w # (v # vs)"
    using 3 sp by (simp add: py_split_space_cons)
  finally show ?case by simp
qed

end
