(* ===== verification/Service.thy ===== *)
theory Service
  imports PyStr
begin

text \<open>
  The outside world of the handlers as explicit state. Every module creates a client at
  import time (\<open>AsyncOpenAI(...)\<close>, \<open>razorpay.Client(...)\<close>, \<open>stripe.api_key\<close>);
  a handler's only effects are calls through these clients. The state \<open>world\<close> keeps
  the calls made so far, in order, and the answers the services give: an answer is a
  function of the call's position in the log and of the call itself, so any behaviour of
  the remote side (failures, varying answers) is one choice of the answer functions.
  \<open>call_completion\<close> is \<open>await client.chat.completions.create(...)\<close> followed by
  \<open>response.choices[0].message.content\<close> (\<open>None\<close> when the service returns no
  text). \<open>rbind\<close> sequences steps that may raise; \<open>endpoint\<close> is the shape shared by
  the single-call handlers: build a request, call, shape the answer, and turn any
  exception into \<open>HTTPException(500)\<close>.
\<close>

record chat_request =
  cr_model :: string
  cr_messages :: "(string \<times> string) list"
  cr_temperature :: rat
  cr_max_tokens :: int

datatype outbound =
    Completion chat_request
  | RazorpayOrder json
  | StripeIntent json

record world =
  calls :: "outbound list"
  completion_answer :: "nat \<Rightarrow> chat_request \<Rightarrow> string option result"
  razorpay_answer :: "nat \<Rightarrow> json \<Rightarrow> json result"
  stripe_answer :: "nat \<Rightarrow> json \<Rightarrow> json result"

type_synonym 'a step = "world \<Rightarrow> 'a result \<times> world"

text \<open>\<open>messages=[{"role": "system", ...}, {"role": "user", ...}]\<close>.\<close>

definition chat :: "string \<Rightarrow> string \<Rightarrow> string \<Rightarrow> rat \<Rightarrow> int \<Rightarrow> chat_request" where
  "chat model persona prompt temperature max_tokens =
     \<lparr>cr_model = model, cr_messages = [(''system'', persona), (''user'', prompt)],
      cr_temperature = temperature, cr_max_tokens = max_tokens\<rparr>"

definition call_completion :: "chat_request \<Rightarrow> string option step" where
  "call_completion rq w =
     (completion_answer w (length (calls w)) rq, w\<lparr>calls := calls w @ [Completion rq]\<rparr>)"

definition rbind :: "'a step \<Rightarrow> ('a \<Rightarrow> 'b step) \<Rightarrow> 'b step" where
  "rbind m f w = (case m w of (Inl e, w') \<Rightarrow> (Inl e, w') | (Inr v, w') \<Rightarrow> f v w')"

definition rreturn :: "'a \<Rightarrow> 'a step" where
  "rreturn v w = (Inr v, w)"

definition raise_step :: "exc \<Rightarrow> 'a step" where
  "raise_step e w = (Inl e, w)"

text \<open>\<open>try: ... except Exception as e: raise HTTPException(500, detail=pre + str(e))\<close>.\<close>

definition guarded :: "string \<Rightarrow> 'a step \<Rightarrow> 'a step" where
  "guarded pre m w = (case m w of (r, w') \<Rightarrow> (catch_all pre r, w'))"

text \<open>A method call on the completion text (\<open>content.split()\<close>,
  \<open>content.lower()\<close>): on \<open>None\<close> it raises \<open>AttributeError\<close>.\<close>

definition text_of :: "string \<Rightarrow> string option \<Rightarrow> string result" where
  "text_of meth c = (case c of None \<Rightarrow> Inl (no_attr JNull meth) | Some s \<Rightarrow> Inr s)"

definition json_text :: "string option \<Rightarrow> json" where
  "json_text c = (case c of None \<Rightarrow> JNull | Some s \<Rightarrow> JStr s)"

definition endpoint :: "string \<Rightarrow> chat_request \<Rightarrow> (string option \<Rightarrow> json result) \<Rightarrow> json step" where
  "endpoint pre rq shape = guarded pre (rbind (call_completion rq) (\<lambda>c w. (shape c, w)))"

definition user_prompt :: "chat_request \<Rightarrow> string" where
  "user_prompt rq = (case map_of (cr_messages rq) ''user'' of Some p \<Rightarrow> p | None \<Rightarrow> [])"

text \<open>Sample worlds for the witnesses: a completion service that always answers with
  the given text, one that always fails, and payment services that fail.\<close>

definition answering_world :: "string option \<Rightarrow> world" where
  "answering_world c = \<lparr>calls = [], completion_answer = (\<lambda>_ _. Inr c),
     razorpay_answer = (\<lambda>_ _. Inl (ServiceError ''unavailable'')),
     stripe_answer = (\<lambda>_ _. Inl (ServiceError ''unavailable''))\<rparr>"

definition failing_world :: "string \<Rightarrow> world" where
  "failing_world msg = \<lparr>calls = [], completion_answer = (\<lambda>_ _. Inl (ServiceError msg)),
     razorpay_answer = (\<lambda>_ _. Inl (ServiceError msg)),
     stripe_answer = (\<lambda>_ _. Inl (ServiceError msg))\<rparr>"

text \<open>The calls a step makes: on every world it only appends at most \<open>n\<close> calls,
  each satisfying \<open>P\<close>, to the log, and leaves the services' answers alone.\<close>

definition appends_calls :: "(outbound \<Rightarrow> bool) \<Rightarrow> nat \<Rightarrow> 'a step \<Rightarrow> bool" where
  "appends_calls P n m \<longleftrightarrow>
     (\<forall>w. \<exists>new. snd (m w) = w\<lparr>calls := calls w @ new\<rparr> \<and> length new \<le> n \<and> list_all P new)"

text \<open>The shape of a response: FastAPI turns an \<open>HTTPException\<close> into its status and
  serialises a returned dict; any other exception or a non-dict result would escape the
  handlers' contract. \<open>obj_step m\<close>: on every world, \<open>m\<close> returns a dict or raises.\<close>

definition obj_res :: "json result \<Rightarrow> bool" where
  "obj_res r = (case r of Inr (JObj _) \<Rightarrow> True | Inr _ \<Rightarrow> False | Inl _ \<Rightarrow> True)"

definition http_response :: "json result \<Rightarrow> bool" where
  "http_response r = (case r of Inl (HTTPException _ _) \<Rightarrow> True | Inl _ \<Rightarrow> False | Inr v \<Rightarrow> obj_res (Inr v))"

definition obj_step :: "json step \<Rightarrow> bool" where
  "obj_step m \<longleftrightarrow> (\<forall>w. obj_res (fst (m w)))"

section \<open>Lemmas\<close>

named_theorems step_simps "evaluation rules of the step combinators"
named_theorems appends_intros "call-effect rules of the step combinators"
named_theorems obj_intros "response-shape rules of the step combinators"

lemma rbind_apply [step_simps]:
  "rbind m f w = (case m w of (Inl e, w') \<Rightarrow> (Inl e, w') | (Inr v, w') \<Rightarrow> f v w')"
  by (simp add: rbind_def)

lemma call_completion_log [simp]:
  "snd (call_completion rq w) = w\<lparr>calls := calls w @ [Completion rq]\<rparr>"
  "fst (call_completion rq w) = completion_answer w (length (calls w)) rq"
  by (simp_all add: call_completion_def)

lemma user_prompt_chat [simp]: "user_prompt (chat m p u t k) = u"
  by (simp add: user_prompt_def chat_def)

lemma endpoint_eq:
  "endpoint pre rq shape w =
     (catch_all pre (sbind (completion_answer w (length (calls w)) rq) shape),
      w\<lparr>calls := calls w @ [Completion rq]\<rparr>)"
  by (simp add: endpoint_def guarded_def rbind_def call_completion_def split: sum.splits)

text \<open>Every single-call handler appends exactly its one request to the log and changes
  nothing else of the world, whether the call succeeds or not.\<close>

lemma endpoint_world:
  "snd (endpoint pre rq shape w) = w\<lparr>calls := calls w @ [Completion rq]\<rparr>"
  by (simp add: endpoint_eq)

lemma endpoint_failure:
  "completion_answer w (length (calls w)) rq = Inl e \<Longrightarrow>
     fst (endpoint pre rq shape w) = Inl (HTTPException 500 (pre @ exc_str e))"
  by (simp add: endpoint_eq)

lemma endpoint_success:
  "completion_answer w (length (calls w)) rq = Inr c \<Longrightarrow>
     fst (endpoint pre rq shape w) = catch_all pre (shape c)"
  by (simp add: endpoint_eq)


text \<open>Call effects, composed along \<open>rbind\<close>.\<close>

lemma appends_callsI:
  "(\<And>w. \<exists>new. snd (m w) = w\<lparr>calls := calls w @ new\<rparr> \<and> length new \<le> n \<and> list_all P new) \<Longrightarrow> appends_calls P n m"
  by (simp add: appends_calls_def)

lemma appends_callsD:
  "appends_calls P n m \<Longrightarrow> \<exists>new. snd (m w) = w\<lparr>calls := calls w @ new\<rparr> \<and> length new \<le> n \<and> list_all P new"
  by (simp add: appends_calls_def)

lemma appends_calls_weaken:
  "appends_calls P n m \<Longrightarrow> n \<le> k \<Longrightarrow> appends_calls P k m"
  unfolding appends_calls_def by (meson order_trans)

lemma appends_calls_mono:
  "appends_calls P n m \<Longrightarrow> (\<And>c. P c \<Longrightarrow> Q c) \<Longrightarrow> appends_calls Q n m"
  unfolding appends_calls_def list_all_iff by blast

lemma appends_pure [appends_intros]: "appends_calls P 0 (\<lambda>w. (r, w))"
  by (rule appends_callsI) (rule exI [of _ "[]"], simp)

lemma appends_rreturn [appends_intros]: "appends_calls P 0 (rreturn v)"
  unfolding appends_calls_def rreturn_def by simp

lemma appends_call_completion [appends_intros]:
  "P (Completion rq) \<Longrightarrow> appends_calls P 1 (call_completion rq)"
  by (rule appends_callsI) (rule exI [of _ "[Completion rq]"], simp)

lemma appends_rbind [appends_intros]:
  assumes m: "appends_calls P n m" and f: "\<And>v. appends_calls P k (f v)"
  shows "appends_calls P (n + k) (rbind m f)"
proof (rule appends_callsI)
  fix w
  obtain new1 where 1: "snd (m w) = w\<lparr>calls := calls w @ new1\<rparr>" "length new1 \<le> n" "list_all P new1"
    using appends_callsD [OF m] by blast
  show "\<exists>new. snd (rbind m f w) = w\<lparr>calls := calls w @ new\<rparr> \<and> length new \<le> n + k \<and> list_all P new"
  proof (cases "m w")
    case (Pair r w1)
    show ?thesis
    proof (cases r)
      case (Inl e)
      with Pair 1 show ?thesis by (auto simp: rbind_def)
    next
      case (Inr v)
      obtain new2 where 2: "snd (f v w1) = w1\<lparr>calls := calls w1 @ new2\<rparr>" "length new2 \<le> k" "list_all P new2"
        using appends_callsD [OF f] by blast
      from Pair Inr 1 2 show ?thesis
        by (intro exI [of _ "new1 @ new2"]) (auto simp: rbind_def)
    qed
  qed
qed

lemma appends_guarded [appends_intros]:
  "appends_calls P n m \<Longrightarrow> appends_calls P n (guarded pre m)"
  unfolding appends_calls_def guarded_def by (simp add: case_prod_beta)

lemma appends_endpoint [appends_intros]:
  "P (Completion rq) \<Longrightarrow> appends_calls P 1 (endpoint pre rq shape)"
  by (rule appends_callsI) (rule exI [of _ "[Completion rq]"], simp add: endpoint_world)

lemma appends_endpoint_pos:
  "P (Completion rq) \<Longrightarrow> 0 < n \<Longrightarrow> appends_calls P n (endpoint pre rq shape)"
  by (erule appends_calls_weaken [OF appends_endpoint]) simp


text \<open>Response shapes, composed along \<open>rbind\<close>; the catch-all turns every exception
  into an \<open>HTTPException\<close>.\<close>

lemma obj_res_JObj [obj_intros]: "obj_res (Inr (JObj kvs))"
  by (simp add: obj_res_def)

lemma obj_res_Inl [obj_intros]: "obj_res (Inl e)"
  by (simp add: obj_res_def)

lemma obj_res_sbind [obj_intros]: "(\<And>u. obj_res (f u)) \<Longrightarrow> obj_res (sbind r f)"
  by (cases r) (simp_all add: obj_res_def)

lemma obj_step_rbind [obj_intros]: "(\<And>u. obj_step (f u)) \<Longrightarrow> obj_step (rbind m f)"
  unfolding obj_step_def
proof
  fix w
  assume f: "\<And>u. \<forall>w. obj_res (fst (f u w))"
  show "obj_res (fst (rbind m f w))"
  proof (cases "m w")
    case (Pair r w')
    with f show ?thesis by (cases r) (simp_all add: rbind_def obj_res_Inl)
  qed
qed

lemma obj_step_pure [obj_intros]: "obj_res r \<Longrightarrow> obj_step (\<lambda>w. (r, w))"
  by (simp add: obj_step_def)

lemma obj_step_rreturn [obj_intros]: "obj_res (Inr v) \<Longrightarrow> obj_step (rreturn v)"
  by (simp add: obj_step_def rreturn_def)

lemma obj_step_guarded [obj_intros]: "obj_step m \<Longrightarrow> obj_step (guarded pre m)"
  by (simp add: obj_step_def guarded_def case_prod_beta catch_all_def obj_res_def split: sum.splits json.splits)

lemma obj_step_endpoint [obj_intros]:
  assumes "\<And>c. obj_res (shape c)" shows "obj_step (endpoint pre rq shape)"
  unfolding endpoint_def by (intro obj_step_guarded obj_step_rbind obj_step_pure assms)

lemma http_response_JObj [simp]: "http_response (Inr (JObj kvs))"
  by (simp add: http_response_def obj_res_def)

lemma http_response_catch_all: "obj_res r \<Longrightarrow> http_response (catch_all pre r)"
  by (simp add: http_response_def catch_all_def obj_res_def split: sum.splits)

lemma http_response_guarded: "obj_step m \<Longrightarrow> http_response (fst (guarded pre m w))"
  by (simp add: guarded_def case_prod_beta obj_step_def http_response_catch_all)

lemma http_response_endpoint: "(\<And>c. obj_res (shape c)) \<Longrightarrow> http_response (fst (endpoint pre rq shape w))"
  unfolding endpoint_def by (intro http_response_guarded obj_step_rbind obj_step_pure)

end
