(* ===== verification/PyFmt.thy ===== *)
theory PyFmt
  imports PyStr
begin

text \<open>
  Python's conversions between numbers and text as the handlers use them: \<open>int()\<close>
  of a request field (of a string: optional sign, decimal digits with single underscores
  between them, surrounding whitespace, at most 4300 digits), \<open>str()\<close> and
  \<open>repr()\<close> of a JSON value (the text an f-string inserts), \<open>repr\<close> of a float
  (shortest form: fixed notation for decimal exponents from -4 to 15, scientific
  otherwise), and the \<open>:,.2f\<close> format. A JSON float is the decimal number its literal
  denotes; \<open>repr\<close> agrees with CPython for literals of at most 15 significant digits,
  whose double reads back as the same decimal. The lemmas show that \<open>int()\<close> reads
  back every integer printed by \<open>str()\<close> within the digit limit.
\<close>

section \<open>int()\<close>

text \<open>The digits of a base-10 literal: non-empty, digits and underscores, an underscore
  only between two digits.\<close>

fun valid_digits :: "string \<Rightarrow> bool" where
  "valid_digits [] = False"
| "valid_digits [c] = is_digit c"
| "valid_digits (c # d # cs) =
     (is_digit c \<and> (if d = CHR ''_'' then cs \<noteq> [] \<and> is_digit (hd cs) \<and> valid_digits cs
                    else valid_digits (d # cs)))"

definition digits_val :: "string \<Rightarrow> nat" where
  "digits_val ds = foldl (\<lambda>acc c. 10 * acc + (of_char c - 48)) 0 ds"

definition int_max_str_digits :: nat where
  [py_defs]: "int_max_str_digits = 4300"

text \<open>\<open>int(s)\<close>: strip whitespace, read an optional sign, check the digits, check the
  digit limit, compute.\<close>

definition py_int_str :: "string \<Rightarrow> int result" where
  "py_int_str s =
     (let t = py_strip s;
          (neg, body) = (case t of
              c # r \<Rightarrow> if c = CHR ''-'' then (True, r) else if c = CHR ''+'' then (False, r) else (False, t)
            | [] \<Rightarrow> (False, []))
      in if \<not> valid_digits body
         then Inl (ValueError (''invalid literal for int() with base 10: '' @ py_repr s))
         else (let ds = filter is_digit body in
               if int_max_str_digits < length ds
               then Inl (ValueError (''Exceeds the limit (4300 digits) for integer string conversion: value has ''
                                     @ show_nat (length ds) @ '' digits; use sys.set_int_max_str_digits() to increase the limit''))
               else Inr ((if neg then -1 else 1) * int (digits_val ds))))"

text \<open>\<open>int(v)\<close> of a JSON value: a float is truncated towards zero, a bool is 0 or 1.\<close>

fun py_int :: "json \<Rightarrow> int result" where
  "py_int (JInt i) = Inr i"
| "py_int (JBool b) = Inr (if b then 1 else 0)"
| "py_int (JFloat q) = Inr (if 0 \<le> q then \<lfloor>q\<rfloor> else \<lceil>q\<rceil>)"
| "py_int (JStr s) = py_int_str s"
| "py_int v = Inl (TypeError (''int() argument must be a string, a bytes-like object or a real number, not ''
                              @ quote_char # type_name v @ [quote_char]))"

section \<open>Floats\<close>

text \<open>The number of decimals of a finite decimal (searched up to a bound).\<close>

fun dec_scale :: "nat \<Rightarrow> rat \<Rightarrow> nat \<Rightarrow> nat option" where
  "dec_scale 0 q k = None"
| "dec_scale (Suc f) q k = (if q * 10 ^ k = of_int \<lfloor>q * 10 ^ k\<rfloor> then Some k else dec_scale f q (Suc k))"

definition strip_zeros :: "string \<Rightarrow> string" where
  "strip_zeros ds = rev (dropWhile (\<lambda>c. c = CHR ''0'') (rev ds))"

definition fixed_repr :: "string \<Rightarrow> nat \<Rightarrow> string" where
  "fixed_repr ds k =
     (if k = 0 then ds @ ''.0''
      else if k < length ds then take (length ds - k) ds @ ''.'' @ drop (length ds - k) ds
      else ''0.'' @ replicate (k - length ds) (CHR ''0'') @ ds)"

definition sci_repr :: "string \<Rightarrow> int \<Rightarrow> string" where
  "sci_repr ds e =
     (let m = strip_zeros ds; x = show_nat (nat \<bar>e\<bar>)
      in hd m # (if tl m = [] then [] else CHR ''.'' # tl m) @ CHR ''e'' # (if e < 0 then CHR ''-'' else CHR ''+'')
         # (if length x < 2 then CHR ''0'' # x else x))"

definition py_float_repr :: "rat \<Rightarrow> string" where
  "py_float_repr q =
     (let sgn = (if q < 0 then ''-'' else ''''); a = \<bar>q\<bar> in
      case dec_scale 400 a 0 of
        None \<Rightarrow> sgn @ show_nat (nat \<lfloor>a\<rfloor>) @ ''.0''
      | Some k \<Rightarrow>
          (let n = nat \<lfloor>a * 10 ^ k\<rfloor>; ds = show_nat n; e = int (length ds) - 1 - int k in
           if n = 0 then ''0.0''
           else sgn @ (if -4 \<le> e \<and> e < 16 then fixed_repr ds k else sci_repr ds e)))"

section \<open>str() and repr() of JSON values\<close>

fun py_str_json :: "json \<Rightarrow> string" and py_repr_json :: "json \<Rightarrow> string" where
  "py_str_json (JStr s) = s"
| "py_str_json v = py_repr_json v"
| "py_repr_json JNull = ''None''"
| "py_repr_json (JBool b) = (if b then ''True'' else ''False'')"
| "py_repr_json (JInt i) = show_int i"
| "py_repr_json (JFloat q) = py_float_repr q"
| "py_repr_json (JStr s) = py_repr s"
| "py_repr_json (JList vs) = ''['' @ py_join '', '' (map py_repr_json vs) @ '']''"
| "py_repr_json (JObj kvs) =
     ''{'' @ py_join '', '' (map (\<lambda>(k, v). py_repr k @ '': '' @ py_repr_json v) kvs) @ ''}''"

section \<open>json.dumps\<close>

text \<open>\<open>json.dumps\<close> with \<open>ensure_ascii=True\<close>: quotes, backslash and the
  controls with a short escape are escaped by letter, other controls and every character
  above U+007F as \<open>\u00hh\<close>.\<close>

definition json_char :: "char \<Rightarrow> string" where
  "json_char c = (let n = of_char c :: nat in
     if n = 34 \<or> n = 92 then [CHR 0x5C, c]
     else if n = 10 then [CHR 0x5C, CHR ''n'']
     else if n = 13 then [CHR 0x5C, CHR ''r'']
     else if n = 9 then [CHR 0x5C, CHR ''t'']
     else if n = 8 then [CHR 0x5C, CHR ''b'']
     else if n = 12 then [CHR 0x5C, CHR ''f'']
     else if n < 32 \<or> 127 < n
       then [CHR 0x5C, CHR ''u'', CHR ''0'', CHR ''0'', hex_digit (n div 16), hex_digit (n mod 16)]
     else [c])"

definition json_str_lit :: "string \<Rightarrow> string" where
  "json_str_lit s = CHR 0x22 # concat (map json_char s) @ [CHR 0x22]"

text \<open>\<open>json.dumps(v, indent=2)\<close>, the value written at nesting level \<open>lvl\<close>:
  each element of a non-empty list or object on its own line, indented by two spaces
  per level, separated by \<open>,\<close>; keys and values separated by \<open>": "\<close>.\<close>

fun json_dumps_at :: "nat \<Rightarrow> json \<Rightarrow> string" where
  "json_dumps_at lvl JNull = ''null''"
| "json_dumps_at lvl (JBool b) = (if b then ''true'' else ''false'')"
| "json_dumps_at lvl (JInt i) = show_int i"
| "json_dumps_at lvl (JFloat q) = py_float_repr q"
| "json_dumps_at lvl (JStr s) = json_str_lit s"
| "json_dumps_at lvl (JList vs) =
     (if vs = [] then ''[]''
      else ''['' @ py_join '','' (map (\<lambda>v. CHR 0x0A # replicate (2 * Suc lvl) (CHR '' '') @ json_dumps_at (Suc lvl) v) vs)
           @ CHR 0x0A # replicate (2 * lvl) (CHR '' '') @ '']'')"
| "json_dumps_at lvl (JObj kvs) =
     (if kvs = [] then ''{}''
      else ''{'' @ py_join '','' (map (\<lambda>(k, v). CHR 0x0A # replicate (2 * Suc lvl) (CHR '' '') @ json_str_lit k @ '': ''
                                          @ json_dumps_at (Suc lvl) v) kvs)
           @ CHR 0x0A # replicate (2 * lvl) (CHR '' '') @ ''}'')"

section \<open>The ,.2f format\<close>

fun group3 :: "string \<Rightarrow> string" where
  "group3 (a # b # c # d # rest) = a # b # c # CHR '','' # group3 (d # rest)"
| "group3 xs = xs"

definition two_digits :: "nat \<Rightarrow> string" where
  "two_digits n = [digit_char (n div 10), digit_char (n mod 10)]"

definition fmt_money :: "rat \<Rightarrow> string" where
  "fmt_money x =
     (let n = nat (round_half_even (\<bar>x\<bar> * 100))
      in (if x < 0 then ''-'' else '''') @ rev (group3 (rev (show_nat (n div 100)))) @ ''.''
         @ two_digits (n mod 100))"

section \<open>Lemmas\<close>

lemma show_nat_digits: "c \<in> set (show_nat n) \<Longrightarrow> is_digit c"
proof (induction n rule: show_nat.induct)
  case (1 n)
  have d: "\<And>d. d < 10 \<Longrightarrow> is_digit (digit_char d)"
    by (simp add: is_digit_def)
  show ?case
  proof (cases "n < 10")
    case True
    with "1.prems" show ?thesis by (simp add: show_nat.simps [of n] d)
  next
    case False
    with "1.prems" have "c \<in> set (show_nat (n div 10)) \<or> c = digit_char (n mod 10)"
      by (auto simp: show_nat.simps [of n])
    with "1.IH" False d show ?thesis by auto
  qed
qed

lemma valid_digits_all: "xs \<noteq> [] \<Longrightarrow> \<forall>c \<in> set xs. is_digit c \<Longrightarrow> valid_digits xs"
proof (induction xs rule: valid_digits.induct)
  case (3 c d cs)
  have "d \<noteq> CHR ''_''" using "3.prems"(2) by (auto simp: is_digit_def)
  with 3 show ?case by simp
qed simp_all

lemma digits_val_snoc: "digits_val (ds @ [c]) = 10 * digits_val ds + (of_char c - 48)"
  by (simp add: digits_val_def)

lemma digits_val_show_nat: "digits_val (show_nat n) = n"
proof (induction n rule: show_nat.induct)
  case (1 n)
  show ?case
  proof (cases "n < 10")
    case True
    then show ?thesis by (simp add: show_nat.simps [of n] digits_val_def)
  next
    case False
    with "1.IH" show ?thesis by (simp add: show_nat.simps [of n] digits_val_snoc)
  qed
qed

lemma no_space_digit: "is_digit c \<Longrightarrow> \<not> is_space c"
  by (simp add: is_digit_def is_space_def Let_def)

lemma py_strip_no_space: "\<forall>c \<in> set s. \<not> is_space c \<Longrightarrow> py_strip s = s"
proof -
  assume "\<forall>c \<in> set s. \<not> is_space c"
  then have a: "dropWhile is_space s = s" by (cases s) simp_all
  have "\<forall>c \<in> set (rev s). \<not> is_space c" using \<open>\<forall>c \<in> set s. \<not> is_space c\<close> by simp
  then have "dropWhile is_space (rev s) = rev s" by (cases "rev s") simp_all
  with a show ?thesis by (simp add: py_strip_def)
qed

text \<open>\<open>int(str(n)) = n\<close> within the digit limit.\<close>

lemma py_int_str_show_int:
  assumes "length (show_nat (nat \<bar>n\<bar>)) \<le> 4300"
  shows "py_int_str (show_int n) = Inr n"
proof -
  have dig: "\<forall>c \<in> set (show_nat m). is_digit c" for m by (blast intro: show_nat_digits)
  have filt: "filter is_digit (show_nat m) = show_nat m" for m using dig by simp
  have valid: "valid_digits (show_nat m)" for m using dig by (simp add: valid_digits_all)
  show ?thesis
  proof (cases "n < 0")
    case True
    have "\<forall>c \<in> set (show_int n). \<not> is_space c"
      using True dig no_space_digit by (auto simp: show_int_def is_space_def [of "CHR ''-''"])
    then have "py_strip (show_int n) = show_int n" by (rule py_strip_no_space)
    moreover have "hd (show_nat m) \<noteq> CHR ''-''" "hd (show_nat m) \<noteq> CHR ''+''" for m
      using dig [of m] by (cases "show_nat m"; auto simp: is_digit_def)+
    ultimately show ?thesis using True assms valid filt
      by (simp add: py_int_str_def show_int_def digits_val_show_nat int_max_str_digits_def)
  next
    case False
    have "\<forall>c \<in> set (show_int n). \<not> is_space c"
      using False dig by (auto simp: show_int_def no_space_digit)
    then have "py_strip (show_int n) = show_int n" by (rule py_strip_no_space)
    moreover obtain c r where cr: "show_nat (nat n) = c # r" by (cases "show_nat (nat n)") auto
    moreover have "c \<noteq> CHR ''-''" "c \<noteq> CHR ''+''" using dig [of "nat n"] cr by (auto simp: is_digit_def)
    ultimately show ?thesis using False assms valid [of "nat n"] filt [of "nat n"] digits_val_show_nat [of "nat n"]
      by (simp add: py_int_str_def show_int_def int_max_str_digits_def)
  qed
qed

end
