(* ===== verification/ForecastApi.thy ===== *)
theory ForecastApi
  imports Forecast Service PyFmt
begin

text \<open>
  The handler \<open>generate_financial_forecast\<close> around the projection loop of
  \<open>Forecast\<close>: the table as JSON (\<open>round()\<close> returns floats, the month stays an int),
  the prompt with the \<open>,.2f\<close> figures and \<open>json.dumps(projections[:12], indent=2)\<close>,
  the completion call and the envelope with the summary. The rupee sign of the template
  lies outside the Latin-1 character model and is written as its UTF-8 bytes.
  Python's \<open>OverflowError\<close> for a power beyond the double range is not modelled
  (rationals do not overflow).
\<close>

definition projection_json :: "projection \<Rightarrow> json" where
  "projection_json p =
     JObj [(''month'', JInt (p_month p)), (''revenue'', JFloat (p_revenue p)), (''costs'', JFloat (p_costs p)),
           (''profit'', JFloat (p_profit p)), (''cumulative_revenue'', JFloat (p_cumulative_revenue p)),
           (''cumulative_profit'', JFloat (p_cumulative_profit p))]"

definition rupee_sign :: string where
  "rupee_sign = [CHR 0xE2, CHR 0x82, CHR 0xB9]"

definition forecast_prompt :: "forecast_request \<Rightarrow> projection list \<Rightarrow> string" where
  "forecast_prompt r ps = py_block
     [''Analyze this financial forecast for '' @ fr_business_name r @ '' in '' @ fr_industry r @ '':'',
      '''',
      ''Initial Investment: '' @ rupee_sign @ fmt_money (initial_investment r),
      ''Starting Monthly Revenue: '' @ rupee_sign @ fmt_money (monthly_revenue_month1 r),
      ''Monthly Costs: '' @ rupee_sign @ fmt_money (monthly_costs r),
      ''Growth Rate: '' @ py_float_repr (growth_rate r) @ ''% per month'',
      ''Forecast Period: '' @ show_int (forecast_months r) @ '' months'',
      '''',
      ''Financial Projections (First 12 months):'',
      json_dumps_at 0 (JList (map projection_json (take 12 ps))),
      '''',
      ''Provide:'',
      ''1. Break-even Analysis (when will they break even?)'',
      ''2. Cash Flow Analysis'',
      ''3. Key Financial Metrics (ROI, Profit Margin, Burn Rate)'',
      ''4. Risk Assessment'',
      ''5. Recommendations for financial health'',
      ''6. Scenario Analysis (Best, Realistic, Worst case)'',
      '''',
      ''Be specific with numbers and actionable insights.'']"

definition forecast_chat :: "forecast_request \<Rightarrow> chat_request" where
  "forecast_chat r = chat ''gpt-4-turbo-preview''
     ''You are a financial analyst specializing in startup finance and forecasting.''
     (forecast_prompt r (projections (run_forecast r))) (5 / 10) 2000"

definition forecast_envelope :: "forecast_request \<Rightarrow> string option \<Rightarrow> json" where
  "forecast_envelope r c =
     (let st = run_forecast r; s = summarize r st in
      JObj [(''success'', JBool True),
            (''projections'', JList (map projection_json (projections st))),
            (''analysis'', json_text c),
            (''summary'', JObj [(''break_even_month'', (case break_even s of None \<Rightarrow> JNull | Some m \<Rightarrow> JInt m)),
                               (''total_revenue_forecast'', JFloat (total_revenue_forecast s)),
                               (''total_profit_forecast'', JFloat (total_profit_forecast s))]),
            (''tool'', JStr ''financial_forecast'')])"

definition generate_financial_forecast :: "forecast_request \<Rightarrow> json step" where
  "generate_financial_forecast r = endpoint [] (forecast_chat r) (\<lambda>c. Inr (forecast_envelope r c))"

section \<open>Properties\<close>

text \<open>C32. The prompt sent to the service carries the table of the first
  \<open>min(12, forecast_months)\<close> months exactly as the loop computed it, rendered by
  \<open>json.dumps(..., indent=2)\<close>, and the handler makes exactly this one call.\<close>

theorem forecast_prompt_table:
  "snd (generate_financial_forecast r w) = w\<lparr>calls := calls w @ [Completion (forecast_chat r)]\<rparr> \<and>
   sublist (json_dumps_at 0 (JList (map projection_json (map (forecast_row r) [1..min 12 (forecast_months r)]))))
           (user_prompt (forecast_chat r))"
proof -
  have "take 12 [1..forecast_months r] = [1..min 12 (forecast_months r)]"
  proof -
    have "take 12 [1..k] = [1..min 12 k]" for k :: int
      by (rule nth_equalityI) (auto simp: nth_upto)
    then show ?thesis .
  qed
  then have "take 12 (projections (run_forecast r)) = map (forecast_row r) [1..min 12 (forecast_months r)]"
    by (simp add: projections_run_forecast take_map)
  then show ?thesis
    unfolding generate_financial_forecast_def forecast_chat_def user_prompt_chat
    by (auto simp: endpoint_world forecast_prompt_def intro: sublist_py_block_line)
qed

end
