(* ===== verification/Support.thy ===== *)
theory Support
  imports Service PyFmt
begin

text \<open>
  \<open>src/app/ai_tools/customer_support.py\<close>, handler \<open>analyze_support_ticket\<close>: the
  request model \<open>SupportTicket\<close>, the prompt, the completion call, and the keyword
  classification of the answer's sentiment. The lemmas characterise the classifier by
  substring containment in the lower-cased answer (first match wins, \<open>negative\<close> and
  \<open>angry\<close> before \<open>positive\<close>), give the handler's result on each branch (answer,
  no text, service failure) and show that the prompt sent carries every ticket field.
\<close>

record support_ticket =
  st_customer_name :: string
  st_customer_email :: string
  st_subject :: string
  st_message :: string
  st_priority :: "string option"

definition support_prompt :: "support_ticket \<Rightarrow> string" where
  "support_prompt t = py_block
     [''Analyze this customer support ticket:'',
      '''',
      ''From: '' @ st_customer_name t @ '' ('' @ st_customer_email t @ '')'',
      ''Subject: '' @ st_subject t,
      ''Priority: '' @ py_fmt_opt (st_priority t),
      '''',
      ''Message:'',
      st_message t,
      '''',
      ''Provide:'',
      ''1. Sentiment Analysis (positive, neutral, negative, angry)'',
      ''2. Category (technical, billing, feature_request, complaint, question)'',
      ''3. Priority Assessment (low, medium, high, urgent)'',
      ''4. Suggested Response (professional, empathetic, helpful)'',
      ''5. Required Actions (specific steps to resolve)'',
      ''6. Escalation Needed? (yes/no and why)'',
      '''',
      ''Format your analysis clearly with sections.'']"

definition support_request :: "support_ticket \<Rightarrow> chat_request" where
  "support_request t = chat ''gpt-4-turbo-preview''
     ''You are a customer support expert who analyzes tickets and provides actionable insights.''
     (support_prompt t) (6 / 10) 1000"

text \<open>The sentiment parsing: \<open>analysis.lower()\<close> is searched for the keywords.\<close>

definition sentiment_of :: "string \<Rightarrow> string" where
  "sentiment_of analysis =
     (if py_in ''negative'' (py_lower analysis) \<or> py_in ''angry'' (py_lower analysis) then ''negative''
      else if py_in ''positive'' (py_lower analysis) then ''positive''
      else ''neutral'')"

definition support_shape :: "string option \<Rightarrow> json result" where
  "support_shape c =
     sbind (text_of ''lower'' c) (\<lambda>analysis.
       Inr (JObj [(''success'', JBool True), (''analysis'', JStr analysis),
                  (''sentiment'', JStr (sentiment_of analysis)), (''tool'', JStr ''customer_support_ai'')]))"

definition analyze_support_ticket :: "support_ticket \<Rightarrow> json step" where
  "analyze_support_ticket t = endpoint [] (support_request t) support_shape"

definition ticket_example :: support_ticket where
  "ticket_example = \<lparr>st_customer_name = ''Ana'', st_customer_email = ''ana@example.com'',
     st_subject = ''Refund'', st_message = ''I was charged twice'', st_priority = Some ''high''\<rparr>"

text \<open>\<open>generate_support_response\<close>: the body is a JSON object (FastAPI validates \<open>dict\<close>);
  the message is interpolated with \<open>str()\<close>, so a message that is not a string is
  rendered as Python prints it.\<close>

definition support_response_prompt :: "json \<Rightarrow> string" where
  "support_response_prompt message = py_block
     [''Generate a professional, empathetic customer support response for this issue:'',
      '''',
      ''Customer Issue:'',
      py_str_json message,
      '''',
      ''Requirements:'',
      ''- Be empathetic and understanding'',
      ''- Provide clear solution steps'',
      ''- Use professional but friendly tone'',
      ''- Include next steps or timeline'',
      ''- Offer additional help'',
      ''- End with positive note'',
      '''',
      ''Format as email response.'']"

definition support_response_request :: "(string \<times> json) list \<Rightarrow> chat_request" where
  "support_response_request request = chat ''gpt-4-turbo-preview''
     ''You are an expert customer support representative known for excellent service.''
     (support_response_prompt (obj_get request ''message'' (JStr ''''))) (7 / 10) 500"

definition generate_support_response :: "(string \<times> json) list \<Rightarrow> json step" where
  "generate_support_response request = endpoint [] (support_response_request request)
     (\<lambda>c. Inr (JObj [(''success'', JBool True), (''response'', json_text c), (''tool'', JStr ''customer_support_ai'')]))"

section \<open>Properties\<close>

text \<open>C9. On an answer with text, the handler returns the success envelope with the answer and its keyword sentiment, and logs exactly one completion call.\<close>

theorem analyze_ticket_success:
  assumes "completion_answer w (length (calls w)) (support_request t) = Inr (Some a)"
  shows "analyze_support_ticket t w =
     (Inr (JObj [(''success'', JBool True), (''analysis'', JStr a),
                 (''sentiment'', JStr (sentiment_of a)), (''tool'', JStr ''customer_support_ai'')]),
      w\<lparr>calls := calls w @ [Completion (support_request t)]\<rparr>)"
  using assms by (simp add: analyze_support_ticket_def endpoint_eq support_shape_def text_of_def)

theorem analyze_ticket_success_witness:
  "analyze_support_ticket ticket_example (answering_world (Some ''Positive'')) =
     (Inr (JObj [(''success'', JBool True), (''analysis'', JStr ''Positive''),
                 (''sentiment'', JStr (sentiment_of ''Positive'')), (''tool'', JStr ''customer_support_ai'')]),
      (answering_world (Some ''Positive''))\<lparr>calls := [Completion (support_request ticket_example)]\<rparr>)"
  using analyze_ticket_success [of "answering_world (Some ''Positive'')" ticket_example "''Positive''"]
  by (simp add: answering_world_def)

text \<open>C10. An answer that contains \<open>angry\<close> in any letter case is classified negative, whatever else it contains.\<close>

theorem sentiment_angry_wins:
  "sublist ''angry'' (py_lower a) \<Longrightarrow> sentiment_of a = ''negative''"
  by (simp add: sentiment_of_def py_in_sublist)

theorem sentiment_angry_wins_witness:
  "sentiment_of ''ANGRY customer, positive tone'' = ''negative''"
proof -
  have "sublist ''angry'' (py_lower ''ANGRY customer, positive tone'')" by code_simp
  then show ?thesis by (rule sentiment_angry_wins)
qed

text \<open>An answer that contains \<open>positive\<close> but neither \<open>negative\<close> nor \<open>angry\<close> (in any case) is classified positive.\<close>

theorem sentiment_positive:
  "sublist ''positive'' (py_lower a) \<Longrightarrow> \<not> sublist ''negative'' (py_lower a) \<Longrightarrow>
   \<not> sublist ''angry'' (py_lower a) \<Longrightarrow> sentiment_of a = ''positive''"
  by (simp add: sentiment_of_def py_in_sublist)

theorem sentiment_positive_witness:
  "sentiment_of ''Sentiment: Positive'' = ''positive''"
proof -
  have "sublist ''positive'' (py_lower ''Sentiment: Positive'')"
    "\<not> sublist ''negative'' (py_lower ''Sentiment: Positive'')"
    "\<not> sublist ''angry'' (py_lower ''Sentiment: Positive'')" by code_simp+
  then show ?thesis by (rule sentiment_positive)
qed

text \<open>C11. The sentiment is neutral exactly when none of the three keywords occurs in the lower-cased answer.\<close>

theorem sentiment_neutral_iff:
  "sentiment_of a = ''neutral'' \<longleftrightarrow>
     \<not> sublist ''negative'' (py_lower a) \<and> \<not> sublist ''angry'' (py_lower a) \<and>
     \<not> sublist ''positive'' (py_lower a)"
  by (simp add: sentiment_of_def py_in_sublist)

text \<open>C12. When the service returns no text, \<open>analysis.lower()\<close> raises and the handler answers 500 with the AttributeError text.\<close>

theorem analyze_ticket_no_text:
  assumes "completion_answer w (length (calls w)) (support_request t) = Inr None"
  shows "fst (analyze_support_ticket t w) =
     Inl (HTTPException 500 (quote_char # ''NoneType'' @ quote_char # '' object has no attribute ''
                             @ quote_char # ''lower'' @ [quote_char]))"
  using assms by (simp add: analyze_support_ticket_def endpoint_eq support_shape_def text_of_def no_attr_def)

text \<open>C13. When the completion call fails, the handler answers 500 with \<open>str(e)\<close> and the failed call is still logged.\<close>

theorem analyze_ticket_failure:
  assumes "completion_answer w (length (calls w)) (support_request t) = Inl e"
  shows "analyze_support_ticket t w =
     (Inl (HTTPException 500 (exc_str e)), w\<lparr>calls := calls w @ [Completion (support_request t)]\<rparr>)"
  using assms by (simp add: analyze_support_ticket_def endpoint_eq)

text \<open>The handler makes exactly one completion call, whose user prompt contains the customer name, e-mail, subject, message and priority.\<close>

theorem support_prompt_fields:
  "snd (analyze_support_ticket t w) = w\<lparr>calls := calls w @ [Completion (support_request t)]\<rparr> \<and>
   sublist (st_customer_name t) (user_prompt (support_request t)) \<and>
   sublist (st_customer_email t) (user_prompt (support_request t)) \<and>
   sublist (st_subject t) (user_prompt (support_request t)) \<and>
   sublist (st_message t) (user_prompt (support_request t)) \<and>
   sublist (py_fmt_opt (st_priority t)) (user_prompt (support_request t))"
proof -
  let ?from = "''From: '' @ st_customer_name t @ '' ('' @ st_customer_email t @ '')''"
  have "sublist (st_customer_name t) (support_prompt t)"
    unfolding support_prompt_def by (rule sublist_py_block_line [of ?from]) (simp, rule sublist_appendI)
  moreover have "sublist (st_customer_email t) (support_prompt t)"
    unfolding support_prompt_def
    by (rule sublist_py_block_line [of ?from]) (simp, metis append.assoc sublist_appendI)
  moreover have "sublist (st_subject t) (support_prompt t)"
    unfolding support_prompt_def
    by (rule sublist_py_block_line [of "''Subject: '' @ st_subject t"]) (simp, rule sublist_append_leftI)
  moreover have "sublist (st_message t) (support_prompt t)"
    unfolding support_prompt_def by (rule sublist_py_block_line [of "st_message t"]) simp_all
  moreover have "sublist (py_fmt_opt (st_priority t)) (support_prompt t)"
    unfolding support_prompt_def
    by (rule sublist_py_block_line [of "''Priority: '' @ py_fmt_opt (st_priority t)"])
      (simp, rule sublist_append_leftI)
  ultimately show ?thesis
    by (simp add: analyze_support_ticket_def support_request_def endpoint_world)
qed

theorem analyze_ticket_no_text_witness:
  "fst (analyze_support_ticket ticket_example (answering_world None)) =
     Inl (HTTPException 500 (quote_char # ''NoneType'' @ quote_char # '' object has no attribute ''
                             @ quote_char # ''lower'' @ [quote_char]))"
  by (rule analyze_ticket_no_text) (simp add: answering_world_def)

theorem analyze_ticket_failure_witness:
  "analyze_support_ticket ticket_example (failing_world ''timeout'') =
     (Inl (HTTPException 500 ''timeout''),
      (failing_world ''timeout'')\<lparr>calls := [Completion (support_request ticket_example)]\<rparr>)"
  using analyze_ticket_failure [of "failing_world ''timeout''" ticket_example "ServiceError ''timeout''"]
  by (simp add: failing_world_def)

end
