(* ===== verification/Payment.thy ===== *)
theory Payment
  imports Service PyFmt
begin

text \<open>
  \<open>src/app/payment/razorpay_integration.py\<close> and
  \<open>src/app/payment/stripe_integration.py\<close>. Order and payment-intent creation read the
  JSON body, convert the amount with \<open>int()\<close>, send one request to the vendor (logged
  in the world as \<open>RazorpayOrder\<close> or \<open>StripeIntent\<close>) and echo fields of the
  answer. Razorpay signature verification is local: the SDK's
  \<open>verify_payment_signature\<close> compares an HMAC-SHA256 hex digest of
  \<open>"order_id|payment_id"\<close> under the key secret with the given signature; the digest
  function is a parameter (\<open>hmac_hex key msg\<close>). The Stripe webhook's
  \<open>stripe.Webhook.construct_event\<close> is likewise a parameter. The lemmas give every
  branch of the handlers; in particular a rejected Razorpay signature does not produce
  the intended 400: the \<open>HTTPException(400)\<close> raised in the inner handler is caught by
  the outer \<open>except Exception\<close> and re-raised as a 500 whose detail is
  \<open>"400: Invalid payment signature"\<close>.
\<close>

section \<open>Steps\<close>

definition lift :: "'a result \<Rightarrow> 'a step" where
  "lift r w = (r, w)"

definition call_razorpay_order :: "json \<Rightarrow> json step" where
  "call_razorpay_order d w =
     (razorpay_answer w (length (calls w)) d, w\<lparr>calls := calls w @ [RazorpayOrder d]\<rparr>)"

definition call_stripe_intent :: "json \<Rightarrow> json step" where
  "call_stripe_intent d w =
     (stripe_answer w (length (calls w)) d, w\<lparr>calls := calls w @ [StripeIntent d]\<rparr>)"

definition json_opt :: "string option \<Rightarrow> json" where
  "json_opt x = (case x of None \<Rightarrow> JNull | Some s \<Rightarrow> JStr s)"

section \<open>Razorpay\<close>

definition razorpay_order_data :: "int \<Rightarrow> json \<Rightarrow> json \<Rightarrow> json \<Rightarrow> json" where
  "razorpay_order_data amount currency plan_name user_email =
     JObj [(''amount'', JInt (amount * 100)), (''currency'', currency),
           (''receipt'', JStr (''receipt_'' @ py_str_json plan_name @ ''_'' @ py_str_json user_email)),
           (''notes'', JObj [(''plan_name'', plan_name), (''user_email'', user_email)])]"

definition create_razorpay_order :: "string option \<Rightarrow> json result \<Rightarrow> json step" where
  "create_razorpay_order key_id body = guarded []
     (rbind (lift body) (\<lambda>data.
      rbind (lift (sbind (py_get data ''amount'' JNull) py_int)) (\<lambda>amount.
      rbind (lift (py_get data ''currency'' (JStr ''INR''))) (\<lambda>currency.
      rbind (lift (py_get data ''plan_name'' JNull)) (\<lambda>plan_name.
      rbind (lift (py_get data ''user_email'' JNull)) (\<lambda>user_email.
      rbind (call_razorpay_order (razorpay_order_data amount currency plan_name user_email)) (\<lambda>order.
      lift (sbind (py_getitem order ''id'') (\<lambda>order_id.
            sbind (py_getitem order ''amount'') (\<lambda>order_amount.
            sbind (py_getitem order ''currency'') (\<lambda>order_currency.
            Inr (JObj [(''success'', JBool True), (''order_id'', order_id), (''amount'', order_amount),
                       (''currency'', order_currency), (''key_id'', json_opt key_id)]))))))))))))"

text \<open>The SDK's \<open>Utility.verify_payment_signature\<close>: every field through \<open>str()\<close>,
  the message \<open>"{}|{}".format(order_id, payment_id)\<close>, the key \<open>str(secret)\<close>.\<close>

definition razorpay_verify_signature ::
  "(string \<Rightarrow> string \<Rightarrow> string) \<Rightarrow> string option \<Rightarrow> json \<Rightarrow> json \<Rightarrow> json \<Rightarrow> unit result" where
  "razorpay_verify_signature hmac_hex secret order_id payment_id signature =
     (if hmac_hex (py_fmt_opt secret) (py_str_json order_id @ ''|'' @ py_str_json payment_id) = py_str_json signature
      then Inr ()
      else Inl (SignatureVerificationError ''Razorpay Signature Verification Failed''))"

text \<open>The inner \<open>try\<close> turns only \<open>SignatureVerificationError\<close> into the 400; the
  outer \<open>try\<close> catches everything, that 400 included.\<close>

definition verify_inner :: "json \<Rightarrow> unit result \<Rightarrow> json result" where
  "verify_inner data r =
     (case r of
        Inr _ \<Rightarrow> sbind (py_get data ''razorpay_payment_id'' JNull) (\<lambda>p.
                  Inr (JObj [(''success'', JBool True), (''message'', JStr ''Payment verified successfully''),
                             (''payment_id'', p)]))
      | Inl (SignatureVerificationError _) \<Rightarrow> Inl (HTTPException 400 ''Invalid payment signature'')
      | Inl e \<Rightarrow> Inl e)"

definition verify_razorpay_payment ::
  "(string \<Rightarrow> string \<Rightarrow> string) \<Rightarrow> string option \<Rightarrow> json result \<Rightarrow> json result" where
  "verify_razorpay_payment hmac_hex secret body = catch_all []
     (sbind body (\<lambda>data.
      sbind (py_get data ''razorpay_order_id'' JNull) (\<lambda>order_id.
      sbind (py_get data ''razorpay_payment_id'' JNull) (\<lambda>payment_id.
      sbind (py_get data ''razorpay_signature'' JNull) (\<lambda>signature.
      verify_inner data (razorpay_verify_signature hmac_hex secret order_id payment_id signature))))))"

section \<open>Stripe\<close>

text \<open>Attribute access on a \<open>StripeObject\<close>: a missing key raises
  \<open>AttributeError(key)\<close>.\<close>

fun stripe_attr :: "json \<Rightarrow> string \<Rightarrow> json result" where
  "stripe_attr (JObj kvs) k = (case map_of (rev kvs) k of Some v \<Rightarrow> Inr v | None \<Rightarrow> Inl (AttributeError k))"
| "stripe_attr v k = Inl (no_attr v k)"

definition stripe_intent_data :: "int \<Rightarrow> json \<Rightarrow> json \<Rightarrow> json \<Rightarrow> json" where
  "stripe_intent_data amount currency plan_name user_email =
     JObj [(''amount'', JInt (amount * 100)), (''currency'', currency),
           (''metadata'', JObj [(''plan_name'', plan_name), (''user_email'', user_email)]),
           (''automatic_payment_methods'', JObj [(''enabled'', JBool True)])]"

definition create_stripe_payment_intent :: "string option \<Rightarrow> json result \<Rightarrow> json step" where
  "create_stripe_payment_intent publishable_key body = guarded []
     (rbind (lift body) (\<lambda>data.
      rbind (lift (sbind (py_get data ''amount'' JNull) py_int)) (\<lambda>amount.
      rbind (lift (py_get data ''currency'' (JStr ''usd''))) (\<lambda>currency.
      rbind (lift (py_get data ''plan_name'' JNull)) (\<lambda>plan_name.
      rbind (lift (py_get data ''user_email'' JNull)) (\<lambda>user_email.
      rbind (call_stripe_intent (stripe_intent_data amount currency plan_name user_email)) (\<lambda>intent.
      lift (sbind (stripe_attr intent ''client_secret'') (\<lambda>client_secret.
            Inr (JObj [(''success'', JBool True), (''client_secret'', client_secret),
                       (''publishable_key'', json_opt publishable_key)]))))))))))"

text \<open>The three event types the webhook names each read \<open>event["data"]["object"]\<close>
  and do nothing with it; every verified event is answered with success.\<close>

definition webhook_branch :: "json \<Rightarrow> json \<Rightarrow> json result" where
  "webhook_branch event ty =
     (if ty = JStr ''payment_intent.succeeded'' \<or> ty = JStr ''payment_intent.payment_failed''
         \<or> ty = JStr ''customer.subscription.deleted''
      then sbind (py_getitem event ''data'') (\<lambda>d. py_getitem d ''object'')
      else Inr JNull)"

definition stripe_webhook ::
  "(string \<Rightarrow> string option \<Rightarrow> string option \<Rightarrow> json result) \<Rightarrow> string option \<Rightarrow> string \<Rightarrow> string option \<Rightarrow> json result" where
  "stripe_webhook construct_event secret payload sig_header = catch_all []
     (sbind (construct_event payload sig_header secret) (\<lambda>event.
      sbind (py_getitem event ''type'') (\<lambda>ty.
      sbind (webhook_branch event ty) (\<lambda>_.
      Inr (JObj [(''status'', JStr ''success'')])))))"

section \<open>Sample inputs\<close>

text \<open>A stand-in digest for the witnesses (any function will do: the lemmas hold for
  every \<open>hmac_hex\<close>), and a sample signed order.\<close>

definition sample_hmac :: "string \<Rightarrow> string \<Rightarrow> string" where
  "sample_hmac key msg = key @ '':'' @ msg"

definition sample_verify_body :: "string \<Rightarrow> json" where
  "sample_verify_body sig = JObj [(''razorpay_order_id'', JStr ''o1''), (''razorpay_payment_id'', JStr ''p1''),
                                  (''razorpay_signature'', JStr sig)]"

definition sample_event :: "string \<Rightarrow> string \<Rightarrow> string option \<Rightarrow> string option \<Rightarrow> json result" where
  "sample_event ty payload sig secret = Inr (JObj [(''type'', JStr ty)])"

section \<open>Lemmas\<close>


lemma create_order_sends:
  assumes "py_int (obj_get kvs ''amount'' JNull) = Inr n"
  shows "snd (create_razorpay_order key_id (Inr (JObj kvs)) w) =
           w\<lparr>calls := calls w @ [RazorpayOrder (razorpay_order_data n
               (obj_get kvs ''currency'' (JStr ''INR'')) (obj_get kvs ''plan_name'' JNull)
               (obj_get kvs ''user_email'' JNull))]\<rparr>"
  using assms
  by (simp add: create_razorpay_order_def guarded_def rbind_def lift_def call_razorpay_order_def
      split: sum.splits prod.splits)

lemma create_intent_sends:
  assumes "py_int (obj_get kvs ''amount'' JNull) = Inr n"
  shows "snd (create_stripe_payment_intent pk (Inr (JObj kvs)) w) =
           w\<lparr>calls := calls w @ [StripeIntent (stripe_intent_data n
               (obj_get kvs ''currency'' (JStr ''usd'')) (obj_get kvs ''plan_name'' JNull)
               (obj_get kvs ''user_email'' JNull))]\<rparr>"
  using assms
  by (simp add: create_stripe_payment_intent_def guarded_def rbind_def lift_def call_stripe_intent_def
      split: sum.splits prod.splits)

text \<open>Each creation handler makes at most one call, to its own provider.\<close>

lemma appends_lift [appends_intros]: "appends_calls P 0 (lift r)"
  unfolding appends_calls_def lift_def by simp

lemma appends_call_razorpay_order [appends_intros]:
  "P (RazorpayOrder d) \<Longrightarrow> appends_calls P 1 (call_razorpay_order d)"
  by (rule appends_callsI) (rule exI [of _ "[RazorpayOrder d]"], simp add: call_razorpay_order_def)

lemma appends_call_stripe_intent [appends_intros]:
  "P (StripeIntent d) \<Longrightarrow> appends_calls P 1 (call_stripe_intent d)"
  by (rule appends_callsI) (rule exI [of _ "[StripeIntent d]"], simp add: call_stripe_intent_def)

lemma appends_create_razorpay_order:
  "appends_calls (\<lambda>c. \<exists>d. c = RazorpayOrder d) 1 (create_razorpay_order k b)"
  unfolding create_razorpay_order_def
  by (rule appends_calls_weaken, (rule appends_intros | blast)+) simp

lemma appends_create_stripe_payment_intent:
  "appends_calls (\<lambda>c. \<exists>d. c = StripeIntent d) 1 (create_stripe_payment_intent k b)"
  unfolding create_stripe_payment_intent_def
  by (rule appends_calls_weaken, (rule appends_intros | blast)+) simp

text \<open>Response shapes of the payment steps.\<close>

lemma obj_step_lift [obj_intros]: "obj_res r \<Longrightarrow> obj_step (lift r)"
  by (simp add: obj_step_def lift_def)

lemma obj_res_verify_inner [obj_intros]: "obj_res (verify_inner d r)"
  by (cases r) (auto simp: verify_inner_def obj_intros split: exc.splits)

section \<open>Properties\<close>



text \<open>C15. A matching signature is answered with success and the payment id.\<close>

theorem razorpay_verify_ok:
  assumes "hmac_hex (py_fmt_opt secret)
             (py_str_json (obj_get kvs ''razorpay_order_id'' JNull) @ ''|'' @
              py_str_json (obj_get kvs ''razorpay_payment_id'' JNull))
           = py_str_json (obj_get kvs ''razorpay_signature'' JNull)"
  shows "verify_razorpay_payment hmac_hex secret (Inr (JObj kvs)) =
           Inr (JObj [(''success'', JBool True), (''message'', JStr ''Payment verified successfully''),
                      (''payment_id'', obj_get kvs ''razorpay_payment_id'' JNull)])"
  using assms
  by (simp add: verify_razorpay_payment_def razorpay_verify_signature_def verify_inner_def)

theorem razorpay_verify_ok_witness:
  "verify_razorpay_payment sample_hmac (Some ''k'') (Inr (sample_verify_body ''k:o1|p1'')) =
   Inr (JObj [(''success'', JBool True), (''message'', JStr ''Payment verified successfully''),
              (''payment_id'', JStr ''p1'')])"
proof -
  have "verify_razorpay_payment sample_hmac (Some ''k'') (Inr (sample_verify_body ''k:o1|p1'')) =
        Inr (JObj [(''success'', JBool True), (''message'', JStr ''Payment verified successfully''),
              (''payment_id'', obj_get [(''razorpay_order_id'', JStr ''o1''), (''razorpay_payment_id'', JStr ''p1''),
                                  (''razorpay_signature'', JStr ''k:o1|p1'')] ''razorpay_payment_id'' JNull)])"
    unfolding sample_verify_body_def
    by (rule razorpay_verify_ok) (simp add: sample_hmac_def obj_get_def py_fmt_opt_def)
  then show ?thesis by (simp add: obj_get_def)
qed

text \<open>C16. An amount given as the decimal text of an integer \<open>n\<close> (within Python's
  4300-digit limit) makes the handler send exactly one order, for \<open>100 * n\<close> paise,
  with the given currency (default INR), plan and e-mail.\<close>

theorem create_order_string_amount:
  assumes "obj_get kvs ''amount'' JNull = JStr (show_int n)" "length (show_nat (nat \<bar>n\<bar>)) \<le> 4300"
  shows "calls (snd (create_razorpay_order key_id (Inr (JObj kvs)) w)) =
           calls w @ [RazorpayOrder (JObj
             [(''amount'', JInt (n * 100)), (''currency'', obj_get kvs ''currency'' (JStr ''INR'')),
              (''receipt'', JStr (''receipt_'' @ py_str_json (obj_get kvs ''plan_name'' JNull) @ ''_''
                                  @ py_str_json (obj_get kvs ''user_email'' JNull))),
              (''notes'', JObj [(''plan_name'', obj_get kvs ''plan_name'' JNull),
                               (''user_email'', obj_get kvs ''user_email'' JNull)])])]"
proof -
  have "py_int (obj_get kvs ''amount'' JNull) = Inr n" by (simp add: assms py_int_str_show_int)
  from create_order_sends [OF this] show ?thesis by (simp add: razorpay_order_data_def)
qed

theorem create_order_string_amount_witness:
  "calls (snd (create_razorpay_order None (Inr (JObj [(''amount'', JStr (show_int 499))])) (failing_world ''down''))) =
     [RazorpayOrder (JObj [(''amount'', JInt 49900), (''currency'', JStr ''INR''),
                           (''receipt'', JStr ''receipt_None_None''),
                           (''notes'', JObj [(''plan_name'', JNull), (''user_email'', JNull)])])]"
proof -
  have "length (show_nat (nat \<bar>499::int\<bar>)) \<le> 4300" by code_simp
  then show ?thesis
    using create_order_string_amount [of "[(''amount'', JStr (show_int 499))]" 499 None "failing_world ''down''"]
    by (simp add: obj_get_def failing_world_def)
qed

text \<open>C17. When \<open>int()\<close> of the amount raises, the handler answers 500 with the
  exception's text and sends no order.\<close>

theorem create_order_bad_amount:
  assumes "py_int (obj_get kvs ''amount'' JNull) = Inl e"
  shows "create_razorpay_order key_id (Inr (JObj kvs)) w = (Inl (HTTPException 500 (exc_str e)), w)"
  using assms
  by (simp add: create_razorpay_order_def guarded_def rbind_def lift_def)

theorem create_order_bad_amount_witness:
  "create_razorpay_order None (Inr (JObj [])) (failing_world ''down'') =
     (Inl (HTTPException 500 (''int() argument must be a string, a bytes-like object or a real number, not ''
                              @ quote_char # ''NoneType'' @ [quote_char])), failing_world ''down'')"
  using create_order_bad_amount [of "[]" "TypeError (''int() argument must be a string, a bytes-like object or a real number, not ''
                              @ quote_char # ''NoneType'' @ [quote_char])" None "failing_world ''down''"]
  by (simp add: obj_get_def)

text \<open>C18. Payment-intent creation sends exactly one Stripe request, for \<open>100 * n\<close>
  cents with the given currency (default usd) and metadata, and answers with the
  intent's client secret.\<close>

theorem stripe_intent_success:
  assumes "py_int (obj_get kvs ''amount'' JNull) = Inr n"
    and "\<forall>d. stripe_answer w (length (calls w)) d = Inr (JObj ikvs)"
    and "map_of (rev ikvs) ''client_secret'' = Some cs"
  shows "create_stripe_payment_intent pk (Inr (JObj kvs)) w =
     (Inr (JObj [(''success'', JBool True), (''client_secret'', cs), (''publishable_key'', json_opt pk)]),
      w\<lparr>calls := calls w @ [StripeIntent (JObj
          [(''amount'', JInt (n * 100)), (''currency'', obj_get kvs ''currency'' (JStr ''usd'')),
           (''metadata'', JObj [(''plan_name'', obj_get kvs ''plan_name'' JNull),
                               (''user_email'', obj_get kvs ''user_email'' JNull)]),
           (''automatic_payment_methods'', JObj [(''enabled'', JBool True)])])]\<rparr>)"
  using assms
  by (simp add: create_stripe_payment_intent_def guarded_def rbind_def lift_def call_stripe_intent_def
      stripe_intent_data_def)

theorem stripe_intent_success_witness:
  "create_stripe_payment_intent None (Inr (JObj [(''amount'', JInt 20)]))
     ((failing_world ''x'')\<lparr>stripe_answer := (\<lambda>_ _. Inr (JObj [(''client_secret'', JStr ''cs_1'')]))\<rparr>) =
   (Inr (JObj [(''success'', JBool True), (''client_secret'', JStr ''cs_1''), (''publishable_key'', JNull)]),
    ((failing_world ''x'')\<lparr>stripe_answer := (\<lambda>_ _. Inr (JObj [(''client_secret'', JStr ''cs_1'')]))\<rparr>)
      \<lparr>calls := [StripeIntent (JObj
          [(''amount'', JInt 2000), (''currency'', JStr ''usd''),
           (''metadata'', JObj [(''plan_name'', JNull), (''user_email'', JNull)]),
           (''automatic_payment_methods'', JObj [(''enabled'', JBool True)])])]\<rparr>)"
  using stripe_intent_success [of "[(''amount'', JInt 20)]" 20
          "(failing_world ''x'')\<lparr>stripe_answer := (\<lambda>_ _. Inr (JObj [(''client_secret'', JStr ''cs_1'')]))\<rparr>"
          "[(''client_secret'', JStr ''cs_1'')]" "JStr ''cs_1''" None]
  by (simp add: obj_get_def failing_world_def json_opt_def)

text \<open>C19. Every verified webhook event whose type is none of the three named ones is
  acknowledged with success; nothing is activated or deactivated for any type.\<close>

theorem stripe_webhook_other_type:
  assumes "construct_event payload sig secret = Inr (JObj kvs)"
    and "map_of (rev kvs) ''type'' = Some ty"
    and "ty \<notin> {JStr ''payment_intent.succeeded'', JStr ''payment_intent.payment_failed'',
                 JStr ''customer.subscription.deleted''}"
  shows "stripe_webhook construct_event secret payload sig = Inr (JObj [(''status'', JStr ''success'')])"
  using assms by (simp add: stripe_webhook_def webhook_branch_def)

theorem stripe_webhook_other_type_witness:
  "stripe_webhook (sample_event ''invoice.paid'') None ''{}'' None = Inr (JObj [(''status'', JStr ''success'')])"
  by (rule stripe_webhook_other_type [where kvs = "[(''type'', JStr ''invoice.paid'')]" and ty = "JStr ''invoice.paid''"])
     (simp_all add: sample_event_def)

text \<open>C20. A \<open>payment_intent.succeeded\<close> event without a \<open>data\<close> field makes the
  webhook answer 500 with detail \<open>'data'\<close>.\<close>

theorem stripe_webhook_missing_data:
  assumes "construct_event payload sig secret = Inr (JObj kvs)"
    and "map_of (rev kvs) ''type'' = Some (JStr ''payment_intent.succeeded'')"
    and "map_of (rev kvs) ''data'' = None"
  shows "stripe_webhook construct_event secret payload sig =
           Inl (HTTPException 500 (quote_char # ''data'' @ [quote_char]))"
  using assms by (simp add: stripe_webhook_def webhook_branch_def)

theorem stripe_webhook_missing_data_witness:
  "stripe_webhook (sample_event ''payment_intent.succeeded'') None ''{}'' None =
     Inl (HTTPException 500 (quote_char # ''data'' @ [quote_char]))"
  by (rule stripe_webhook_missing_data [where kvs = "[(''type'', JStr ''payment_intent.succeeded'')]"])
     (simp_all add: sample_event_def)

text \<open>C21. An event that fails verification is answered 500 with the SDK's message, not
  distinguished from any other failure.\<close>

theorem stripe_webhook_unverified:
  "construct_event payload sig secret = Inl e \<Longrightarrow>
     stripe_webhook construct_event secret payload sig = Inl (HTTPException 500 (exc_str e))"
  by (simp add: stripe_webhook_def)

theorem stripe_webhook_unverified_witness:
  "stripe_webhook (\<lambda>_ _ _. Inl (SignatureVerificationError ''No signatures found'')) None ''{}'' None =
     Inl (HTTPException 500 ''No signatures found'')"
  using stripe_webhook_unverified [of "\<lambda>_ _ _. Inl (SignatureVerificationError ''No signatures found'')"]
  by simp

end
