(* ===== verification/Templates.thy ===== *)
theory Templates
  imports Service
begin

text \<open>
  The three handlers that are nothing but a template and one completion call:
  \<open>generate_business_plan\<close> (\<open>src/app/ai_tools/business_plan.py\<close>),
  \<open>conduct_market_research\<close> (\<open>market_research.py\<close>) and \<open>generate_pitch_deck\<close>
  (\<open>pitch_deck.py\<close>). Each has its request record, its prompt (the f-string, line by
  line), its chat request (model, persona, temperature, output cap) and its envelope.
  The lemmas give each handler's result on every branch, that every request field
  reaches the prompt, and that the business plan's word count is the number of
  whitespace-separated words of the answer.
\<close>

section \<open>Business plan\<close>

record business_plan_request =
  bp_business_name :: string
  bp_industry :: string
  bp_description :: string
  bp_target_market :: string
  bp_revenue_model :: string
  bp_funding_needed :: "string option"

definition business_plan_prompt :: "business_plan_request \<Rightarrow> string" where
  "business_plan_prompt r = py_block
     [''Create a comprehensive business plan for:'',
      '''',
      ''Business Name: '' @ bp_business_name r,
      ''Industry: '' @ bp_industry r,
      ''Description: '' @ bp_description r,
      ''Target Market: '' @ bp_target_market r,
      ''Revenue Model: '' @ bp_revenue_model r,
      ''Funding Needed: '' @ py_or_str (bp_funding_needed r) ''Not specified'',
      '''',
      ''Generate a detailed business plan with the following sections:'',
      '''',
      ''1. EXECUTIVE SUMMARY (2-3 paragraphs)'',
      ''2. COMPANY DESCRIPTION (detailed overview)'',
      ''3. MARKET ANALYSIS'',
      ''   - Target Market Size'',
      ''   - Customer Demographics'',
      ''   - Market Trends'',
      ''   - Competitive Landscape'',
      ''4. ORGANIZATION & MANAGEMENT'',
      ''   - Organizational Structure'',
      ''   - Key Team Members Needed'',
      ''5. PRODUCTS/SERVICES'',
      ''   - Detailed Description'',
      ''   - Unique Value Proposition'',
      ''   - Competitive Advantages'',
      ''6. MARKETING & SALES STRATEGY'',
      ''   - Marketing Channels'',
      ''   - Customer Acquisition Strategy'',
      ''   - Sales Funnel'',
      ''7. FINANCIAL PROJECTIONS (5 years)'',
      ''   - Revenue Projections'',
      ''   - Cost Structure'',
      ''   - Break-even Analysis'',
      ''   - Funding Requirements'',
      ''8. RISK ANALYSIS'',
      ''   - Key Risks'',
      ''   - Mitigation Strategies'',
      '''',
      ''Make it professional, data-driven, and investor-ready. Use real market insights.'',
      ''Format with clear headings and bullet points where appropriate.'']"

definition business_plan_request_chat :: "business_plan_request \<Rightarrow> chat_request" where
  "business_plan_request_chat r = chat ''gpt-4-turbo-preview''
     ''You are an expert business consultant who creates professional, investor-ready business plans.''
     (business_plan_prompt r) (7 / 10) 4000"

definition business_plan_shape :: "string option \<Rightarrow> json result" where
  "business_plan_shape c =
     sbind (text_of ''split'' c) (\<lambda>plan.
       Inr (JObj [(''success'', JBool True), (''business_plan'', JStr plan),
                  (''word_count'', JInt (int (length (py_split plan)))),
                  (''tool'', JStr ''business_plan_generator'')]))"

definition generate_business_plan :: "business_plan_request \<Rightarrow> json step" where
  "generate_business_plan r =
     endpoint ''Error generating business plan: '' (business_plan_request_chat r) business_plan_shape"

section \<open>Market research\<close>

record market_research_request =
  mr_industry :: string
  mr_target_market :: string
  mr_geography :: string
  mr_research_focus :: string

definition market_research_prompt :: "market_research_request \<Rightarrow> string" where
  "market_research_prompt r = py_block
     [''Conduct comprehensive market research for:'',
      '''',
      ''Industry: '' @ mr_industry r,
      ''Target Market: '' @ mr_target_market r,
      ''Geography: '' @ mr_geography r,
      ''Focus: '' @ mr_research_focus r,
      '''',
      ''Provide detailed analysis on:'',
      ''1. Market Size & Growth (TAM, SAM, SOM)'',
      ''2. Key Market Trends (2025-2030)'',
      ''3. Customer Demographics & Psychographics'',
      ''4. Top 5-10 Competitors Analysis'',
      ''5. Market Entry Barriers'',
      ''6. Opportunities & Threats'',
      ''7. Pricing Landscape'',
      ''8. Distribution Channels'',
      ''9. Regulatory Considerations'',
      ''10. Market Forecast'',
      '''',
      ''Use latest 2025 data and provide specific numbers where possible.'',
      ''Format with clear sections and bullet points.'']"

definition market_research_chat :: "market_research_request \<Rightarrow> chat_request" where
  "market_research_chat r = chat ''gpt-4-turbo-preview''
     ''You are a market research analyst with deep industry knowledge and access to market data.''
     (market_research_prompt r) (6 / 10) 3000"

definition market_research_shape :: "string option \<Rightarrow> json result" where
  "market_research_shape c =
     Inr (JObj [(''success'', JBool True), (''research_report'', json_text c), (''tool'', JStr ''market_research'')])"

definition conduct_market_research :: "market_research_request \<Rightarrow> json step" where
  "conduct_market_research r = endpoint [] (market_research_chat r) market_research_shape"

section \<open>Pitch deck\<close>

record pitch_deck_request =
  pd_business_name :: string
  pd_tagline :: string
  pd_problem :: string
  pd_solution :: string
  pd_target_market :: string
  pd_business_model :: string
  pd_competition :: string
  pd_traction :: string
  pd_team :: string
  pd_funding_ask :: string

definition pitch_deck_prompt :: "pitch_deck_request \<Rightarrow> string" where
  "pitch_deck_prompt r = py_block
     [''Create a compelling 10-slide investor pitch deck for:'',
      '''',
      ''Business: '' @ pd_business_name r,
      ''Tagline: '' @ pd_tagline r,
      ''Problem: '' @ pd_problem r,
      ''Solution: '' @ pd_solution r,
      ''Target Market: '' @ pd_target_market r,
      ''Business Model: '' @ pd_business_model r,
      ''Competition: '' @ pd_competition r,
      ''Traction: '' @ pd_traction r,
      ''Team: '' @ pd_team r,
      ''Funding Ask: '' @ pd_funding_ask r,
      '''',
      ''Generate content for these 10 slides with compelling copy:'',
      '''',
      ''SLIDE 1: COVER'',
      ''- Company name, tagline, presenter info'',
      '''',
      ''SLIDE 2: PROBLEM'',
      ''- What problem are you solving?'',
      ''- Why is it important?'',
      ''- Market pain points'',
      '''',
      ''SLIDE 3: SOLUTION'',
      ''- Your product/service'',
      ''- How it solves the problem'',
      ''- Key features/benefits'',
      '''',
      ''SLIDE 4: MARKET OPPORTUNITY'',
      ''- TAM, SAM, SOM'',
      ''- Market size and growth'',
      ''- Target customer segments'',
      '''',
      ''SLIDE 5: PRODUCT/DEMO'',
      ''- Product screenshots/demo description'',
      ''- Key functionality'',
      ''- User experience highlights'',
      '''',
      ''SLIDE 6: BUSINESS MODEL'',
      ''- How you make money'',
      ''- Pricing strategy'',
      ''- Unit economics'',
      '''',
      ''SLIDE 7: TRACTION'',
      ''- Current metrics (users, revenue, growth)'',
      ''- Milestones achieved'',
      ''- Customer testimonials/case studies'',
      '''',
      ''SLIDE 8: COMPETITION'',
      ''- Competitive landscape'',
      ''- Your unique advantages'',
      ''- Market positioning'',
      '''',
      ''SLIDE 9: TEAM'',
      ''- Founder backgrounds'',
      ''- Key team members'',
      ''- Advisors/investors'',
      '''',
      ''SLIDE 10: FUNDING ASK'',
      ''- Amount raising'',
      ''- Use of funds breakdown'',
      ''- Projected milestones'',
      '''',
      ''For each slide, provide:'',
      ''- Headline (catchy and clear)'',
      ''- 3-5 bullet points with compelling copy'',
      ''- Data points or statistics where relevant'',
      ''- Call-to-action or key takeaway'',
      '''',
      ''Make it investor-ready, data-driven, and persuasive.'']"

definition pitch_deck_chat :: "pitch_deck_request \<Rightarrow> chat_request" where
  "pitch_deck_chat r = chat ''gpt-4-turbo-preview''
     ''You are a pitch deck expert who has helped raise millions for startups. Create compelling, investor-ready content.''
     (pitch_deck_prompt r) (7 / 10) 3500"

definition pitch_deck_shape :: "string option \<Rightarrow> json result" where
  "pitch_deck_shape c =
     Inr (JObj [(''success'', JBool True), (''pitch_deck'', json_text c), (''slide_count'', JInt 10),
                (''tool'', JStr ''pitch_deck_creator'')])"

definition generate_pitch_deck :: "pitch_deck_request \<Rightarrow> json step" where
  "generate_pitch_deck r = endpoint [] (pitch_deck_chat r) pitch_deck_shape"

section \<open>Sample inputs\<close>

definition plan_example :: business_plan_request where
  "plan_example = \<lparr>bp_business_name = ''Acme'', bp_industry = ''SaaS'', bp_description = ''Invoicing'',
     bp_target_market = ''SMEs'', bp_revenue_model = ''Subscription'', bp_funding_needed = None\<rparr>"

definition deck_example :: pitch_deck_request where
  "deck_example = \<lparr>pd_business_name = ''Acme'', pd_tagline = ''Bills, done'', pd_problem = ''Late invoices'',
     pd_solution = ''Automation'', pd_target_market = ''SMEs'', pd_business_model = ''SaaS'',
     pd_competition = ''Spreadsheets'', pd_traction = ''10 pilots'', pd_team = ''Two founders'',
     pd_funding_ask = ''1M''\<rparr>"

section \<open>Properties\<close>

text \<open>C22. The business plan's word count is the number of words of the answer: for an answer that is words joined by single spaces, it is the number of those words.\<close>

theorem business_plan_word_count:
  assumes "completion_answer w (length (calls w)) (business_plan_request_chat r) = Inr (Some (py_join '' '' ws))"
    and "\<forall>v \<in> set ws. v \<noteq> [] \<and> (\<forall>c \<in> set v. \<not> is_space c)"
  shows "fst (generate_business_plan r w) =
     Inr (JObj [(''success'', JBool True), (''business_plan'', JStr (py_join '' '' ws)),
                (''word_count'', JInt (int (length ws))), (''tool'', JStr ''business_plan_generator'')])"
  using assms by (simp add: generate_business_plan_def endpoint_eq business_plan_shape_def text_of_def py_split_join)

theorem business_plan_word_count_witness:
  "fst (generate_business_plan plan_example (answering_world (Some (py_join '' '' [''Executive'', ''summary''])))) =
     Inr (JObj [(''success'', JBool True), (''business_plan'', JStr (py_join '' '' [''Executive'', ''summary''])),
                (''word_count'', JInt 2), (''tool'', JStr ''business_plan_generator'')])"
proof -
  have "\<forall>v \<in> set [''Executive'', ''summary'']. v \<noteq> [] \<and> (\<forall>c \<in> set v. \<not> is_space c)"
    by code_simp
  then show ?thesis
    using business_plan_word_count [of "answering_world (Some (py_join '' '' [''Executive'', ''summary'']))"
            plan_example "[''Executive'', ''summary'']"]
    by (simp add: answering_world_def)
qed

text \<open>A failed completion call makes the business-plan handler answer 500 with detail \<open>Error generating business plan: \<close> followed by \<open>str(e)\<close>; the call is logged.\<close>

theorem business_plan_failure:
  assumes "completion_answer w (length (calls w)) (business_plan_request_chat r) = Inl e"
  shows "generate_business_plan r w =
     (Inl (HTTPException 500 (''Error generating business plan: '' @ exc_str e)),
      w\<lparr>calls := calls w @ [Completion (business_plan_request_chat r)]\<rparr>)"
  using assms by (simp add: generate_business_plan_def endpoint_eq)

theorem business_plan_failure_witness:
  "generate_business_plan plan_example (failing_world ''quota'') =
     (Inl (HTTPException 500 (''Error generating business plan: '' @ ''quota'')),
      (failing_world ''quota'')\<lparr>calls := [Completion (business_plan_request_chat plan_example)]\<rparr>)"
  using business_plan_failure [of "failing_world ''quota''" plan_example "ServiceError ''quota''"]
  by (simp add: failing_world_def)

text \<open>C24. The business-plan prompt contains the name, industry, description, target market, revenue model, and the funding needed or \<open>Not specified\<close>.\<close>

theorem business_plan_fields:
  "sublist (bp_business_name r) (user_prompt (business_plan_request_chat r)) \<and>
   sublist (bp_industry r) (user_prompt (business_plan_request_chat r)) \<and>
   sublist (bp_description r) (user_prompt (business_plan_request_chat r)) \<and>
   sublist (bp_target_market r) (user_prompt (business_plan_request_chat r)) \<and>
   sublist (bp_revenue_model r) (user_prompt (business_plan_request_chat r)) \<and>
   sublist (py_or_str (bp_funding_needed r) ''Not specified'') (user_prompt (business_plan_request_chat r))"
proof -
  have f0: "sublist (bp_business_name r) (business_plan_prompt r)"
    unfolding business_plan_prompt_def by (rule sublist_block_field [of "''Business Name: ''"]) simp
  have f1: "sublist (bp_industry r) (business_plan_prompt r)"
    unfolding business_plan_prompt_def by (rule sublist_block_field [of "''Industry: ''"]) simp
  have f2: "sublist (bp_description r) (business_plan_prompt r)"
    unfolding business_plan_prompt_def by (rule sublist_block_field [of "''Description: ''"]) simp
  have f3: "sublist (bp_target_market r) (business_plan_prompt r)"
    unfolding business_plan_prompt_def by (rule sublist_block_field [of "''Target Market: ''"]) simp
  have f4: "sublist (bp_revenue_model r) (business_plan_prompt r)"
    unfolding business_plan_prompt_def by (rule sublist_block_field [of "''Revenue Model: ''"]) simp
  have f5: "sublist (py_or_str (bp_funding_needed r) ''Not specified'') (business_plan_prompt r)"
    unfolding business_plan_prompt_def by (rule sublist_block_field [of "''Funding Needed: ''"]) simp
  show ?thesis using f0 f1 f2 f3 f4 f5
    by (simp add: business_plan_request_chat_def)
qed

text \<open>The market-research prompt contains the industry, target market, geography and research focus.\<close>

theorem market_research_fields:
  "sublist (mr_industry r) (user_prompt (market_research_chat r)) \<and>
   sublist (mr_target_market r) (user_prompt (market_research_chat r)) \<and>
   sublist (mr_geography r) (user_prompt (market_research_chat r)) \<and>
   sublist (mr_research_focus r) (user_prompt (market_research_chat r))"
proof -
  have f0: "sublist (mr_industry r) (market_research_prompt r)"
    unfolding market_research_prompt_def by (rule sublist_block_field [of "''Industry: ''"]) simp
  have f1: "sublist (mr_target_market r) (market_research_prompt r)"
    unfolding market_research_prompt_def by (rule sublist_block_field [of "''Target Market: ''"]) simp
  have f2: "sublist (mr_geography r) (market_research_prompt r)"
    unfolding market_research_prompt_def by (rule sublist_block_field [of "''Geography: ''"]) simp
  have f3: "sublist (mr_research_focus r) (market_research_prompt r)"
    unfolding market_research_prompt_def by (rule sublist_block_field [of "''Focus: ''"]) simp
  show ?thesis using f0 f1 f2 f3
    by (simp add: market_research_chat_def)
qed

text \<open>The pitch-deck prompt contains all ten fields of the request.\<close>

theorem pitch_deck_fields:
  "sublist (pd_business_name r) (user_prompt (pitch_deck_chat r)) \<and>
   sublist (pd_tagline r) (user_prompt (pitch_deck_chat r)) \<and>
   sublist (pd_problem r) (user_prompt (pitch_deck_chat r)) \<and>
   sublist (pd_solution r) (user_prompt (pitch_deck_chat r)) \<and>
   sublist (pd_target_market r) (user_prompt (pitch_deck_chat r)) \<and>
   sublist (pd_business_model r) (user_prompt (pitch_deck_chat r)) \<and>
   sublist (pd_competition r) (user_prompt (pitch_deck_chat r)) \<and>
   sublist (pd_traction r) (user_prompt (pitch_deck_chat r)) \<and>
   sublist (pd_team r) (user_prompt (pitch_deck_chat r)) \<and>
   sublist (pd_funding_ask r) (user_prompt (pitch_deck_chat r))"
proof -
  have f0: "sublist (pd_business_name r) (pitch_deck_prompt r)"
    unfolding pitch_deck_prompt_def by (rule sublist_block_field [of "''Business: ''"]) simp
  have f1: "sublist (pd_tagline r) (pitch_deck_prompt r)"
    unfolding pitch_deck_prompt_def by (rule sublist_block_field [of "''Tagline: ''"]) simp
  have f2: "sublist (pd_problem r) (pitch_deck_prompt r)"
    unfolding pitch_deck_prompt_def by (rule sublist_block_field [of "''Problem: ''"]) simp
  have f3: "sublist (pd_solution r) (pitch_deck_prompt r)"
    unfolding pitch_deck_prompt_def by (rule sublist_block_field [of "''Solution: ''"]) simp
  have f4: "sublist (pd_target_market r) (pitch_deck_prompt r)"
    unfolding pitch_deck_prompt_def by (rule sublist_block_field [of "''Target Market: ''"]) simp
  have f5: "sublist (pd_business_model r) (pitch_deck_prompt r)"
    unfolding pitch_deck_prompt_def by (rule sublist_block_field [of "''Business Model: ''"]) simp
  have f6: "sublist (pd_competition r) (pitch_deck_prompt r)"
    unfolding pitch_deck_prompt_def by (rule sublist_block_field [of "''Competition: ''"]) simp
  have f7: "sublist (pd_traction r) (pitch_deck_prompt r)"
    unfolding pitch_deck_prompt_def by (rule sublist_block_field [of "''Traction: ''"]) simp
  have f8: "sublist (pd_team r) (pitch_deck_prompt r)"
    unfolding pitch_deck_prompt_def by (rule sublist_block_field [of "''Team: ''"]) simp
  have f9: "sublist (pd_funding_ask r) (pitch_deck_prompt r)"
    unfolding pitch_deck_prompt_def by (rule sublist_block_field [of "''Funding Ask: ''"]) simp
  show ?thesis using f0 f1 f2 f3 f4 f5 f6 f7 f8 f9
    by (simp add: pitch_deck_chat_def)
qed

text \<open>Whatever the service answers, including no text, the pitch-deck handler reports success with \<open>slide_count\<close> 10.\<close>

theorem pitch_deck_any_answer:
  assumes "completion_answer w (length (calls w)) (pitch_deck_chat r) = Inr c"
  shows "generate_pitch_deck r w =
     (Inr (JObj [(''success'', JBool True), (''pitch_deck'', json_text c), (''slide_count'', JInt 10),
                 (''tool'', JStr ''pitch_deck_creator'')]),
      w\<lparr>calls := calls w @ [Completion (pitch_deck_chat r)]\<rparr>)"
  using assms by (simp add: generate_pitch_deck_def endpoint_eq pitch_deck_shape_def)

theorem pitch_deck_any_answer_witness:
  "generate_pitch_deck deck_example (answering_world None) =
     (Inr (JObj [(''success'', JBool True), (''pitch_deck'', JNull), (''slide_count'', JInt 10),
                 (''tool'', JStr ''pitch_deck_creator'')]),
      (answering_world None)\<lparr>calls := [Completion (pitch_deck_chat deck_example)]\<rparr>)"
  using pitch_deck_any_answer [of "answering_world None" deck_example None]
  by (simp add: answering_world_def json_text_def)

end
