(* ===== verification/Chatbot.thy ===== *)
theory Chatbot
  imports Service PyFmt
begin

text \<open>
  \<open>src/app/ai_tools/chatbot_builder.py\<close>. \<open>create_chatbot_config\<close> renders a system
  prompt, then for each of the first five common questions, in order, makes one
  completion call and stores the answer in the dict \<open>sample_responses\<close> under the
  question (a repeated question overwrites its entry and keeps its first position, as a
  Python dict does: \<open>AList.update\<close>); an exception in any call aborts the whole handler.
  \<open>chatbot_respond\<close> answers one message with a fixed persona. The loop is the
  recursive step \<open>sample_loop\<close>; the lemmas give the calls it makes and the dict it
  builds when every call succeeds, and the calls made before the handler fails when one
  call raises.
\<close>

record chatbot_config =
  cb_bot_name :: string
  cb_business_name :: string
  cb_business_description :: string
  cb_common_questions :: "string list"
  cb_tone :: string
  cb_language :: string

record chat_message =
  cm_message :: string
  cm_bot_config_id :: int

definition chatbot_system_prompt :: "chatbot_config \<Rightarrow> string" where
  "chatbot_system_prompt c = py_block
     [''You are '' @ cb_bot_name c @ '', an AI assistant for '' @ cb_business_name c @ ''.'',
      '''',
      ''Business Description: '' @ cb_business_description c,
      '''',
      ''Your role:'',
      ''- Answer customer questions about '' @ cb_business_name c,
      ''- Be '' @ cb_tone c @ '' in your responses'',
      ''- Communicate in '' @ cb_language c,
      ''- Provide helpful, accurate information'',
      ''- If you don'' @ quote_char # ''t know something, say so and offer to connect them with a human'',
      '''',
      ''Common Questions You Should Know:'',
      json_dumps_at 0 (JList (map JStr (cb_common_questions c))),
      '''',
      ''Always be polite, helpful, and represent '' @ cb_business_name c @ '' professionally.'']"

definition sample_request :: "chatbot_config \<Rightarrow> string \<Rightarrow> chat_request" where
  "sample_request c question = chat ''gpt-3.5-turbo'' (chatbot_system_prompt c)
     (''As '' @ cb_bot_name c @ '' for '' @ cb_business_name c @ '', answer this question in a ''
      @ cb_tone c @ '' tone: '' @ question) (7 / 10) 200"

text \<open>\<open>for question in request.common_questions[:5]: ... sample_responses[question] =
  response.choices[0].message.content\<close>.\<close>

fun sample_loop :: "chatbot_config \<Rightarrow> string list \<Rightarrow> (string \<times> json) list \<Rightarrow> (string \<times> json) list step" where
  "sample_loop c [] acc = rreturn acc"
| "sample_loop c (q # qs) acc =
     rbind (call_completion (sample_request c q)) (\<lambda>answer. sample_loop c qs (AList.update q (json_text answer) acc))"

definition embedding_code :: "chatbot_config \<Rightarrow> string" where
  "embedding_code c = py_block12
     [''<!-- Add this to your website -->'',
      ''<script>'',
      ''  window.sphereAIChatbot = {'',
      ''    botName: '' @ CHR 0x22 # cb_bot_name c @ CHR 0x22 # '','',
      ''    businessName: '' @ CHR 0x22 # cb_business_name c @ CHR 0x22 # '','',
      ''    configId: '' @ CHR 0x22 # ''your-config-id-here'' @ [CHR 0x22],
      ''  };'',
      ''</script>'',
      ''<script src='' @ CHR 0x22 # ''https://cdn.sphere-ai.com/chatbot.js'' @ CHR 0x22 # ''></script>'']"

definition chatbot_envelope :: "chatbot_config \<Rightarrow> (string \<times> json) list \<Rightarrow> json" where
  "chatbot_envelope c samples =
     JObj [(''success'', JBool True),
           (''bot_config'', JObj [(''bot_name'', JStr (cb_bot_name c)),
                                 (''system_prompt'', JStr (chatbot_system_prompt c)),
                                 (''sample_responses'', JObj samples)]),
           (''embedding_code'', JStr (embedding_code c)),
           (''tool'', JStr ''chatbot_builder'')]"

definition create_chatbot_config :: "chatbot_config \<Rightarrow> json step" where
  "create_chatbot_config c = guarded []
     (rbind (sample_loop c (take 5 (cb_common_questions c)) [])
            (\<lambda>samples. rreturn (chatbot_envelope c samples)))"

definition chatbot_respond_request :: "chat_message \<Rightarrow> chat_request" where
  "chatbot_respond_request m = chat ''gpt-3.5-turbo''
     ''You are a helpful business assistant. Be friendly and professional.'' (cm_message m) (7 / 10) 300"

definition chatbot_respond :: "chat_message \<Rightarrow> json step" where
  "chatbot_respond m = endpoint [] (chatbot_respond_request m)
     (\<lambda>c. Inr (JObj [(''success'', JBool True), (''response'', json_text c),
                     (''timestamp'', JStr ''2025-10-17T11:16:00Z'')]))"

definition bot_example :: chatbot_config where
  "bot_example = \<lparr>cb_bot_name = ''Ava'', cb_business_name = ''Acme'', cb_business_description = ''Invoicing'',
     cb_common_questions = [''Hours?'', ''Hours?'', ''Price?''], cb_tone = ''friendly'', cb_language = ''english''\<rparr>"

section \<open>The loop\<close>

lemma sample_loop_ok:
  assumes "\<forall>i rq. \<exists>a. completion_answer w i rq = Inr a"
  shows "\<exists>acc'. sample_loop c qs acc w =
            (Inr acc', w\<lparr>calls := calls w @ map (\<lambda>q. Completion (sample_request c q)) qs\<rparr>) \<and>
          (distinct (map fst acc) \<longrightarrow> distinct (map fst acc')) \<and>
          set (map fst acc') = set (map fst acc) \<union> set qs"
  using assms
proof (induction qs arbitrary: acc w)
  case Nil
  then show ?case by (simp add: rreturn_def)
next
  case (Cons q qs)
  obtain a where a: "completion_answer w (length (calls w)) (sample_request c q) = Inr a"
    using Cons.prems by blast
  let ?w1 = "w\<lparr>calls := calls w @ [Completion (sample_request c q)]\<rparr>"
  let ?acc1 = "AList.update q (json_text a) acc"
  have "\<forall>i rq. \<exists>a. completion_answer ?w1 i rq = Inr a" using Cons.prems by simp
  from Cons.IH [OF this, of ?acc1] obtain acc' where
    run: "sample_loop c qs ?acc1 ?w1 =
            (Inr acc', ?w1\<lparr>calls := calls ?w1 @ map (\<lambda>q. Completion (sample_request c q)) qs\<rparr>)"
    and d: "distinct (map fst ?acc1) \<longrightarrow> distinct (map fst acc')"
    and s: "set (map fst acc') = set (map fst ?acc1) \<union> set qs"
    by blast
  have "sample_loop c (q # qs) acc w = sample_loop c qs ?acc1 ?w1"
    using a by (simp add: rbind_def call_completion_def)
  moreover have "distinct (map fst acc) \<longrightarrow> distinct (map fst ?acc1)"
    by (simp add: distinct_update)
  moreover have "set (map fst ?acc1) = insert q (set (map fst acc))"
    by (simp add: dom_update)
  ultimately show ?case using run d s by auto
qed

lemma sample_loop_fail:
  assumes "k < length qs"
    and "\<forall>i < k. \<forall>rq. \<exists>a. completion_answer w (length (calls w) + i) rq = Inr a"
    and "completion_answer w (length (calls w) + k) (sample_request c (qs ! k)) = Inl e"
  shows "sample_loop c qs acc w =
           (Inl e, w\<lparr>calls := calls w @ map (\<lambda>q. Completion (sample_request c q)) (take (Suc k) qs)\<rparr>)"
  using assms
proof (induction qs arbitrary: k acc w)
  case Nil
  then show ?case by simp
next
  case (Cons q qs)
  show ?case
  proof (cases k)
    case 0
    with Cons.prems show ?thesis by (simp add: rbind_def call_completion_def)
  next
    case (Suc k')
    obtain a where a: "completion_answer w (length (calls w)) (sample_request c q) = Inr a"
      using Cons.prems(2) Suc by fastforce
    let ?w1 = "w\<lparr>calls := calls w @ [Completion (sample_request c q)]\<rparr>"
    have "k' < length qs" using Cons.prems(1) Suc by simp
    moreover have "\<forall>i < k'. \<forall>rq. \<exists>a. completion_answer ?w1 (length (calls ?w1) + i) rq = Inr a"
      using Cons.prems(2) Suc by auto
    moreover have "completion_answer ?w1 (length (calls ?w1) + k') (sample_request c (qs ! k')) = Inl e"
      using Cons.prems(3) Suc by simp
    ultimately have "sample_loop c qs (AList.update q (json_text a) acc) ?w1 =
        (Inl e, ?w1\<lparr>calls := calls ?w1 @ map (\<lambda>q. Completion (sample_request c q)) (take (Suc k') qs)\<rparr>)"
      by (rule Cons.IH)
    with a Suc show ?thesis by (simp add: rbind_def call_completion_def)
  qed
qed

lemma appends_sample_loop:
  "appends_calls (\<lambda>c. \<exists>rq. c = Completion rq) (length qs) (sample_loop cfg qs acc)"
proof (induction qs arbitrary: acc)
  case Nil
  then show ?case by (simp add: appends_rreturn)
next
  case (Cons q qs)
  have "appends_calls (\<lambda>c. \<exists>rq. c = Completion rq) (1 + length qs)
          (rbind (call_completion (sample_request cfg q)) (\<lambda>answer. sample_loop cfg qs (AList.update q (json_text answer) acc)))"
    by (intro appends_intros Cons.IH) blast
  then show ?case by simp
qed

lemma appends_create_chatbot_config:
  "appends_calls (\<lambda>c. \<exists>rq. c = Completion rq) 5 (create_chatbot_config cfg)"
  unfolding create_chatbot_config_def
  by (rule appends_calls_weaken, (rule appends_intros appends_sample_loop)+) simp

section \<open>Properties\<close>

text \<open>C28. When every completion call succeeds, the handler makes one call per question
  among the first five, in order (a repeated question is asked again), and answers with
  a dict holding one entry per distinct question.\<close>

theorem chatbot_all_answered:
  assumes "\<forall>i rq. \<exists>a. completion_answer w i rq = Inr a"
  shows "calls (snd (create_chatbot_config c w)) =
           calls w @ map (\<lambda>q. Completion (sample_request c q)) (take 5 (cb_common_questions c)) \<and>
         (\<exists>samples. fst (create_chatbot_config c w) = Inr (chatbot_envelope c samples) \<and>
            distinct (map fst samples) \<and> set (map fst samples) = set (take 5 (cb_common_questions c)))"
proof -
  from sample_loop_ok [OF assms, of c "take 5 (cb_common_questions c)" "[]"] obtain samples where
    run: "sample_loop c (take 5 (cb_common_questions c)) [] w =
      (Inr samples, w\<lparr>calls := calls w @ map (\<lambda>q. Completion (sample_request c q)) (take 5 (cb_common_questions c))\<rparr>)"
    and "distinct (map fst samples)" "set (map fst samples) = set (take 5 (cb_common_questions c))"
    by auto
  then show ?thesis
    by (simp add: create_chatbot_config_def guarded_def rbind_def rreturn_def; blast)
qed

theorem chatbot_all_answered_witness:
  "calls (snd (create_chatbot_config bot_example (answering_world (Some ''ok'')))) =
     map (\<lambda>q. Completion (sample_request bot_example q)) [''Hours?'', ''Hours?'', ''Price?''] \<and>
   (\<exists>samples. fst (create_chatbot_config bot_example (answering_world (Some ''ok''))) =
        Inr (chatbot_envelope bot_example samples) \<and>
      distinct (map fst samples) \<and> set (map fst samples) = {''Hours?'', ''Price?''})"
proof -
  have ok: "\<forall>i rq. \<exists>a. completion_answer (answering_world (Some ''ok'')) i rq = Inr a"
    by (simp add: answering_world_def)
  from chatbot_all_answered [OF ok, of bot_example] show ?thesis
    by (simp add: bot_example_def answering_world_def insert_commute)
qed

text \<open>C29. When the call for question \<open>k\<close> (counting from 0, among the first five)
  raises after the earlier ones succeeded, the handler answers 500 with \<open>str(e)\<close>
  and has made exactly the calls for questions \<open>0..k\<close>: all or nothing.\<close>

theorem chatbot_call_fails:
  assumes "k < length (take 5 (cb_common_questions c))"
    and "\<forall>i < k. \<forall>rq. \<exists>a. completion_answer w (length (calls w) + i) rq = Inr a"
    and "completion_answer w (length (calls w) + k) (sample_request c (cb_common_questions c ! k)) = Inl e"
  shows "create_chatbot_config c w =
           (Inl (HTTPException 500 (exc_str e)),
            w\<lparr>calls := calls w @ map (\<lambda>q. Completion (sample_request c q)) (take (Suc k) (cb_common_questions c))\<rparr>)"
proof -
  have "take 5 (cb_common_questions c) ! k = cb_common_questions c ! k" using assms(1) by simp
  with assms have "sample_loop c (take 5 (cb_common_questions c)) [] w =
      (Inl e, w\<lparr>calls := calls w @ map (\<lambda>q. Completion (sample_request c q)) (take (Suc k) (take 5 (cb_common_questions c)))\<rparr>)"
    by (intro sample_loop_fail) simp_all
  moreover have "Suc k \<le> 5" using assms(1) by simp
  then have "take (Suc k) (take 5 (cb_common_questions c)) = take (Suc k) (cb_common_questions c)"
    by (simp add: take_take min_absorb1)
  ultimately show ?thesis by (simp add: create_chatbot_config_def guarded_def rbind_def)
qed

theorem chatbot_call_fails_witness:
  "create_chatbot_config bot_example (failing_world ''overloaded'') =
     (Inl (HTTPException 500 ''overloaded''),
      (failing_world ''overloaded'')\<lparr>calls := [Completion (sample_request bot_example ''Hours?'')]\<rparr>)"
  using chatbot_call_fails [of 0 bot_example "failing_world ''overloaded''" "ServiceError ''overloaded''"]
  by (simp add: bot_example_def failing_world_def)

text \<open>C30. \<open>chatbot_respond\<close> ignores the \<open>bot_config_id\<close> of the message: the
  request sent and the answer are the same for every id, and the system message is the
  fixed generic persona, never the system prompt built for any configured bot.\<close>

theorem chatbot_respond_ignores_config:
  "snd (chatbot_respond (m\<lparr>cm_bot_config_id := i\<rparr>) w) =
     w\<lparr>calls := calls w @ [Completion (chatbot_respond_request m)]\<rparr> \<and>
   fst (chatbot_respond (m\<lparr>cm_bot_config_id := i\<rparr>) w) = fst (chatbot_respond m w) \<and>
   (''system'', chatbot_system_prompt c) \<notin> set (cr_messages (chatbot_respond_request m))"
proof -
  obtain t where "chatbot_system_prompt c = CHR 0x0A # t"
    using py_block_newline unfolding chatbot_system_prompt_def by blast
  then show ?thesis
    by (simp add: chatbot_respond_def chatbot_respond_request_def endpoint_world chat_def)
qed

end
