(* ===== verification/Content.thy ===== *)
theory Content
  imports Service PyFmt
begin

text \<open>
  \<open>src/app/ai_tools/content_generator.py\<close>: the request model, the length table
  \<open>word_counts\<close> with its \<open>.get\<close> default, the base prompt, the four content-type
  branches appended to it, the chat request whose persona names the content type, and
  the envelope whose \<open>word_count\<close> is \<open>len(content.split())\<close>.
\<close>

record content_request =
  ct_content_type :: string
  ct_topic :: string
  ct_tone :: string
  ct_length :: string
  ct_keywords :: "string option"
  ct_target_audience :: "string option"

definition word_counts :: "(string \<times> string) list" where
  "word_counts = [(''short'', ''200-300 words''), (''medium'', ''500-700 words''), (''long'', ''1000-1500 words'')]"

definition content_length_text :: "content_request \<Rightarrow> string" where
  "content_length_text r = (case map_of word_counts (ct_length r) of Some t \<Rightarrow> t | None \<Rightarrow> ''500-700 words'')"

definition content_base_prompt :: "content_request \<Rightarrow> string" where
  "content_base_prompt r = py_block
     [''Generate '' @ ct_content_type r @ '' content with these specifications:'',
      '''',
      ''Topic: '' @ ct_topic r,
      ''Tone: '' @ ct_tone r,
      ''Length: '' @ content_length_text r,
      ''Keywords: '' @ py_or_str (ct_keywords r) ''Not specified'',
      ''Target Audience: '' @ py_or_str (ct_target_audience r) ''General audience'',
      '''',
      ''Requirements:'',
      ''- Write in '' @ ct_tone r @ '' tone'',
      ''- Make it engaging and valuable'',
      ''- Include relevant keywords naturally'',
      ''- Optimize for SEO (if blog/website content)'',
      ''- Add clear call-to-action at the end'',
      ''- Use proper formatting (headings, bullets where appropriate)'',
      '''',
      ''Content Type Specific:'']"

text \<open>\<open>prompt += "\n- ...\n- ..."\<close> for the four named content types; any other type,
  \<open>website\<close> included, adds nothing.\<close>

definition nl_lines :: "string list \<Rightarrow> string" where
  "nl_lines ls = concat (map (\<lambda>l. CHR 0x0A # l) ls)"

definition type_specific :: "string \<Rightarrow> string" where
  "type_specific t =
     (if t = ''blog'' then nl_lines [''- Include catchy headline'', ''- Add meta description'',
                                    ''- Use H2/H3 headings'', ''- Include introduction and conclusion'']
      else if t = ''social'' then nl_lines [''- Keep it concise and engaging'', ''- Include relevant hashtags'',
                                           ''- Add emoji where appropriate'', ''- End with strong CTA'']
      else if t = ''email'' then nl_lines [''- Subject line'', ''- Personalized greeting'',
                                          ''- Clear value proposition'', ''- Strong CTA'', ''- Professional signature'']
      else if t = ''product_description'' then nl_lines [''- Highlight key features and benefits'',
                                          ''- Address pain points'', ''- Include specifications'', ''- Add compelling CTA'']
      else [])"

definition content_prompt :: "content_request \<Rightarrow> string" where
  "content_prompt r = content_base_prompt r @ type_specific (ct_content_type r)"

definition content_chat :: "content_request \<Rightarrow> chat_request" where
  "content_chat r = chat ''gpt-4-turbo-preview''
     (''You are a professional content writer skilled in creating '' @ ct_content_type r @ '' content that engages and converts.'')
     (content_prompt r) (8 / 10) 2000"

definition content_shape :: "content_request \<Rightarrow> string option \<Rightarrow> json result" where
  "content_shape r c =
     sbind (text_of ''split'' c) (\<lambda>text.
       Inr (JObj [(''success'', JBool True), (''content'', JStr text),
                  (''word_count'', JInt (int (length (py_split text)))),
                  (''content_type'', JStr (ct_content_type r)), (''tool'', JStr ''content_generator'')]))"

definition generate_content :: "content_request \<Rightarrow> json step" where
  "generate_content r = endpoint [] (content_chat r) (content_shape r)"

definition website_example :: content_request where
  "website_example = \<lparr>ct_content_type = ''website'', ct_topic = ''Invoicing'', ct_tone = ''casual'',
     ct_length = ''huge'', ct_keywords = None, ct_target_audience = None\<rparr>"

section \<open>Properties\<close>

text \<open>C31. The request model lists \<open>website\<close> among the content types, but the
  handler has branches only for \<open>blog\<close>, \<open>social\<close>, \<open>email\<close> and
  \<open>product_description\<close>: for any other type, \<open>website\<close> included, the one request
  sent carries the base prompt with nothing after \<open>Content Type Specific:\<close>.\<close>

theorem content_no_type_branch:
  assumes "ct_content_type r \<notin> {''blog'', ''social'', ''email'', ''product_description''}"
  shows "snd (generate_content r w) = w\<lparr>calls := calls w @ [Completion (content_chat r)]\<rparr> \<and>
         user_prompt (content_chat r) = content_base_prompt r"
  using assms
  by (simp add: generate_content_def endpoint_world content_chat_def user_prompt_chat
                content_prompt_def type_specific_def)

theorem content_no_type_branch_witness:
  "snd (generate_content website_example (answering_world None)) =
     (answering_world None)\<lparr>calls := [Completion (content_chat website_example)]\<rparr> \<and>
   user_prompt (content_chat website_example) = content_base_prompt website_example"
  using content_no_type_branch [of website_example "answering_world None"]
  by (simp add: website_example_def answering_world_def)

end
