(* ===== verification/Tasks.thy ===== *)
theory Tasks
  imports Service PyFmt
begin

text \<open>
  \<open>src/app/ai_tools/task_manager.py\<close> and \<open>src/app/ai_tools/time_management.py\<close>:
  task prioritisation and scheduling, where each task becomes one line of text built with
  Python's \<open>or\<close> defaults (\<open>None\<close>, the empty string and \<open>0.0\<close> are false), the
  work-pattern analysis with its \<open>', '.join\<close> lists, and the calendar optimisation,
  which reads a plain dict and takes \<open>len()\<close> of whatever \<open>meetings\<close> holds.
\<close>

section \<open>Task manager\<close>

record task =
  tk_title :: string
  tk_description :: "string option"
  tk_deadline :: "string option"
  tk_priority :: "string option"
  tk_estimated_hours :: "rat option"

text \<open>\<open>task.estimated_hours or d\<close>: a missing or zero estimate gives the default.\<close>

definition hours_or :: "rat option \<Rightarrow> string \<Rightarrow> string" where
  "hours_or h d = (case h of None \<Rightarrow> d | Some x \<Rightarrow> if x = 0 then d else py_float_repr x)"

definition prioritize_line :: "task \<Rightarrow> string" where
  "prioritize_line t =
     ''- '' @ tk_title t @ '' (Deadline: '' @ py_or_str (tk_deadline t) ''None'' @ '', Priority: ''
     @ py_fmt_opt (tk_priority t) @ '', Est. Hours: '' @ hours_or (tk_estimated_hours t) ''Unknown'' @ '')''"

definition prioritize_tasks_text :: "task list \<Rightarrow> string" where
  "prioritize_tasks_text ts = py_join [CHR 0x0A] (map prioritize_line ts)"

definition prioritize_prompt :: "task list \<Rightarrow> string" where
  "prioritize_prompt ts = py_block
     [''Analyze and prioritize these tasks using the Eisenhower Matrix and other productivity frameworks:'',
      '''',
      prioritize_tasks_text ts,
      '''',
      ''Provide:'',
      ''1. Prioritized Task List (with reasoning)'',
      ''2. Task Categories:'',
      ''   - URGENT & IMPORTANT (Do First)'',
      ''   - IMPORTANT but NOT URGENT (Schedule)'',
      ''   - URGENT but NOT IMPORTANT (Delegate if possible)'',
      ''   - NEITHER (Eliminate or Do Later)'',
      ''3. Suggested Schedule (when to do each task)'',
      ''4. Time Management Tips'',
      ''5. Tasks that can be batched together'',
      ''6. Recommended focus order for maximum productivity'',
      '''',
      ''Consider deadlines, estimated time, and stated priorities.'']"

definition prioritize_chat :: "task list \<Rightarrow> chat_request" where
  "prioritize_chat ts = chat ''gpt-4-turbo-preview'' ''You are a productivity expert and time management coach.''
     (prioritize_prompt ts) (6 / 10) 1500"

definition prioritize_tasks :: "task list \<Rightarrow> json step" where
  "prioritize_tasks ts = endpoint [] (prioritize_chat ts)
     (\<lambda>c. Inr (JObj [(''success'', JBool True), (''prioritization'', json_text c),
                     (''task_count'', JInt (int (length ts))), (''tool'', JStr ''task_manager_ai'')]))"

definition schedule_line :: "task \<Rightarrow> string" where
  "schedule_line t = ''- '' @ tk_title t @ '' ('' @ hours_or (tk_estimated_hours t) ''2'' @ ''h)''"

definition schedule_tasks_text :: "task list \<Rightarrow> string" where
  "schedule_tasks_text ts = py_join [CHR 0x0A] (map schedule_line ts)"

definition schedule_prompt :: "task list \<Rightarrow> string" where
  "schedule_prompt ts = py_block
     [''Create an optimized schedule for these tasks:'',
      '''',
      schedule_tasks_text ts,
      '''',
      ''Assumptions:'',
      ''- Work day: 9 AM to 6 PM (with 1h lunch)'',
      ''- Focus blocks: 90-minute deep work sessions'',
      ''- Include breaks every 2 hours'',
      ''- Most important tasks in morning (peak productivity)'',
      '''',
      ''Provide:'',
      ''1. Day-by-day schedule'',
      ''2. Time blocking suggestions'',
      ''3. Energy level considerations'',
      ''4. Buffer time for unexpected items'',
      ''5. Review/reflection time'',
      '''',
      ''Format as a clear weekly calendar.'']"

definition schedule_chat :: "task list \<Rightarrow> chat_request" where
  "schedule_chat ts = chat ''gpt-4-turbo-preview'' ''You are a scheduling expert who creates realistic, productive schedules.''
     (schedule_prompt ts) (6 / 10) 1200"

definition generate_schedule :: "task list \<Rightarrow> json step" where
  "generate_schedule ts = endpoint [] (schedule_chat ts)
     (\<lambda>c. Inr (JObj [(''success'', JBool True), (''schedule'', json_text c), (''tool'', JStr ''task_manager_ai'')]))"

section \<open>Time management\<close>

record work_pattern =
  wp_typical_work_hours :: string
  wp_main_responsibilities :: "string list"
  wp_common_distractions :: "string list"
  wp_goals :: string

definition time_usage_prompt :: "work_pattern \<Rightarrow> string" where
  "time_usage_prompt r = py_block
     [''Analyze this work pattern and provide time management recommendations:'',
      '''',
      ''Work Hours: '' @ wp_typical_work_hours r,
      ''Main Responsibilities: '' @ py_join '', '' (wp_main_responsibilities r),
      ''Common Distractions: '' @ py_join '', '' (wp_common_distractions r),
      ''Goals: '' @ wp_goals r,
      '''',
      ''Provide:'',
      ''1. Time Audit Analysis'',
      ''2. Productivity Bottlenecks Identified'',
      ''3. Time Wasters to Eliminate'',
      ''4. Recommended Time Blocking Schedule'',
      ''5. Focus Time Optimization'',
      ''6. Meeting Optimization Suggestions'',
      ''7. Energy Management Tips'',
      ''8. Tools/Techniques to Implement'',
      ''9. 30-day Improvement Plan'',
      ''10. Key Metrics to Track'',
      '''',
      ''Be specific and actionable.'']"

definition time_usage_chat :: "work_pattern \<Rightarrow> chat_request" where
  "time_usage_chat r = chat ''gpt-4-turbo-preview''
     ''You are a time management coach specializing in productivity optimization for founders and executives.''
     (time_usage_prompt r) (6 / 10) 2000"

definition analyze_time_usage :: "work_pattern \<Rightarrow> json step" where
  "analyze_time_usage r = endpoint [] (time_usage_chat r)
     (\<lambda>c. Inr (JObj [(''success'', JBool True), (''analysis'', json_text c), (''tool'', JStr ''time_management_ai'')]))"

text \<open>\<open>len(v)\<close> of a JSON value.\<close>

fun py_len :: "json \<Rightarrow> int result" where
  "py_len (JList vs) = Inr (int (length vs))"
| "py_len (JStr s) = Inr (int (length s))"
| "py_len (JObj kvs) = Inr (int (length (remdups (map fst kvs))))"
| "py_len v = Inl (TypeError (''object of type '' @ quote_char # type_name v @ quote_char # '' has no len()''))"

definition calendar_prompt :: "int \<Rightarrow> json \<Rightarrow> string" where
  "calendar_prompt n_meetings work_style = py_block
     [''Optimize this calendar for maximum productivity:'',
      '''',
      ''Current Meetings: '' @ show_int n_meetings @ '' per week'',
      ''Work Style: '' @ py_str_json work_style,
      '''',
      ''Provide:'',
      ''1. Ideal Weekly Calendar Template'',
      ''2. Focus Time Blocks (when to schedule deep work)'',
      ''3. Meeting Guidelines (when to schedule, how long)'',
      ''4. Buffer Time Recommendations'',
      ''5. Day Themes (e.g., Monday = Strategy, Tuesday = Execution)'',
      ''6. Break Schedule'',
      ''7. No-Meeting Zones'',
      ''8. Calendar Rules to Follow'',
      '''',
      ''Optimize for energy levels and productivity patterns.'']"

definition calendar_chat :: "int \<Rightarrow> json \<Rightarrow> chat_request" where
  "calendar_chat n_meetings work_style = chat ''gpt-4-turbo-preview'' ''You are a calendar optimization expert.''
     (calendar_prompt n_meetings work_style) (6 / 10) 1500"

definition optimize_calendar :: "(string \<times> json) list \<Rightarrow> json step" where
  "optimize_calendar request = guarded []
     (rbind (\<lambda>w. (py_len (obj_get request ''meetings'' (JList [])), w)) (\<lambda>n_meetings.
      rbind (call_completion (calendar_chat n_meetings (obj_get request ''work_style'' (JStr ''mixed'')))) (\<lambda>c w.
        (Inr (JObj [(''success'', JBool True), (''optimization'', json_text c),
                    (''tool'', JStr ''time_management_ai'')]), w))))"

definition calendar_example :: "json \<Rightarrow> (string \<times> json) list" where
  "calendar_example meetings = [(''meetings'', meetings), (''work_style'', JStr ''maker'')]"

definition taxes_task :: task where
  "taxes_task = \<lparr>tk_title = ''Taxes'', tk_description = None, tk_deadline = None, tk_priority = Some ''medium'',
     tk_estimated_hours = Some 0\<rparr>"

section \<open>Lemmas\<close>

lemma appends_optimize_calendar:
  "appends_calls (\<lambda>c. \<exists>rq. c = Completion rq) 1 (optimize_calendar r)"
  unfolding optimize_calendar_def
  by (rule appends_calls_weaken, (rule appends_intros | blast)+) simp

section \<open>Properties\<close>

text \<open>C26. A task estimated at zero hours is scheduled as if it had no estimate:
  \<open>task.estimated_hours or 2\<close> treats \<open>0.0\<close> as false, so the request that
  \<open>generate_schedule\<close> sends is the one for a missing estimate and lists the task as
  taking two hours.\<close>

theorem schedule_zero_hours:
  assumes "tk_estimated_hours t = Some 0"
  shows "generate_schedule (ts1 @ t # ts2) = generate_schedule (ts1 @ t\<lparr>tk_estimated_hours := None\<rparr> # ts2) \<and>
         sublist (''- '' @ tk_title t @ '' (2h)'') (user_prompt (schedule_chat (ts1 @ t # ts2)))"
proof
  have line: "schedule_line t = ''- '' @ tk_title t @ '' (2h)''"
    using assms by (simp add: schedule_line_def hours_or_def)
  then show "generate_schedule (ts1 @ t # ts2) = generate_schedule (ts1 @ t\<lparr>tk_estimated_hours := None\<rparr> # ts2)"
    by (simp add: generate_schedule_def schedule_chat_def schedule_prompt_def schedule_tasks_text_def schedule_line_def hours_or_def)
  have "sublist (schedule_line t) (schedule_tasks_text (ts1 @ t # ts2))"
    unfolding schedule_tasks_text_def by (rule sublist_py_join) simp
  moreover have "sublist (schedule_tasks_text (ts1 @ t # ts2)) (schedule_prompt (ts1 @ t # ts2))"
    unfolding schedule_prompt_def by (rule sublist_py_block) simp
  ultimately show "sublist (''- '' @ tk_title t @ '' (2h)'') (user_prompt (schedule_chat (ts1 @ t # ts2)))"
    using line by (auto simp: schedule_chat_def intro: sublist_order.order.trans)
qed

theorem schedule_zero_hours_witness:
  "generate_schedule [taxes_task] = generate_schedule [taxes_task\<lparr>tk_estimated_hours := None\<rparr>] \<and>
   sublist ''- Taxes (2h)'' (user_prompt (schedule_chat [taxes_task]))"
proof -
  have t: "tk_estimated_hours taxes_task = Some 0" "tk_title taxes_task = ''Taxes''"
    by (simp_all add: taxes_task_def)
  have e: "''- '' @ tk_title taxes_task @ '' (2h)'' = ''- Taxes (2h)''" by (simp add: t)
  from schedule_zero_hours [of taxes_task "[]" "[]", OF t(1)] show ?thesis
    unfolding e append_Nil .
qed


text \<open>C33. The calendar handler has one \<open>try\<close>: when the completion call raises, the
  answer is a 500 whose detail is \<open>str(e)\<close> itself (not a re-wrapped
  \<open>"500: ..."\<close>), and the one call made is logged.\<close>

theorem calendar_service_failure:
  assumes "py_len (obj_get d ''meetings'' (JList [])) = Inr n"
    and "completion_answer w (length (calls w)) (calendar_chat n (obj_get d ''work_style'' (JStr ''mixed''))) = Inl e"
  shows "optimize_calendar d w =
           (Inl (HTTPException 500 (exc_str e)),
            w\<lparr>calls := calls w @ [Completion (calendar_chat n (obj_get d ''work_style'' (JStr ''mixed'')))]\<rparr>)"
  using assms by (simp add: optimize_calendar_def guarded_def rbind_def call_completion_def catch_all_def)

theorem calendar_service_failure_witness:
  "optimize_calendar (calendar_example (JList [JStr ''standup''])) (failing_world ''quota'') =
     (Inl (HTTPException 500 ''quota''),
      (failing_world ''quota'')\<lparr>calls := [Completion (calendar_chat 1 (JStr ''maker''))]\<rparr>)"
  using calendar_service_failure [of "calendar_example (JList [JStr ''standup''])" 1 "failing_world ''quota''"
      "ServiceError ''quota''"]
  by (simp add: calendar_example_def obj_get_def failing_world_def)

text \<open>C34. A \<open>meetings\<close> entry without a length (a number, a boolean, \<open>null\<close>) makes
  \<open>len(meetings)\<close> raise while the prompt is built: the answer is a 500 with the
  \<open>TypeError\<close> text and no completion call is made.\<close>

theorem calendar_bad_meetings:
  assumes "py_len (obj_get d ''meetings'' (JList [])) = Inl e"
  shows "optimize_calendar d w = (Inl (HTTPException 500 (exc_str e)), w)"
  using assms by (simp add: optimize_calendar_def guarded_def rbind_def catch_all_def)

theorem calendar_bad_meetings_witness:
  "optimize_calendar (calendar_example (JInt 3)) (answering_world None) =
     (Inl (HTTPException 500 ''object of type 'int' has no len()''), answering_world None)"
  using calendar_bad_meetings [of "calendar_example (JInt 3)" _ "answering_world None"]
  by (simp add: calendar_example_def obj_get_def quote_char_def)

end
