(* ===== verification/App.thy ===== *)
theory App
  imports ForecastApi Support Payment Templates Chatbot Content Tasks
begin

text \<open>
  \<open>src/app/main.py\<close> and the environment the payment modules read: the application
  mounts the nine AI-tool routers under \<open>/api/tools\<close> and the two payment routers
  under \<open>/api/payment\<close>, and serves \<open>/\<close> and \<open>/health\<close> itself. A request is a
  value of \<open>api_request\<close>, one constructor per route with its validated body;
  \<open>dispatch\<close> sends it to its handler. A session is a sequence of requests served in
  order against one world (\<open>runs\<close>, and its executable form \<open>serve\<close>).
\<close>

record app_config =
  razorpay_key_id :: "string option"
  razorpay_key_secret :: "string option"
  razorpay_hmac :: "string \<Rightarrow> string \<Rightarrow> string"
  stripe_publishable_key :: "string option"
  stripe_webhook_secret :: "string option"
  stripe_construct_event :: "string \<Rightarrow> string option \<Rightarrow> string option \<Rightarrow> json result"

datatype api_request =
    ReqBusinessPlan business_plan_request
  | ReqMarketResearch market_research_request
  | ReqFinancialForecast forecast_request
  | ReqPitchDeck pitch_deck_request
  | ReqContent content_request
  | ReqCreateChatbot chatbot_config
  | ReqChatbotRespond chat_message
  | ReqAnalyzeTicket support_ticket
  | ReqSupportResponse "(string \<times> json) list"
  | ReqPrioritizeTasks "task list"
  | ReqGenerateSchedule "task list"
  | ReqAnalyzeTimeUsage work_pattern
  | ReqCalendarOptimization "(string \<times> json) list"
  | ReqRazorpayOrder "json result"
  | ReqRazorpayVerify "json result"
  | ReqStripeIntent "json result"
  | ReqStripeWebhook string "string option"
  | ReqRoot
  | ReqHealth

definition root_info :: json where
  "root_info = JObj [(''message'', JStr ''Sphere.AI API - AI Tools for Founders''), (''version'', JStr ''1.0.0''),
     (''status'', JStr ''active''), (''tools_available'', JInt 9), (''documentation'', JStr ''/docs'')]"

definition health_info :: json where
  "health_info = JObj [(''status'', JStr ''healthy''), (''service'', JStr ''Sphere.AI Backend'')]"

fun dispatch :: "app_config \<Rightarrow> api_request \<Rightarrow> json step" where
  "dispatch cfg (ReqBusinessPlan r) = generate_business_plan r"
| "dispatch cfg (ReqMarketResearch r) = conduct_market_research r"
| "dispatch cfg (ReqFinancialForecast r) = generate_financial_forecast r"
| "dispatch cfg (ReqPitchDeck r) = generate_pitch_deck r"
| "dispatch cfg (ReqContent r) = generate_content r"
| "dispatch cfg (ReqCreateChatbot r) = create_chatbot_config r"
| "dispatch cfg (ReqChatbotRespond m) = chatbot_respond m"
| "dispatch cfg (ReqAnalyzeTicket t) = analyze_support_ticket t"
| "dispatch cfg (ReqSupportResponse d) = generate_support_response d"
| "dispatch cfg (ReqPrioritizeTasks ts) = prioritize_tasks ts"
| "dispatch cfg (ReqGenerateSchedule ts) = generate_schedule ts"
| "dispatch cfg (ReqAnalyzeTimeUsage p) = analyze_time_usage p"
| "dispatch cfg (ReqCalendarOptimization d) = optimize_calendar d"
| "dispatch cfg (ReqRazorpayOrder b) = create_razorpay_order (razorpay_key_id cfg) b"
| "dispatch cfg (ReqRazorpayVerify b) = lift (verify_razorpay_payment (razorpay_hmac cfg) (razorpay_key_secret cfg) b)"
| "dispatch cfg (ReqStripeIntent b) = create_stripe_payment_intent (stripe_publishable_key cfg) b"
| "dispatch cfg (ReqStripeWebhook payload sig) =
     lift (stripe_webhook (stripe_construct_event cfg) (stripe_webhook_secret cfg) payload sig)"
| "dispatch cfg ReqRoot = rreturn root_info"
| "dispatch cfg ReqHealth = rreturn health_info"

text \<open>The remote service each route may contact, and how many calls it may make.\<close>

datatype vendor = OpenAI | Razorpay | Stripe

fun vendor_of_call :: "outbound \<Rightarrow> vendor" where
  "vendor_of_call (Completion _) = OpenAI"
| "vendor_of_call (RazorpayOrder _) = Razorpay"
| "vendor_of_call (StripeIntent _) = Stripe"

fun request_vendor :: "api_request \<Rightarrow> vendor option" where
  "request_vendor (ReqRazorpayOrder _) = Some Razorpay"
| "request_vendor (ReqStripeIntent _) = Some Stripe"
| "request_vendor (ReqRazorpayVerify _) = None"
| "request_vendor (ReqStripeWebhook _ _) = None"
| "request_vendor ReqRoot = None"
| "request_vendor ReqHealth = None"
| "request_vendor _ = Some OpenAI"

fun call_bound :: "api_request \<Rightarrow> nat" where
  "call_bound (ReqCreateChatbot _) = 5"
| "call_bound (ReqRazorpayVerify _) = 0"
| "call_bound (ReqStripeWebhook _ _) = 0"
| "call_bound ReqRoot = 0"
| "call_bound ReqHealth = 0"
| "call_bound _ = 1"

inductive runs :: "app_config \<Rightarrow> world \<Rightarrow> api_request list \<Rightarrow> json result list \<Rightarrow> world \<Rightarrow> bool"
  for cfg where
  runs_Nil: "runs cfg w [] [] w"
| runs_Cons: "dispatch cfg rq w = (r, w1) \<Longrightarrow> runs cfg w1 rqs rs w2 \<Longrightarrow> runs cfg w (rq # rqs) (r # rs) w2"

fun serve :: "app_config \<Rightarrow> api_request list \<Rightarrow> world \<Rightarrow> json result list \<times> world" where
  "serve cfg [] w = ([], w)"
| "serve cfg (rq # rqs) w =
     (case dispatch cfg rq w of (r, w1) \<Rightarrow> (case serve cfg rqs w1 of (rs, w2) \<Rightarrow> (r # rs, w2)))"

definition example_config :: app_config where
  "example_config = \<lparr>razorpay_key_id = Some ''rzp_test'', razorpay_key_secret = Some ''secret'',
     razorpay_hmac = sample_hmac, stripe_publishable_key = Some ''pk_test'', stripe_webhook_secret = None,
     stripe_construct_event = (\<lambda>_ _ _. Inl (ServiceError ''Invalid signature''))\<rparr>"

text \<open>Each route's path: the router prefix of \<open>main.py\<close> and the handler's decorator.\<close>

datatype route =
    RBusinessPlan | RMarketResearch | RFinancialForecast | RPitchDeck | RContent | RCreateChatbot
  | RChatbotRespond | RAnalyzeTicket | RSupportResponse | RPrioritizeTasks | RGenerateSchedule
  | RAnalyzeTimeUsage | RCalendarOptimization | RRazorpayOrder | RRazorpayVerify | RStripeIntent
  | RStripeWebhook | RRoot | RHealth

fun request_route :: "api_request \<Rightarrow> route" where
  "request_route (ReqBusinessPlan _) = RBusinessPlan"
| "request_route (ReqMarketResearch _) = RMarketResearch"
| "request_route (ReqFinancialForecast _) = RFinancialForecast"
| "request_route (ReqPitchDeck _) = RPitchDeck"
| "request_route (ReqContent _) = RContent"
| "request_route (ReqCreateChatbot _) = RCreateChatbot"
| "request_route (ReqChatbotRespond _) = RChatbotRespond"
| "request_route (ReqAnalyzeTicket _) = RAnalyzeTicket"
| "request_route (ReqSupportResponse _) = RSupportResponse"
| "request_route (ReqPrioritizeTasks _) = RPrioritizeTasks"
| "request_route (ReqGenerateSchedule _) = RGenerateSchedule"
| "request_route (ReqAnalyzeTimeUsage _) = RAnalyzeTimeUsage"
| "request_route (ReqCalendarOptimization _) = RCalendarOptimization"
| "request_route (ReqRazorpayOrder _) = RRazorpayOrder"
| "request_route (ReqRazorpayVerify _) = RRazorpayVerify"
| "request_route (ReqStripeIntent _) = RStripeIntent"
| "request_route (ReqStripeWebhook _ _) = RStripeWebhook"
| "request_route ReqRoot = RRoot"
| "request_route ReqHealth = RHealth"

fun route_path :: "route \<Rightarrow> string" where
  "route_path RBusinessPlan = ''/api/tools/generate-business-plan''"
| "route_path RMarketResearch = ''/api/tools/market-research''"
| "route_path RFinancialForecast = ''/api/tools/financial-forecast''"
| "route_path RPitchDeck = ''/api/tools/generate-pitch-deck''"
| "route_path RContent = ''/api/tools/generate-content''"
| "route_path RCreateChatbot = ''/api/tools/create-chatbot-config''"
| "route_path RChatbotRespond = ''/api/tools/chatbot-respond''"
| "route_path RAnalyzeTicket = ''/api/tools/analyze-support-ticket''"
| "route_path RSupportResponse = ''/api/tools/generate-support-response''"
| "route_path RPrioritizeTasks = ''/api/tools/prioritize-tasks''"
| "route_path RGenerateSchedule = ''/api/tools/generate-schedule''"
| "route_path RAnalyzeTimeUsage = ''/api/tools/analyze-time-usage''"
| "route_path RCalendarOptimization = ''/api/tools/calendar-optimization''"
| "route_path RRazorpayOrder = ''/api/payment/create-order-razorpay''"
| "route_path RRazorpayVerify = ''/api/payment/verify-payment-razorpay''"
| "route_path RStripeIntent = ''/api/payment/create-payment-intent-stripe''"
| "route_path RStripeWebhook = ''/api/payment/webhook/stripe''"
| "route_path RRoot = ''/''"
| "route_path RHealth = ''/health''"

text \<open>The parameters a completion request carries besides its prompt, and the
  completion requests a dispatched request appends to the log.\<close>

definition chat_params :: "chat_request \<Rightarrow> string \<times> string option \<times> rat \<times> int" where
  "chat_params c = (cr_model c, map_of (cr_messages c) ''system'', cr_temperature c, cr_max_tokens c)"

fun completion_of :: "outbound \<Rightarrow> chat_request list" where
  "completion_of (Completion c) = [c]"
| "completion_of _ = []"

definition completions_sent :: "app_config \<Rightarrow> api_request \<Rightarrow> world \<Rightarrow> chat_request list" where
  "completions_sent cfg rq w = concat (map completion_of (drop (length (calls w)) (calls (snd (dispatch cfg rq w)))))"

inductive_cases runs_NilE: "runs cfg w [] rs w'"
inductive_cases runs_ConsE: "runs cfg w (rq # rqs) rs w'"

lemmas handler_defs = generate_business_plan_def conduct_market_research_def generate_financial_forecast_def
  generate_pitch_deck_def generate_content_def chatbot_respond_def analyze_support_ticket_def
  generate_support_response_def prioritize_tasks_def generate_schedule_def analyze_time_usage_def

lemmas shape_defs = business_plan_shape_def market_research_shape_def pitch_deck_shape_def support_shape_def
  content_shape_def text_of_def

lemma runs_serve: "runs cfg w rqs rs w' \<longleftrightarrow> serve cfg rqs w = (rs, w')"
proof
  show "runs cfg w rqs rs w' \<Longrightarrow> serve cfg rqs w = (rs, w')"
    by (induction rule: runs.induct) simp_all
next
  show "serve cfg rqs w = (rs, w') \<Longrightarrow> runs cfg w rqs rs w'"
  proof (induction rqs arbitrary: w rs)
    case Nil
    then show ?case by (auto intro: runs_Nil)
  next
    case (Cons rq rqs)
    then show ?case
      by (auto split: prod.splits intro: runs_Cons)
  qed
qed

lemma appends_dispatch:
  "appends_calls (\<lambda>c. request_vendor rq = Some (vendor_of_call c)) (call_bound rq) (dispatch cfg rq)"
proof (cases rq)
  case (ReqCreateChatbot r)
  then show ?thesis
    using appends_create_chatbot_config [of r]
    by (auto elim!: appends_calls_mono)
next
  case (ReqCalendarOptimization d)
  then show ?thesis
    using appends_optimize_calendar [of d]
    by (auto elim!: appends_calls_mono)
next
  case (ReqRazorpayOrder b)
  then show ?thesis
    using appends_create_razorpay_order [of "razorpay_key_id cfg" b]
    by (auto elim!: appends_calls_mono)
next
  case (ReqStripeIntent b)
  then show ?thesis
    using appends_create_stripe_payment_intent [of "stripe_publishable_key cfg" b]
    by (auto elim!: appends_calls_mono)
qed (simp_all add: appends_lift appends_rreturn appends_endpoint_pos generate_business_plan_def
       conduct_market_research_def generate_financial_forecast_def generate_pitch_deck_def generate_content_def
       chatbot_respond_def analyze_support_ticket_def generate_support_response_def prioritize_tasks_def
       generate_schedule_def analyze_time_usage_def)

lemma route_path_inj: "inj route_path"
  unfolding inj_def
proof (intro allI impI)
  fix x y assume "route_path x = route_path y"
  then show "x = y" by (cases x; cases y) simp_all
qed

lemma completions_sent_endpoint:
  "dispatch cfg rq = endpoint pre c shape \<Longrightarrow> completions_sent cfg rq w = [c]"
  by (simp add: completions_sent_def endpoint_world)

lemma completions_sent_other_vendor:
  assumes "request_vendor rq \<noteq> Some OpenAI"
  shows "completions_sent cfg rq w = []"
proof -
  obtain new where "snd (dispatch cfg rq w) = w\<lparr>calls := calls w @ new\<rparr>"
      "list_all (\<lambda>c. request_vendor rq = Some (vendor_of_call c)) new"
    using appends_callsD [OF appends_dispatch [where cfg = cfg and rq = rq], of w] by blast
  moreover have "completion_of c = []" if "request_vendor rq = Some (vendor_of_call c)" for c
    using that assms by (cases c) simp_all
  ultimately show ?thesis by (simp add: completions_sent_def list_all_iff)
qed

lemma completions_sent_calendar:
  "c \<in> set (completions_sent cfg (ReqCalendarOptimization d) w) \<Longrightarrow> \<exists>n ws. c = calendar_chat n ws"
  by (auto simp: completions_sent_def optimize_calendar_def guarded_def rbind_def call_completion_def
           split: prod.splits sum.splits)

lemma content_persona_varies:
  "ct_content_type r \<noteq> ct_content_type r' \<Longrightarrow> chat_params (content_chat r) \<noteq> chat_params (content_chat r')"
  by (simp add: chat_params_def content_chat_def chat_def)

text \<open>C25. In every session, the responses answer the requests one for one, the world
  changes only by calls appended to the log (the services' answers are untouched), the
  log grows by at most the sum of the routes' call bounds (five for the chatbot builder,
  none for payment verification, the webhook, \<open>/\<close> and \<open>/health\<close>, one otherwise),
  and every call goes to a vendor that one of the session's routes may contact: an
  AI-tool session never reaches a payment provider.\<close>

theorem session_calls:
  assumes "runs cfg w rqs rs w'"
  shows "length rs = length rqs \<and>
         (\<exists>new. w' = w\<lparr>calls := calls w @ new\<rparr> \<and> length new \<le> sum_list (map call_bound rqs) \<and>
                list_all (\<lambda>c. Some (vendor_of_call c) \<in> set (map request_vendor rqs)) new)"
  using assms
proof (induction rule: runs.induct)
  case (runs_Nil w)
  show ?case by (intro conjI exI [of _ "[]"]) simp_all
next
  case (runs_Cons rq w r w1 rqs rs w2)
  obtain new1 where 1: "w1 = w\<lparr>calls := calls w @ new1\<rparr>" "length new1 \<le> call_bound rq"
      "list_all (\<lambda>c. request_vendor rq = Some (vendor_of_call c)) new1"
    using appends_callsD [OF appends_dispatch [where cfg = cfg and rq = rq], of w] runs_Cons.hyps(1) by auto
  obtain new2 where 2: "w2 = w1\<lparr>calls := calls w1 @ new2\<rparr>" "length new2 \<le> sum_list (map call_bound rqs)"
      "list_all (\<lambda>c. Some (vendor_of_call c) \<in> set (map request_vendor rqs)) new2"
    using runs_Cons.IH by blast
  show ?case
  proof (intro conjI exI [of _ "new1 @ new2"])
    show "length (r # rs) = length (rq # rqs)" using runs_Cons.IH by simp
    show "w2 = w\<lparr>calls := calls w @ new1 @ new2\<rparr>" using 1 2 by simp
    show "length (new1 @ new2) \<le> sum_list (map call_bound (rq # rqs))" using 1 2 by simp
    show "list_all (\<lambda>c. Some (vendor_of_call c) \<in> set (map request_vendor (rq # rqs))) (new1 @ new2)"
      using 1(3) 2(3) by (auto simp: list_all_iff)
  qed
qed

theorem session_calls_witness:
  "length (fst (serve example_config [ReqHealth, ReqContent website_example] (answering_world None))) = 2 \<and>
   (\<exists>new. snd (serve example_config [ReqHealth, ReqContent website_example] (answering_world None)) =
      (answering_world None)\<lparr>calls := new\<rparr> \<and> length new \<le> 1 \<and>
      list_all (\<lambda>c. Some (vendor_of_call c) \<in> {None, Some OpenAI}) new)"
proof -
  let ?s = "serve example_config [ReqHealth, ReqContent website_example] (answering_world None)"
  have "runs example_config (answering_world None) [ReqHealth, ReqContent website_example] (fst ?s) (snd ?s)"
    by (simp add: runs_serve)
  from session_calls [OF this] show ?thesis by (simp add: answering_world_def)
qed

text \<open>C8. The persona, model, temperature and token limit of a completion request are
  fixed per route, as the spec's invoker pattern says: two requests to the same route,
  under any configuration and world, send completion requests with the same parameters.
  The exceptions are the content generator, whose persona names the requested content
  type, and the chatbot builder, whose system prompt is built from the bot's
  configuration; routes that make no completion call hold trivially.\<close>

theorem fixed_parameters:
  assumes "request_route rq = request_route rq'" and "request_route rq \<notin> {RContent, RCreateChatbot}"
    and "c \<in> set (completions_sent cfg rq w)" and "c' \<in> set (completions_sent cfg' rq' w')"
  shows "chat_params c = chat_params c'"
  using assms
  by (cases rq; cases rq'; simp only: request_route.simps route.distinct route.simps simp_thms empty_iff insert_iff;
      auto simp: completions_sent_endpoint completions_sent_other_vendor chat_params_def chat_def
        generate_business_plan_def business_plan_request_chat_def conduct_market_research_def market_research_chat_def
        generate_financial_forecast_def forecast_chat_def generate_pitch_deck_def pitch_deck_chat_def
        chatbot_respond_def chatbot_respond_request_def analyze_support_ticket_def support_request_def
        generate_support_response_def support_response_request_def prioritize_tasks_def prioritize_chat_def
        generate_schedule_def schedule_chat_def analyze_time_usage_def time_usage_chat_def calendar_chat_def
        dest!: completions_sent_calendar)

theorem fixed_parameters_witness:
  "chat_params (business_plan_request_chat plan_example) =
   chat_params (business_plan_request_chat (plan_example\<lparr>bp_business_name := ''Zeta''\<rparr>))"
proof -
  let ?r = "plan_example\<lparr>bp_business_name := ''Zeta''\<rparr>"
  have 1: "business_plan_request_chat plan_example \<in>
      set (completions_sent example_config (ReqBusinessPlan plan_example) (answering_world None))"
    by (simp add: completions_sent_def generate_business_plan_def endpoint_world)
  have 2: "business_plan_request_chat ?r \<in> set (completions_sent example_config (ReqBusinessPlan ?r) (answering_world None))"
    by (simp add: completions_sent_def generate_business_plan_def endpoint_world)
  show ?thesis by (rule fixed_parameters [OF _ _ 1 2]) simp_all
qed

text \<open>C23. Every route answers either with a dict or with an \<open>HTTPException\<close>, on every
  request, configuration and world: no other exception escapes a handler, and no handler
  returns a value that is not a JSON object.\<close>

theorem dispatch_response_type: "http_response (fst (dispatch cfg rq w))"
proof (cases rq)
  case (ReqCreateChatbot c)
  then show ?thesis
    by (simp add: create_chatbot_config_def chatbot_envelope_def http_response_guarded obj_intros)
next
  case (ReqCalendarOptimization d)
  then show ?thesis
    by (simp add: optimize_calendar_def, intro http_response_guarded obj_intros)
next
  case (ReqRazorpayOrder b)
  then show ?thesis
    by (simp add: create_razorpay_order_def, intro http_response_guarded obj_intros)
next
  case (ReqStripeIntent b)
  then show ?thesis
    by (simp add: create_stripe_payment_intent_def, intro http_response_guarded obj_intros)
next
  case (ReqRazorpayVerify b)
  then show ?thesis
    by (simp add: lift_def verify_razorpay_payment_def, intro http_response_catch_all obj_intros)
next
  case (ReqStripeWebhook p s)
  then show ?thesis
    by (simp add: lift_def stripe_webhook_def, intro http_response_catch_all obj_intros)
qed (simp_all add: handler_defs http_response_endpoint shape_defs obj_intros rreturn_def root_info_def health_info_def
       forecast_envelope_def Let_def)

end
