(* ===== verification/Cors.thy ===== *)
theory Cors
  imports PyStr "HOL-Library.Char_ord" "HOL-Library.List_Lexorder"
begin

text \<open>
  The CORS set-up of \<open>src/app/main.py\<close> (\<open>app.add_middleware(CORSMiddleware, ...)\<close>)
  and the decisions Starlette's \<open>CORSMiddleware\<close> takes from it: which origins are allowed,
  the headers of a simple response, and the answer to a preflight request. Headers are
  an association list updated in place, as the middleware's header dict is.
\<close>

record cors_config =
  allow_origins :: "string list"
  allow_credentials :: bool
  allow_methods :: "string list"
  allow_headers :: "string list"

definition app_cors :: cors_config where
  "app_cors = \<lparr>allow_origins =
       [''https://frontend-for-sphere-ai-k5z9-mvebyc1c1-rohits-projects-6d1c0263.vercel.app'',
        ''http://localhost:3000'', ''http://localhost:3001'', ''*''],
     allow_credentials = True, allow_methods = [''*''], allow_headers = [''*'']\<rparr>"

definition all_methods :: "string list" where
  "all_methods = [''DELETE'', ''GET'', ''HEAD'', ''OPTIONS'', ''PATCH'', ''POST'', ''PUT'']"

definition allow_all_origins :: "cors_config \<Rightarrow> bool" where
  "allow_all_origins c = (''*'' \<in> set (allow_origins c))"

definition allow_all_headers :: "cors_config \<Rightarrow> bool" where
  "allow_all_headers c = (''*'' \<in> set (allow_headers c))"

definition effective_methods :: "cors_config \<Rightarrow> string list" where
  "effective_methods c = (if ''*'' \<in> set (allow_methods c) then all_methods else allow_methods c)"

definition is_allowed_origin :: "cors_config \<Rightarrow> string \<Rightarrow> bool" where
  "is_allowed_origin c origin = (allow_all_origins c \<or> origin \<in> set (allow_origins c))"

definition preflight_explicit_allow_origin :: "cors_config \<Rightarrow> bool" where
  "preflight_explicit_allow_origin c = (\<not> allow_all_origins c \<or> allow_credentials c)"

text \<open>\<open>simple_headers\<close>, then \<open>simple_response\<close>: a request with a cookie, or any request
  when only listed origins are allowed, gets its own origin mirrored back.\<close>

definition simple_headers :: "cors_config \<Rightarrow> (string \<times> string) list" where
  "simple_headers c =
     (if allow_all_origins c then [(''Access-Control-Allow-Origin'', ''*'')] else []) @
     (if allow_credentials c then [(''Access-Control-Allow-Credentials'', ''true'')] else [])"

definition allow_explicit_origin :: "(string \<times> string) list \<Rightarrow> string \<Rightarrow> (string \<times> string) list" where
  "allow_explicit_origin hs origin = AList.update ''Vary'' ''Origin'' (AList.update ''Access-Control-Allow-Origin'' origin hs)"

definition simple_response_headers :: "cors_config \<Rightarrow> string \<Rightarrow> bool \<Rightarrow> (string \<times> string) list" where
  "simple_response_headers c origin has_cookie =
     (if allow_all_origins c \<and> has_cookie then allow_explicit_origin (simple_headers c) origin
      else if \<not> allow_all_origins c \<and> is_allowed_origin c origin then allow_explicit_origin (simple_headers c) origin
      else simple_headers c)"

text \<open>\<open>preflight_response\<close>: the failures collected for the origin, the method and the
  requested headers; any failure is a 400 \<open>Disallowed CORS ...\<close>, otherwise 200.\<close>

definition safelisted_headers :: "string list" where
  "safelisted_headers = [''Accept'', ''Accept-Language'', ''Content-Language'', ''Content-Type'']"

text \<open>\<open>allow_headers = sorted(SAFELISTED_HEADERS | set(allow_headers))\<close>; the check
  compares against their lower-cased forms.\<close>

definition cors_allow_headers :: "cors_config \<Rightarrow> string list" where
  "cors_allow_headers c = sort (remdups (safelisted_headers @ allow_headers c))"

definition preflight_base :: "cors_config \<Rightarrow> (string \<times> string) list" where
  "preflight_base c =
     (if preflight_explicit_allow_origin c then [(''Vary'', ''Origin'')] else [(''Access-Control-Allow-Origin'', ''*'')]) @
     [(''Access-Control-Allow-Methods'', py_join '', '' (effective_methods c)), (''Access-Control-Max-Age'', ''600'')] @
     (if cors_allow_headers c \<noteq> [] \<and> \<not> allow_all_headers c
      then [(''Access-Control-Allow-Headers'', py_join '', '' (cors_allow_headers c))] else []) @
     (if allow_credentials c then [(''Access-Control-Allow-Credentials'', ''true'')] else [])"

definition preflight_response ::
  "cors_config \<Rightarrow> string \<Rightarrow> string \<Rightarrow> string option \<Rightarrow> int \<times> string \<times> (string \<times> string) list" where
  "preflight_response c origin method req_headers =
     (let hs0 = preflight_base c;
          (hs1, f1) = (if is_allowed_origin c origin
                       then (if preflight_explicit_allow_origin c
                             then AList.update ''Access-Control-Allow-Origin'' origin hs0 else hs0, [])
                       else (hs0, [''origin'']));
          f2 = (if method \<in> set (effective_methods c) then [] else [''method'']);
          (hs2, f3) = (case req_headers of
                         None \<Rightarrow> (hs1, [])
                       | Some rh \<Rightarrow>
                           if allow_all_headers c then (AList.update ''Access-Control-Allow-Headers'' rh hs1, [])
                           else (hs1, if list_all (\<lambda>h. py_strip (py_lower h) \<in> set (map py_lower (cors_allow_headers c))) (py_split_char (CHR '','') rh)
                                      then [] else [''headers'']));
          failures = f1 @ f2 @ f3
      in if failures = [] then (200, ''OK'', hs2)
         else (400, ''Disallowed CORS '' @ py_join '', '' failures, hs2))"

section \<open>Properties\<close>

lemma app_cors_flags:
  "allow_all_origins app_cors" "allow_all_headers app_cors" "allow_credentials app_cors"
  "preflight_explicit_allow_origin app_cors" "effective_methods app_cors = all_methods"
  by (simp_all add: app_cors_def allow_all_origins_def allow_all_headers_def preflight_explicit_allow_origin_def
                    effective_methods_def)

text \<open>The wildcard supersedes the allow-list: the three named origins change nothing.\<close>

lemma app_cors_wildcard_only:
  "is_allowed_origin app_cors origin = is_allowed_origin (app_cors\<lparr>allow_origins := [''*'']\<rparr>) origin"
  by (simp add: is_allowed_origin_def allow_all_origins_def app_cors_def)

text \<open>C27. Every origin, whatever site it is, is granted credentialed cross-origin access:
  its preflight for a \<open>POST\<close> (with any requested headers) is answered 200 with its own
  origin and \<open>Allow-Credentials: true\<close>, and so is a simple request that carries cookies.\<close>

theorem any_origin_credentialed:
  "fst (preflight_response app_cors origin ''POST'' rh) = 200 \<and>
   map_of (snd (snd (preflight_response app_cors origin ''POST'' rh))) ''Access-Control-Allow-Origin'' = Some origin \<and>
   map_of (snd (snd (preflight_response app_cors origin ''POST'' rh))) ''Access-Control-Allow-Credentials'' = Some ''true'' \<and>
   map_of (simple_response_headers app_cors origin True) ''Access-Control-Allow-Origin'' = Some origin \<and>
   map_of (simple_response_headers app_cors origin True) ''Access-Control-Allow-Credentials'' = Some ''true''"
  by (cases rh)
     (simp_all add: preflight_response_def app_cors_flags is_allowed_origin_def preflight_base_def all_methods_def
        simple_response_headers_def simple_headers_def allow_explicit_origin_def update_conv')

end
