(* ===== verification/Models.thy ===== *)
theory Models
  imports Prelude
begin

text \<open>
  \<open>src/app/models.py\<close>: the SQLAlchemy schema. Each table is a record whose nullable
  columns are options (\<open>None\<close> is SQL \<open>NULL\<close>, or a column left unset before insert);
  \<open>DateTime\<close> is a timestamp in seconds. A column's \<open>default\<close> is applied at insert to a
  column left unset, \<open>onupdate\<close> at update; the clock \<open>datetime.utcnow\<close> is the
  parameter \<open>now\<close>. The database holds one list of rows per table. Its constraints
  (primary keys, the unique e-mail, the foreign keys to \<open>users.id\<close>) are the predicate
  \<open>db_wf\<close>, enforced by the inserts, which fail with an integrity error as the database
  does. The \<open>relationship(..., back_populates=...)\<close> pairs are navigation functions.
  No handler of the application reads or writes these tables.
\<close>

type_synonym datetime = int

record user =
  u_id :: int
  u_email :: "string option"
  u_full_name :: "string option"
  u_hashed_password :: "string option"
  u_is_active :: "bool option"
  u_subscription_tier :: "string option"
  u_created_at :: "datetime option"

record subscription =
  s_id :: int
  s_user_id :: "int option"
  s_plan_name :: "string option"
  s_status :: "string option"
  s_amount :: "rat option"
  s_currency :: "string option"
  s_billing_cycle :: "string option"
  s_payment_gateway :: "string option"
  s_gateway_subscription_id :: "string option"
  s_start_date :: "datetime option"
  s_end_date :: "datetime option"
  s_auto_renew :: "bool option"

record usage_log =
  l_id :: int
  l_user_id :: "int option"
  l_tool_name :: "string option"
  l_action :: "string option"
  l_credits_used :: "int option"
  l_timestamp :: "datetime option"
  l_metadata :: "string option"

record generated_content =
  g_id :: int
  g_user_id :: "int option"
  g_tool_name :: "string option"
  g_title :: "string option"
  g_content :: "string option"
  g_created_at :: "datetime option"
  g_updated_at :: "datetime option"

text \<open>\<open>Column(..., default=d)\<close>: an unset column takes \<open>d\<close> at insert.\<close>

definition col_default :: "'a option \<Rightarrow> 'a \<Rightarrow> 'a option" where
  "col_default v d = (case v of None \<Rightarrow> Some d | Some x \<Rightarrow> Some x)"

definition user_defaults :: "datetime \<Rightarrow> user \<Rightarrow> user" where
  "user_defaults now u = u\<lparr>u_is_active := col_default (u_is_active u) True,
     u_subscription_tier := col_default (u_subscription_tier u) ''free'',
     u_created_at := col_default (u_created_at u) now\<rparr>"

definition subscription_defaults :: "datetime \<Rightarrow> subscription \<Rightarrow> subscription" where
  "subscription_defaults now s = s\<lparr>s_status := col_default (s_status s) ''active'',
     s_start_date := col_default (s_start_date s) now, s_auto_renew := col_default (s_auto_renew s) True\<rparr>"

definition usage_log_defaults :: "datetime \<Rightarrow> usage_log \<Rightarrow> usage_log" where
  "usage_log_defaults now l = l\<lparr>l_credits_used := col_default (l_credits_used l) 1,
     l_timestamp := col_default (l_timestamp l) now\<rparr>"

definition content_defaults :: "datetime \<Rightarrow> generated_content \<Rightarrow> generated_content" where
  "content_defaults now g = g\<lparr>g_created_at := col_default (g_created_at g) now,
     g_updated_at := col_default (g_updated_at g) now\<rparr>"

text \<open>\<open>updated_at = Column(DateTime, ..., onupdate=datetime.utcnow)\<close>.\<close>

definition content_on_update :: "datetime \<Rightarrow> generated_content \<Rightarrow> generated_content" where
  "content_on_update now g = g\<lparr>g_updated_at := Some now\<rparr>"

record db =
  users :: "user list"
  subscriptions :: "subscription list"
  usage_logs :: "usage_log list"
  contents :: "generated_content list"

definition fk_ok :: "db \<Rightarrow> int option \<Rightarrow> bool" where
  "fk_ok d r = (case r of None \<Rightarrow> True | Some i \<Rightarrow> i \<in> set (map u_id (users d)))"

definition db_wf :: "db \<Rightarrow> bool" where
  "db_wf d \<longleftrightarrow>
     distinct (map u_id (users d)) \<and> distinct (map s_id (subscriptions d)) \<and>
     distinct (map l_id (usage_logs d)) \<and> distinct (map g_id (contents d)) \<and>
     distinct (List.map_filter u_email (users d)) \<and>
     list_all (fk_ok d \<circ> s_user_id) (subscriptions d) \<and> list_all (fk_ok d \<circ> l_user_id) (usage_logs d) \<and>
     list_all (fk_ok d \<circ> g_user_id) (contents d)"

datatype db_error = IntegrityError string

definition insert_user :: "datetime \<Rightarrow> user \<Rightarrow> db \<Rightarrow> db_error + db" where
  "insert_user now u d =
     (if u_id u \<in> set (map u_id (users d)) then Inl (IntegrityError ''UNIQUE constraint failed: users.id'')
      else if u_email u \<noteq> None \<and> u_email u \<in> set (map u_email (users d))
      then Inl (IntegrityError ''UNIQUE constraint failed: users.email'')
      else Inr (d\<lparr>users := users d @ [user_defaults now u]\<rparr>))"

definition insert_subscription :: "datetime \<Rightarrow> subscription \<Rightarrow> db \<Rightarrow> db_error + db" where
  "insert_subscription now s d =
     (if s_id s \<in> set (map s_id (subscriptions d)) then Inl (IntegrityError ''UNIQUE constraint failed: subscriptions.id'')
      else if \<not> fk_ok d (s_user_id s) then Inl (IntegrityError ''FOREIGN KEY constraint failed'')
      else Inr (d\<lparr>subscriptions := subscriptions d @ [subscription_defaults now s]\<rparr>))"

definition insert_usage_log :: "datetime \<Rightarrow> usage_log \<Rightarrow> db \<Rightarrow> db_error + db" where
  "insert_usage_log now l d =
     (if l_id l \<in> set (map l_id (usage_logs d)) then Inl (IntegrityError ''UNIQUE constraint failed: usage_logs.id'')
      else if \<not> fk_ok d (l_user_id l) then Inl (IntegrityError ''FOREIGN KEY constraint failed'')
      else Inr (d\<lparr>usage_logs := usage_logs d @ [usage_log_defaults now l]\<rparr>))"

definition insert_content :: "datetime \<Rightarrow> generated_content \<Rightarrow> db \<Rightarrow> db_error + db" where
  "insert_content now g d =
     (if g_id g \<in> set (map g_id (contents d)) then Inl (IntegrityError ''UNIQUE constraint failed: generated_content.id'')
      else if \<not> fk_ok d (g_user_id g) then Inl (IntegrityError ''FOREIGN KEY constraint failed'')
      else Inr (d\<lparr>contents := contents d @ [content_defaults now g]\<rparr>))"

text \<open>An update of the row with id \<open>i\<close> by \<open>f\<close> (a session's attribute assignments and
  \<open>commit\<close>); the database re-checks the constraints on the updated row.\<close>

definition update_content ::
  "datetime \<Rightarrow> int \<Rightarrow> (generated_content \<Rightarrow> generated_content) \<Rightarrow> db \<Rightarrow> db_error + db" where
  "update_content now i f d =
     (let new = map (\<lambda>g. if g_id g = i then content_on_update now (f g) else g) (contents d) in
      if \<not> distinct (map g_id new) then Inl (IntegrityError ''UNIQUE constraint failed: generated_content.id'')
      else if \<not> list_all (fk_ok d \<circ> g_user_id) new then Inl (IntegrityError ''FOREIGN KEY constraint failed'')
      else Inr (d\<lparr>contents := new\<rparr>))"

datatype db_op =
    InsertUser datetime user
  | InsertSubscription datetime subscription
  | InsertUsageLog datetime usage_log
  | InsertContent datetime generated_content
  | UpdateContent datetime int "generated_content \<Rightarrow> generated_content"

fun db_step :: "db_op \<Rightarrow> db \<Rightarrow> db_error + db" where
  "db_step (InsertUser now u) = insert_user now u"
| "db_step (InsertSubscription now s) = insert_subscription now s"
| "db_step (InsertUsageLog now l) = insert_usage_log now l"
| "db_step (InsertContent now g) = insert_content now g"
| "db_step (UpdateContent now i f) = update_content now i f"

definition empty_db :: db where
  "empty_db = \<lparr>users = [], subscriptions = [], usage_logs = [], contents = []\<rparr>"

inductive db_reachable :: "db \<Rightarrow> bool" where
  reach_empty: "db_reachable empty_db"
| reach_step: "db_reachable d \<Longrightarrow> db_step op d = Inr d' \<Longrightarrow> db_reachable d'"

text \<open>\<open>User.subscriptions\<close> / \<open>Subscription.user\<close> and \<open>User.usage_logs\<close> /
  \<open>UsageLog.user\<close>.\<close>

definition user_subscriptions :: "db \<Rightarrow> user \<Rightarrow> subscription list" where
  "user_subscriptions d u = filter (\<lambda>s. s_user_id s = Some (u_id u)) (subscriptions d)"

definition subscription_user :: "db \<Rightarrow> subscription \<Rightarrow> user option" where
  "subscription_user d s = find (\<lambda>u. s_user_id s = Some (u_id u)) (users d)"

definition user_usage_logs :: "db \<Rightarrow> user \<Rightarrow> usage_log list" where
  "user_usage_logs d u = filter (\<lambda>l. l_user_id l = Some (u_id u)) (usage_logs d)"

definition usage_log_user :: "db \<Rightarrow> usage_log \<Rightarrow> user option" where
  "usage_log_user d l = find (\<lambda>u. l_user_id l = Some (u_id u)) (users d)"

section \<open>Lemmas\<close>

lemma fk_ok_mono: "set (map u_id (users d)) \<subseteq> set (map u_id (users d')) \<Longrightarrow> fk_ok d r \<Longrightarrow> fk_ok d' r"
  by (auto simp: fk_ok_def split: option.splits)

lemma fk_ok_upd [simp]:
  "fk_ok (d\<lparr>subscriptions := x\<rparr>) = fk_ok d" "fk_ok (d\<lparr>usage_logs := y\<rparr>) = fk_ok d"
  "fk_ok (d\<lparr>contents := z\<rparr>) = fk_ok d"
  by (simp_all add: fk_ok_def fun_eq_iff split: option.split)

lemma map_filter_snoc: "List.map_filter f (xs @ [x]) = List.map_filter f xs @ (case f x of None \<Rightarrow> [] | Some y \<Rightarrow> [y])"
  by (simp add: map_filter_def split: option.splits)

lemma in_map_filter: "e \<in> set (List.map_filter f xs) \<longleftrightarrow> Some e \<in> set (map f xs)"
  by (induction xs) (auto simp: map_filter_simps split: option.splits)

text \<open>Replacing one table keeps the constraints when the new table keeps them.\<close>

lemma wf_set_subscriptions:
  "db_wf d \<Longrightarrow> distinct (map s_id ss) \<Longrightarrow> list_all (fk_ok d \<circ> s_user_id) ss \<Longrightarrow>
     db_wf (d\<lparr>subscriptions := ss\<rparr>)"
  by (simp add: db_wf_def)

lemma wf_set_usage_logs:
  "db_wf d \<Longrightarrow> distinct (map l_id ls) \<Longrightarrow> list_all (fk_ok d \<circ> l_user_id) ls \<Longrightarrow>
     db_wf (d\<lparr>usage_logs := ls\<rparr>)"
  by (simp add: db_wf_def)

lemma wf_set_contents:
  "db_wf d \<Longrightarrow> distinct (map g_id cs) \<Longrightarrow> list_all (fk_ok d \<circ> g_user_id) cs \<Longrightarrow>
     db_wf (d\<lparr>contents := cs\<rparr>)"
  by (simp add: db_wf_def)

lemma wf_add_user:
  assumes wf: "db_wf d" and fresh: "u_id u \<notin> set (map u_id (users d))"
    and mail: "u_email u = None \<or> u_email u \<notin> set (map u_email (users d))"
  shows "db_wf (d\<lparr>users := users d @ [u]\<rparr>)" (is "db_wf ?d")
proof -
  have mono: "fk_ok d r \<Longrightarrow> fk_ok ?d r" for r by (rule fk_ok_mono) auto
  have "distinct (List.map_filter u_email (users ?d))"
    using wf mail by (auto simp: db_wf_def map_filter_snoc in_map_filter split: option.splits)
  moreover have "list_all (fk_ok ?d \<circ> s_user_id) (subscriptions d)" "list_all (fk_ok ?d \<circ> l_user_id) (usage_logs d)"
      "list_all (fk_ok ?d \<circ> g_user_id) (contents d)"
    using wf mono by (simp_all add: db_wf_def list_all_iff)
  ultimately show ?thesis using wf fresh by (simp add: db_wf_def)
qed

lemma insert_user_wf:
  "db_wf d \<Longrightarrow> insert_user now u d = Inr d' \<Longrightarrow> db_wf d'"
  by (auto simp: insert_user_def user_defaults_def split: if_splits intro!: wf_add_user)

lemma insert_subscription_wf:
  "db_wf d \<Longrightarrow> insert_subscription now s d = Inr d' \<Longrightarrow> db_wf d'"
  unfolding insert_subscription_def
  by (auto split: if_splits intro!: wf_set_subscriptions)
     (simp_all add: db_wf_def subscription_defaults_def)

lemma insert_usage_log_wf:
  "db_wf d \<Longrightarrow> insert_usage_log now l d = Inr d' \<Longrightarrow> db_wf d'"
  unfolding insert_usage_log_def
  by (auto split: if_splits intro!: wf_set_usage_logs)
     (simp_all add: db_wf_def usage_log_defaults_def)

lemma insert_content_wf:
  "db_wf d \<Longrightarrow> insert_content now g d = Inr d' \<Longrightarrow> db_wf d'"
  unfolding insert_content_def
  by (auto split: if_splits intro!: wf_set_contents)
     (simp_all add: db_wf_def content_defaults_def)

lemma update_content_wf:
  "db_wf d \<Longrightarrow> update_content now i f d = Inr d' \<Longrightarrow> db_wf d'"
  unfolding update_content_def Let_def
  by (auto split: if_splits intro!: wf_set_contents)

lemma db_step_wf:
  assumes "db_wf d" and "db_step op d = Inr d'" shows "db_wf d'"
  using assms(2)
  by (cases op)
     (auto intro: insert_user_wf [OF assms(1)] insert_subscription_wf [OF assms(1)] insert_usage_log_wf [OF assms(1)]
                  insert_content_wf [OF assms(1)] update_content_wf [OF assms(1)])

lemma db_reachable_wf: "db_reachable d \<Longrightarrow> db_wf d"
proof (induction rule: db_reachable.induct)
  case reach_empty
  then show ?case by (simp add: db_wf_def empty_db_def map_filter_def)
next
  case (reach_step d op d')
  from reach_step.IH reach_step.hyps(2) show ?case by (rule db_step_wf)
qed

text \<open>\<open>back_populates\<close>: with unique user ids, a subscription is among its user's
  subscriptions exactly when that user is the subscription's user.\<close>

lemma find_distinct_key:
  assumes "distinct (map k xs)" "x \<in> set xs"
  shows "find (\<lambda>y. Some (k y) = r) xs = Some x \<longleftrightarrow> r = Some (k x)"
proof
  assume "find (\<lambda>y. Some (k y) = r) xs = Some x"
  then show "r = Some (k x)" by (auto simp: find_Some_iff)
next
  assume "r = Some (k x)"
  with assms show "find (\<lambda>y. Some (k y) = r) xs = Some x"
    by (induction xs) (auto simp: image_iff)
qed

lemma subscription_back_populates:
  assumes "db_wf d" "u \<in> set (users d)" "s \<in> set (subscriptions d)"
  shows "s \<in> set (user_subscriptions d u) \<longleftrightarrow> subscription_user d s = Some u"
proof -
  have "distinct (map u_id (users d))" using assms(1) by (simp add: db_wf_def)
  from find_distinct_key [OF this assms(2), of "s_user_id s"] assms(3) show ?thesis
    by (auto simp: user_subscriptions_def subscription_user_def eq_commute [of "s_user_id s"])
qed

lemma usage_log_back_populates:
  assumes "db_wf d" "u \<in> set (users d)" "l \<in> set (usage_logs d)"
  shows "l \<in> set (user_usage_logs d u) \<longleftrightarrow> usage_log_user d l = Some u"
proof -
  have "distinct (map u_id (users d))" using assms(1) by (simp add: db_wf_def)
  from find_distinct_key [OF this assms(2), of "l_user_id l"] assms(3) show ?thesis
    by (auto simp: user_usage_logs_def usage_log_user_def eq_commute [of "l_user_id l"])
qed

end
