(* ===== verification/Spec2Isabelle.thy ===== *)
theory Spec2Isabelle
  imports App Cors Models
begin

text \<open>
  \<^bold>\<open>A verification library for the Sphere.AI backend\<close> (\<open>src/app\<close>).

  \<^bold>\<open>The program.\<close> A FastAPI application (\<open>main.py\<close>) mounts nine AI-tool routers
  under \<open>/api/tools\<close> and two payment routers under \<open>/api/payment\<close>. Every AI-tool
  handler renders a prompt from its request, calls the OpenAI chat-completion service
  once (the chatbot builder up to five times in sequence) and reshapes the answer into a
  JSON envelope; any exception becomes \<open>HTTPException(500, str(e))\<close>. The financial
  forecast first computes a projection table locally; the support-ticket analysis
  classifies the answer's sentiment by keyword search. The payment handlers forward to
  the Razorpay and Stripe SDKs.

  \<^bold>\<open>The library.\<close>
  \<^item> \<open>Prelude\<close>: the Python runtime the handlers use, shared by all components: JSON
    values (\<open>json\<close>), the exceptions that reach the handlers' \<open>except\<close> clauses
    (\<open>exc\<close>) and \<open>str(e)\<close> (\<open>exc_str\<close>), exceptions as values
    (\<open>'a result = exc + 'a\<close>, \<open>sbind\<close>, the catch-all \<open>catch_all\<close>),
    \<open>dict.get\<close> (\<open>py_get\<close>), decimal printing (\<open>show_int\<close>) and
    \<open>round(x, 2)\<close> (\<open>py_round2\<close>, half to even), with generic lemmas on integer ranges
    (the first element of a range satisfying a test, as \<open>next(...)\<close> finds it).
  \<^item> \<open>PyStr\<close>: \<open>str\<close> methods on Latin-1 strings: \<open>isspace\<close>, \<open>lower\<close>, \<open>in\<close>
    (proved equal to \<open>sublist\<close>), \<open>split()\<close> (a \<open>function\<close> with a length measure;
    its words are non-empty and space-free, and it inverts \<open>' '.join\<close>), \<open>strip\<close>,
    \<open>repr\<close>, \<open>x or default\<close>, and \<open>py_block\<close>, the layout of the indented
    triple-quoted f-string prompts (every line is a substring of the prompt).
  \<^item> \<open>PyFmt\<close>: \<open>int()\<close> of JSON values and strings (sign, digits, underscores,
    whitespace, the 4300-digit limit; \<open>int(str(n)) = n\<close> is proved), \<open>str\<close>/\<open>repr\<close>
    of JSON values and floats, and the \<open>,.2f\<close> format.
  \<^item> \<open>Service\<close>: the interface between handlers and the remote services. The state
    \<open>world\<close> holds the log of outbound calls (\<open>calls\<close>, a list of \<open>outbound\<close>) and
    answer oracles indexed by a call's position in the log, so any remote behaviour is a
    choice of oracle. \<open>call_completion\<close> is the OpenAI call; \<open>rbind\<close> sequences steps
    that may raise; \<open>guarded\<close> is the handlers' \<open>except Exception\<close>; \<open>endpoint\<close>
    is the single-call handler shape, with lemmas that it logs exactly one call and what
    it returns on success and on failure. \<open>obj_step m\<close> states that a step returns a
    dict or raises, with rules \<open>obj_intros\<close> per combinator; \<open>http_response\<close> is
    the shape of an answer (a dict or an \<open>HTTPException\<close>). \<open>appends_calls P n m\<close> states the call
    effect of a step (at most \<open>n\<close> calls appended, each satisfying \<open>P\<close>, the answers
    untouched), with one rule per combinator (collection \<open>appends_intros\<close>) so that a
    handler's effect is derived from its shape. These lemmas are the interface the
    component theories are proved against.
  \<^item> \<open>Forecast\<close>: \<open>financial_forecast.py\<close>. The request is the record
    \<open>forecast_request\<close>, a table row the record \<open>projection\<close>, the loop's three
    variables the record \<open>forecast_state\<close>; one iteration is \<open>forecast_step\<close>, the
    loop over \<open>range(1, forecast_months + 1)\<close> is \<open>run_forecast\<close> (a left fold over
    \<open>[1..forecast_months]\<close>, so it terminates for every horizon, negative ones
    included), the \<open>next(...)\<close> search is \<open>break_even_month\<close>, the summary dict is
    \<open>summarize\<close>. The loop is proved equal to a closed-form reference
    (\<open>forecast_row\<close>, \<open>cum_revenue\<close>, \<open>cum_costs\<close>) by induction on the horizon;
    from it follow the number of rows, the break-even month as the first month whose
    rounded cumulative profit exceeds the investment (or none), the totals as sums of the
    monthly formulas, zero growth, and monotonicity of the rounded revenue column.
    Properties that hold only of exact arithmetic (strict growth of revenue and costs,
    which IEEE doubles lose by absorption, underflow and overflow to \<open>inf\<close>) are not
    stated.
  \<^item> \<open>ForecastApi\<close>: the rest of \<open>generate_financial_forecast\<close>: each row as
    JSON, the prompt with the \<open>,.2f\<close> figures and \<open>json.dumps(projections[:12],
    indent=2)\<close>, the chat request and the envelope with the summary; it is proved that
    the prompt carries the closed-form table of the first \<open>min(12, N)\<close> months.
  \<^item> \<open>Support\<close>: \<open>customer_support.py\<close>: \<open>analyze_support_ticket\<close> (the ticket
    record, the prompt, the chat request, the keyword classifier \<open>sentiment_of\<close> and the
    envelope; lemmas for every branch (answer, no text, failure), the classifier's
    behaviour, and the prompt's content) and \<open>generate_support_response\<close>.
  \<^item> \<open>Payment\<close>: the four payment handlers. Order and intent creation log one vendor
    call with the amount times 100; the Razorpay verification's nested \<open>try\<close> is
    modelled as written (\<open>verify_inner\<close> inside \<open>catch_all\<close>), which proves that the
    intended 400 surfaces as a 500; the Stripe webhook acknowledges every verified event.
  \<^item> \<open>Templates\<close>: business plan, market research and pitch deck, whose prompts are
    generated line by line from the source f-strings.
  \<^item> \<open>Chatbot\<close>: \<open>chatbot_builder.py\<close>. The sample loop of
    \<open>create_chatbot_config\<close> is \<open>sample_loop\<close>, a recursion over the first five
    questions that threads the world and the dict (an association list updated with
    \<open>AList.update\<close>, so a repeated question overwrites its entry); proved: with all calls
    answered, one call per question in order and one entry per distinct question; with
    the \<open>k\<close>-th call failing, exactly the calls \<open>0..k\<close> and a 500.
    \<open>chatbot_respond\<close> is proved independent of the message's \<open>bot_config_id\<close>.
  \<^item> \<open>Content\<close>: \<open>content_generator.py\<close>: the length table with its default, the
    base prompt, the four content-type branches (a \<open>website\<close> request falls through all
    of them, as proved), the envelope with the \<open>split()\<close> word count.
  \<^item> \<open>Tasks\<close>: \<open>task_manager.py\<close> and \<open>time_management.py\<close>: the per-task lines
    with Python's \<open>or\<close> defaults (a zero estimate counts as missing), the four prompts,
    chat requests and envelopes, and \<open>len()\<close> of the untyped \<open>meetings\<close> entry.
    Proved: a zero estimate is scheduled as two hours; the calendar handler's single
    \<open>try\<close> answers a failing call, or a \<open>meetings\<close> value without length, with a 500
    whose detail is \<open>str(e)\<close>.
  \<^item> \<open>App\<close>: \<open>main.py\<close>. \<open>api_request\<close> has one constructor per route with its
    validated body, \<open>dispatch\<close> routes it to its handler (the payment handlers read their
    keys from \<open>app_config\<close>, the environment), \<open>/\<close> and \<open>/health\<close> answer constants.
    A session is the inductive relation \<open>runs\<close> (executable as \<open>serve\<close>, proved
    equivalent); by rule induction every session only appends calls to the log, at most
    the routes' call bounds, each to a vendor one of its routes may contact. Each request
    has a \<open>route\<close> with its path; \<open>completions_sent\<close> reads the completion requests a
    dispatched request appended, and it is proved that every route but the content
    generator and the chatbot builder sends the same model, persona, temperature and
    token limit for every request (the spec's fixed-persona invoker). Every route answers
    with a dict or an \<open>HTTPException\<close>.
  \<^item> \<open>Cors\<close>: the CORS set-up of \<open>main.py\<close> and the decisions of Starlette's
    \<open>CORSMiddleware\<close> (allowed origins, simple-response headers, preflight answer); it
    is proved that the \<open>*\<close> in the allow-list together with credentials grants every
    origin credentialed access, the named origins having no effect.
  \<^item> \<open>Models\<close>: the schema of \<open>models.py\<close>: four table records, column defaults and
    \<open>onupdate\<close>, the declared constraints as \<open>db_wf\<close>, inserts and updates that check
    them as the database does; \<open>db_wf\<close> holds on every state reachable from the empty
    database (rule induction over \<open>db_reachable\<close>), and the \<open>back_populates\<close>
    relationships agree. No handler touches these tables.
  \<^item> \<open>Spec2Isabelle\<close> (this theory): the header; it imports every component.

  \<^bold>\<open>Modelling choices.\<close> Python floats are exact rationals: the binary rounding of
  IEEE doubles is not modelled, \<open>round(x, 2)\<close> is rounded half to even on the exact
  value, and the literal \<open>1.02\<close> is \<open>102/100\<close>. Python integers are \<open>int\<close>.
  Strings are \<open>char\<close> lists read as Latin-1 code points. Consequently the model
  agrees with the program wherever doubles compute exactly; it differs at half-cent
  rounding ties (Python rounds the binary value: \<open>round(2.675, 2) = 2.67\<close>, the model
  gives 2.68), where \<open>1 + g/100\<close> is absorbed to \<open>1.0\<close> for tiny \<open>g\<close>, and where
  values underflow or overflow. The remote services always answer (with text, no text
  or an exception): a call that hangs is not represented, so no liveness of requests is
  claimed.

  \<^bold>\<open>Not modelled.\<close> The FastAPI metadata in \<open>main.py\<close> (title, description,
  version: no behaviour), the vendor SDKs themselves (their calls are the interface of the model), Python's
  \<open>OverflowError\<close> for a float power beyond the double range, and request validation
  by pydantic (a handler is applied to an already validated request). The rupee sign of
  the forecast prompt lies outside the Latin-1 model and is written as its UTF-8 bytes.
  Starlette's CORS middleware and the database's constraint checks are library
  behaviour, modelled from their documented semantics.

  \<^bold>\<open>Fuel.\<close> Every loop of the program runs over a finite list (the forecast range,
  the first five questions, the task list), so these are total \<open>fun\<close>s or folds;
  \<open>split()\<close> is a \<open>function\<close> terminating by the length of the remaining text. The one
  fuel bound is in the model of \<open>repr(float)\<close>: \<open>dec_scale\<close> searches the number of
  decimals with fuel 400, which covers the shortest repr of every double (at most 17
  significant digits and exponents down to \<open>-324\<close>); it is a modelling device and no
  property depends on its value.
\<close>

end
